theory Spec2Isabelle
  imports Main "HOL-Library.Word"
begin

unbundle bit_operations_syntax

section \<open>AES-128 with a first-order masked S-box (aes.c)\<close>

text \<open>
  A shallow embedding of \<^verbatim>\<open>aes.c\<close>: the masked AND gadget, the gate-level
  masked S-box, the key schedule, the round transforms, the forward and inverse
  cipher, and the ECB and CBC entry points.

  A \<^verbatim>\<open>uint8_t\<close> is an \<open>8 word\<close>. C promotes the operands of \<^verbatim>\<open>^ & | ~ << >>\<close> to
  \<^verbatim>\<open>int\<close> and the result is cut to eight bits when it is stored in a
  \<^verbatim>\<open>uint8_t\<close>; on \<open>8 word\<close> the operations \<open>XOR\<close>, \<open>AND\<close>, \<open>OR\<close>, \<open>NOT\<close>, \<open>push_bit\<close>
  and \<open>drop_bit\<close> give the same eight bits.
\<close>

type_synonym byte = "8 word"

subsection \<open>The constant tables\<close>

text \<open>\<^verbatim>\<open>static const uint8_t sbox[256]\<close>: the forward S-box.\<close>

definition sbox :: "byte list" where
  "sbox =
    [0x63, 0x7c, 0x77, 0x7b, 0xf2, 0x6b, 0x6f, 0xc5, 0x30, 0x01, 0x67, 0x2b, 0xfe, 0xd7, 0xab, 0x76,
     0xca, 0x82, 0xc9, 0x7d, 0xfa, 0x59, 0x47, 0xf0, 0xad, 0xd4, 0xa2, 0xaf, 0x9c, 0xa4, 0x72, 0xc0,
     0xb7, 0xfd, 0x93, 0x26, 0x36, 0x3f, 0xf7, 0xcc, 0x34, 0xa5, 0xe5, 0xf1, 0x71, 0xd8, 0x31, 0x15,
     0x04, 0xc7, 0x23, 0xc3, 0x18, 0x96, 0x05, 0x9a, 0x07, 0x12, 0x80, 0xe2, 0xeb, 0x27, 0xb2, 0x75,
     0x09, 0x83, 0x2c, 0x1a, 0x1b, 0x6e, 0x5a, 0xa0, 0x52, 0x3b, 0xd6, 0xb3, 0x29, 0xe3, 0x2f, 0x84,
     0x53, 0xd1, 0x00, 0xed, 0x20, 0xfc, 0xb1, 0x5b, 0x6a, 0xcb, 0xbe, 0x39, 0x4a, 0x4c, 0x58, 0xcf,
     0xd0, 0xef, 0xaa, 0xfb, 0x43, 0x4d, 0x33, 0x85, 0x45, 0xf9, 0x02, 0x7f, 0x50, 0x3c, 0x9f, 0xa8,
     0x51, 0xa3, 0x40, 0x8f, 0x92, 0x9d, 0x38, 0xf5, 0xbc, 0xb6, 0xda, 0x21, 0x10, 0xff, 0xf3, 0xd2,
     0xcd, 0x0c, 0x13, 0xec, 0x5f, 0x97, 0x44, 0x17, 0xc4, 0xa7, 0x7e, 0x3d, 0x64, 0x5d, 0x19, 0x73,
     0x60, 0x81, 0x4f, 0xdc, 0x22, 0x2a, 0x90, 0x88, 0x46, 0xee, 0xb8, 0x14, 0xde, 0x5e, 0x0b, 0xdb,
     0xe0, 0x32, 0x3a, 0x0a, 0x49, 0x06, 0x24, 0x5c, 0xc2, 0xd3, 0xac, 0x62, 0x91, 0x95, 0xe4, 0x79,
     0xe7, 0xc8, 0x37, 0x6d, 0x8d, 0xd5, 0x4e, 0xa9, 0x6c, 0x56, 0xf4, 0xea, 0x65, 0x7a, 0xae, 0x08,
     0xba, 0x78, 0x25, 0x2e, 0x1c, 0xa6, 0xb4, 0xc6, 0xe8, 0xdd, 0x74, 0x1f, 0x4b, 0xbd, 0x8b, 0x8a,
     0x70, 0x3e, 0xb5, 0x66, 0x48, 0x03, 0xf6, 0x0e, 0x61, 0x35, 0x57, 0xb9, 0x86, 0xc1, 0x1d, 0x9e,
     0xe1, 0xf8, 0x98, 0x11, 0x69, 0xd9, 0x8e, 0x94, 0x9b, 0x1e, 0x87, 0xe9, 0xce, 0x55, 0x28, 0xdf,
     0x8c, 0xa1, 0x89, 0x0d, 0xbf, 0xe6, 0x42, 0x68, 0x41, 0x99, 0x2d, 0x0f, 0xb0, 0x54, 0xbb, 0x16]"

text \<open>\<^verbatim>\<open>static const uint8_t rsbox[256]\<close>: the inverse S-box.\<close>

definition rsbox :: "byte list" where
  "rsbox =
    [0x52, 0x09, 0x6a, 0xd5, 0x30, 0x36, 0xa5, 0x38, 0xbf, 0x40, 0xa3, 0x9e, 0x81, 0xf3, 0xd7, 0xfb,
     0x7c, 0xe3, 0x39, 0x82, 0x9b, 0x2f, 0xff, 0x87, 0x34, 0x8e, 0x43, 0x44, 0xc4, 0xde, 0xe9, 0xcb,
     0x54, 0x7b, 0x94, 0x32, 0xa6, 0xc2, 0x23, 0x3d, 0xee, 0x4c, 0x95, 0x0b, 0x42, 0xfa, 0xc3, 0x4e,
     0x08, 0x2e, 0xa1, 0x66, 0x28, 0xd9, 0x24, 0xb2, 0x76, 0x5b, 0xa2, 0x49, 0x6d, 0x8b, 0xd1, 0x25,
     0x72, 0xf8, 0xf6, 0x64, 0x86, 0x68, 0x98, 0x16, 0xd4, 0xa4, 0x5c, 0xcc, 0x5d, 0x65, 0xb6, 0x92,
     0x6c, 0x70, 0x48, 0x50, 0xfd, 0xed, 0xb9, 0xda, 0x5e, 0x15, 0x46, 0x57, 0xa7, 0x8d, 0x9d, 0x84,
     0x90, 0xd8, 0xab, 0x00, 0x8c, 0xbc, 0xd3, 0x0a, 0xf7, 0xe4, 0x58, 0x05, 0xb8, 0xb3, 0x45, 0x06,
     0xd0, 0x2c, 0x1e, 0x8f, 0xca, 0x3f, 0x0f, 0x02, 0xc1, 0xaf, 0xbd, 0x03, 0x01, 0x13, 0x8a, 0x6b,
     0x3a, 0x91, 0x11, 0x41, 0x4f, 0x67, 0xdc, 0xea, 0x97, 0xf2, 0xcf, 0xce, 0xf0, 0xb4, 0xe6, 0x73,
     0x96, 0xac, 0x74, 0x22, 0xe7, 0xad, 0x35, 0x85, 0xe2, 0xf9, 0x37, 0xe8, 0x1c, 0x75, 0xdf, 0x6e,
     0x47, 0xf1, 0x1a, 0x71, 0x1d, 0x29, 0xc5, 0x89, 0x6f, 0xb7, 0x62, 0x0e, 0xaa, 0x18, 0xbe, 0x1b,
     0xfc, 0x56, 0x3e, 0x4b, 0xc6, 0xd2, 0x79, 0x20, 0x9a, 0xdb, 0xc0, 0xfe, 0x78, 0xcd, 0x5a, 0xf4,
     0x1f, 0xdd, 0xa8, 0x33, 0x88, 0x07, 0xc7, 0x31, 0xb1, 0x12, 0x10, 0x59, 0x27, 0x80, 0xec, 0x5f,
     0x60, 0x51, 0x7f, 0xa9, 0x19, 0xb5, 0x4a, 0x0d, 0x2d, 0xe5, 0x7a, 0x9f, 0x93, 0xc9, 0x9c, 0xef,
     0xa0, 0xe0, 0x3b, 0x4d, 0xae, 0x2a, 0xf5, 0xb0, 0xc8, 0xeb, 0xbb, 0x3c, 0x83, 0x53, 0x99, 0x61,
     0x17, 0x2b, 0x04, 0x7e, 0xba, 0x77, 0xd6, 0x26, 0xe1, 0x69, 0x14, 0x63, 0x55, 0x21, 0x0c, 0x7d]"

text \<open>\<^verbatim>\<open>static const uint8_t Rcon[255]\<close>: the round constants.\<close>

definition Rcon :: "byte list" where
  "Rcon =
    [0x8d, 0x01, 0x02, 0x04, 0x08, 0x10, 0x20, 0x40, 0x80, 0x1b, 0x36, 0x6c, 0xd8, 0xab, 0x4d, 0x9a,
     0x2f, 0x5e, 0xbc, 0x63, 0xc6, 0x97, 0x35, 0x6a, 0xd4, 0xb3, 0x7d, 0xfa, 0xef, 0xc5, 0x91, 0x39,
     0x72, 0xe4, 0xd3, 0xbd, 0x61, 0xc2, 0x9f, 0x25, 0x4a, 0x94, 0x33, 0x66, 0xcc, 0x83, 0x1d, 0x3a,
     0x74, 0xe8, 0xcb, 0x8d, 0x01, 0x02, 0x04, 0x08, 0x10, 0x20, 0x40, 0x80, 0x1b, 0x36, 0x6c, 0xd8,
     0xab, 0x4d, 0x9a, 0x2f, 0x5e, 0xbc, 0x63, 0xc6, 0x97, 0x35, 0x6a, 0xd4, 0xb3, 0x7d, 0xfa, 0xef,
     0xc5, 0x91, 0x39, 0x72, 0xe4, 0xd3, 0xbd, 0x61, 0xc2, 0x9f, 0x25, 0x4a, 0x94, 0x33, 0x66, 0xcc,
     0x83, 0x1d, 0x3a, 0x74, 0xe8, 0xcb, 0x8d, 0x01, 0x02, 0x04, 0x08, 0x10, 0x20, 0x40, 0x80, 0x1b,
     0x36, 0x6c, 0xd8, 0xab, 0x4d, 0x9a, 0x2f, 0x5e, 0xbc, 0x63, 0xc6, 0x97, 0x35, 0x6a, 0xd4, 0xb3,
     0x7d, 0xfa, 0xef, 0xc5, 0x91, 0x39, 0x72, 0xe4, 0xd3, 0xbd, 0x61, 0xc2, 0x9f, 0x25, 0x4a, 0x94,
     0x33, 0x66, 0xcc, 0x83, 0x1d, 0x3a, 0x74, 0xe8, 0xcb, 0x8d, 0x01, 0x02, 0x04, 0x08, 0x10, 0x20,
     0x40, 0x80, 0x1b, 0x36, 0x6c, 0xd8, 0xab, 0x4d, 0x9a, 0x2f, 0x5e, 0xbc, 0x63, 0xc6, 0x97, 0x35,
     0x6a, 0xd4, 0xb3, 0x7d, 0xfa, 0xef, 0xc5, 0x91, 0x39, 0x72, 0xe4, 0xd3, 0xbd, 0x61, 0xc2, 0x9f,
     0x25, 0x4a, 0x94, 0x33, 0x66, 0xcc, 0x83, 0x1d, 0x3a, 0x74, 0xe8, 0xcb, 0x8d, 0x01, 0x02, 0x04,
     0x08, 0x10, 0x20, 0x40, 0x80, 0x1b, 0x36, 0x6c, 0xd8, 0xab, 0x4d, 0x9a, 0x2f, 0x5e, 0xbc, 0x63,
     0xc6, 0x97, 0x35, 0x6a, 0xd4, 0xb3, 0x7d, 0xfa, 0xef, 0xc5, 0x91, 0x39, 0x72, 0xe4, 0xd3, 0xbd,
     0x61, 0xc2, 0x9f, 0x25, 0x4a, 0x94, 0x33, 0x66, 0xcc, 0x83, 0x1d, 0x3a, 0x74, 0xe8, 0xcb]"

subsection \<open>The masked AND gadget and the S-box functions\<close>

text \<open>
  \<^verbatim>\<open>_SAND(p1, p2, q1, q2, zr, zrm)\<close> (the macro \<^verbatim>\<open>SAND\<close> expands to it). The two
  output parameters \<^verbatim>\<open>*zr\<close> and \<^verbatim>\<open>*zrm\<close> are returned as the pair \<open>(z, m)\<close>.
\<close>

definition SAND :: "byte \<Rightarrow> byte \<Rightarrow> byte \<Rightarrow> byte \<Rightarrow> byte \<times> byte" where
  "SAND p1 p2 q1 q2 =
    (let r = 0xff;
         n1 = p1 AND q1;
         n11 = p2 AND q2;
         n2 = p2 AND q1;
         n3 = p1 AND q2;
         n4 = r XOR n1;
         m = n2 XOR n11 XOR r;
         z = n3 XOR n4
     in (z, m))"

definition getSBoxValue :: "byte \<Rightarrow> byte" where
  "getSBoxValue num = sbox ! unat num"

definition getSBoxInvert :: "byte \<Rightarrow> byte" where
  "getSBoxInvert num = rsbox ! unat num"

text \<open>
  \<^verbatim>\<open>getSBoxValuem(num, numm)\<close>: the gate-level S-box on a masked byte. The body is
  straight-line code; every assignment of the source is one binding below, in the
  source's order, and the eight lane variables \<^verbatim>\<open>U_0 .. U_7\<close> (and their mask
  twins) are assigned a second time by the output mapping, as in the source. The
  function returns \<open>(t, tm)\<close>: the returned byte and the byte written back through
  \<^verbatim>\<open>numm\<close>.
\<close>

definition getSBoxValuem :: "byte \<Rightarrow> byte \<Rightarrow> byte \<times> byte" where
  "getSBoxValuem num numm =
    (let
      U_0 = drop_bit 0 num;
      U_1 = drop_bit 1 num;
      U_2 = drop_bit 2 num;
      U_3 = drop_bit 3 num;
      U_4 = drop_bit 4 num;
      U_5 = drop_bit 5 num;
      U_6 = drop_bit 6 num;
      U_7 = drop_bit 7 num;
      U_0m = drop_bit 0 numm;
      U_1m = drop_bit 1 numm;
      U_2m = drop_bit 2 numm;
      U_3m = drop_bit 3 numm;
      U_4m = drop_bit 4 numm;
      U_5m = drop_bit 5 numm;
      U_6m = drop_bit 6 numm;
      U_7m = drop_bit 7 numm;
      T1 = U_7 XOR U_4;
      T1m = U_7m XOR U_4m;
      T2 = U_7 XOR U_2;
      T2m = U_7m XOR U_2m;
      T3 = U_7 XOR U_1;
      T3m = U_7m XOR U_1m;
      T4 = U_4 XOR U_2;
      T4m = U_4m XOR U_2m;
      T5 = U_3 XOR U_1;
      T5m = U_3m XOR U_1m;
      T6 = T1 XOR T5;
      T6m = T1m XOR T5m;
      T7 = U_6 XOR U_5;
      T7m = U_6m XOR U_5m;
      T8 = U_0 XOR T6;
      T8m = U_0m XOR T6m;
      T9 = U_0 XOR T7;
      T9m = U_0m XOR T7m;
      T10 = T6 XOR T7;
      T10m = T6m XOR T7m;
      T11 = U_6 XOR U_2;
      T11m = U_6m XOR U_2m;
      T12 = U_5 XOR U_2;
      T12m = U_5m XOR U_2m;
      T13 = T3 XOR T4;
      T13m = T3m XOR T4m;
      T14 = T6 XOR T11;
      T14m = T6m XOR T11m;
      T15 = T5 XOR T11;
      T15m = T5m XOR T11m;
      T16 = T5 XOR T12;
      T16m = T5m XOR T12m;
      T17 = T9 XOR T16;
      T17m = T9m XOR T16m;
      T18 = U_4 XOR U_0;
      T18m = U_4m XOR U_0m;
      T19 = T7 XOR T18;
      T19m = T7m XOR T18m;
      T20 = T1 XOR T19;
      T20m = T1m XOR T19m;
      T21 = U_1 XOR U_0;
      T21m = U_1m XOR U_0m;
      T22 = T7 XOR T21;
      T22m = T7m XOR T21m;
      T23 = T2 XOR T22;
      T23m = T2m XOR T22m;
      T24 = T2 XOR T10;
      T24m = T2m XOR T10m;
      T25 = T20 XOR T17;
      T25m = T20m XOR T17m;
      T26 = T3 XOR T16;
      T26m = T3m XOR T16m;
      T27 = T1 XOR T12;
      T27m = T1m XOR T12m;
      (M1, M1m) = SAND T13 T13m T6 T6m;
      (M2, M2m) = SAND T23 T23m T8 T8m;
      M3 = T14 XOR M1;
      M3m = T14m XOR M1m;
      (M4, M4m) = SAND T19 T19m U_0 U_0m;
      M5 = M4 XOR M1;
      M5m = M4m XOR M1m;
      (M6, M6m) = SAND T3 T3m T16 T16m;
      (M7, M7m) = SAND T22 T22m T9 T9m;
      M8 = T26 XOR M6;
      M8m = T26m XOR M6m;
      (M9, M9m) = SAND T20 T20m T17 T17m;
      M10 = M9 XOR M6;
      M10m = M9m XOR M6m;
      (M11, M11m) = SAND T1 T1m T15 T15m;
      (M12, M12m) = SAND T4 T4m T27 T27m;
      M13 = M12 XOR M11;
      M13m = M12m XOR M11m;
      (M14, M14m) = SAND T2 T2m T10 T10m;
      M15 = M14 XOR M11;
      M15m = M14m XOR M11m;
      M16 = M3 XOR M2;
      M16m = M3m XOR M2m;
      M17 = M5 XOR T24;
      M17m = M5m XOR T24m;
      M18 = M8 XOR M7;
      M18m = M8m XOR M7m;
      M19 = M10 XOR M15;
      M19m = M10m XOR M15m;
      M20 = M16 XOR M13;
      M20m = M16m XOR M13m;
      M21 = M17 XOR M15;
      M21m = M17m XOR M15m;
      M22 = M18 XOR M13;
      M22m = M18m XOR M13m;
      M23 = M19 XOR T25;
      M23m = M19m XOR T25m;
      M24 = M22 XOR M23;
      M24m = M22m XOR M23m;
      (M25, M25m) = SAND M22 M22m M20 M20m;
      M26 = M21 XOR M25;
      M26m = M21m XOR M25m;
      M27 = M20 XOR M21;
      M27m = M20m XOR M21m;
      M28 = M23 XOR M25;
      M28m = M23m XOR M25m;
      (M29, M29m) = SAND M28 M28m M27 M27m;
      (M30, M30m) = SAND M26 M26m M24 M24m;
      (M31, M31m) = SAND M20 M20m M23 M23m;
      (M32, M32m) = SAND M27 M27m M31 M31m;
      M33 = M27 XOR M25;
      M33m = M27m XOR M25m;
      (M34, M34m) = SAND M21 M21m M22 M22m;
      (M35, M35m) = SAND M24 M24m M34 M34m;
      M36 = M24 XOR M25;
      M36m = M24m XOR M25m;
      M37 = M21 XOR M29;
      M37m = M21m XOR M29m;
      M38 = M32 XOR M33;
      M38m = M32m XOR M33m;
      M39 = M23 XOR M30;
      M39m = M23m XOR M30m;
      M40 = M35 XOR M36;
      M40m = M35m XOR M36m;
      M41 = M38 XOR M40;
      M41m = M38m XOR M40m;
      M42 = M37 XOR M39;
      M42m = M37m XOR M39m;
      M43 = M37 XOR M38;
      M43m = M37m XOR M38m;
      M44 = M39 XOR M40;
      M44m = M39m XOR M40m;
      M45 = M42 XOR M41;
      M45m = M42m XOR M41m;
      (M46, M46m) = SAND M44 M44m T6 T6m;
      (M47, M47m) = SAND M40 M40m T8 T8m;
      (M48, M48m) = SAND M39 M39m U_0 U_0m;
      (M49, M49m) = SAND M43 M43m T16 T16m;
      (M50, M50m) = SAND M38 M38m T9 T9m;
      (M51, M51m) = SAND M37 M37m T17 T17m;
      (M52, M52m) = SAND M42 M42m T15 T15m;
      (M53, M53m) = SAND M45 M45m T27 T27m;
      (M54, M54m) = SAND M41 M41m T10 T10m;
      (M55, M55m) = SAND M44 M44m T13 T13m;
      (M56, M56m) = SAND M40 M40m T23 T23m;
      (M57, M57m) = SAND M39 M39m T19 T19m;
      (M58, M58m) = SAND M43 M43m T3 T3m;
      (M59, M59m) = SAND M38 M38m T22 T22m;
      (M60, M60m) = SAND M37 M37m T20 T20m;
      (M61, M61m) = SAND M42 M42m T1 T1m;
      (M62, M62m) = SAND M45 M45m T4 T4m;
      (M63, M63m) = SAND M41 M41m T2 T2m;
      L0 = M61 XOR M62;
      L0m = M61m XOR M62m;
      L1 = M50 XOR M56;
      L1m = M50m XOR M56m;
      L2 = M46 XOR M48;
      L2m = M46m XOR M48m;
      L3 = M47 XOR M55;
      L3m = M47m XOR M55m;
      L4 = M54 XOR M58;
      L4m = M54m XOR M58m;
      L5 = M49 XOR M61;
      L5m = M49m XOR M61m;
      L6 = M62 XOR L5;
      L6m = M62m XOR L5m;
      L7 = M46 XOR L3;
      L7m = M46m XOR L3m;
      L8 = M51 XOR M59;
      L8m = M51m XOR M59m;
      L9 = M52 XOR M53;
      L9m = M52m XOR M53m;
      L10 = M53 XOR L4;
      L10m = M53m XOR L4m;
      L11 = M60 XOR L2;
      L11m = M60m XOR L2m;
      L12 = M48 XOR M51;
      L12m = M48m XOR M51m;
      L13 = M50 XOR L0;
      L13m = M50m XOR L0m;
      L14 = M52 XOR M61;
      L14m = M52m XOR M61m;
      L15 = M55 XOR L1;
      L15m = M55m XOR L1m;
      L16 = M56 XOR L0;
      L16m = M56m XOR L0m;
      L17 = M57 XOR L1;
      L17m = M57m XOR L1m;
      L18 = M58 XOR L8;
      L18m = M58m XOR L8m;
      L19 = M63 XOR L4;
      L19m = M63m XOR L4m;
      L20 = L0 XOR L1;
      L20m = L0m XOR L1m;
      L21 = L1 XOR L7;
      L21m = L1m XOR L7m;
      L22 = L3 XOR L12;
      L22m = L3m XOR L12m;
      L23 = L18 XOR L2;
      L23m = L18m XOR L2m;
      L24 = L15 XOR L9;
      L24m = L15m XOR L9m;
      L25 = L6 XOR L10;
      L25m = L6m XOR L10m;
      L26 = L7 XOR L9;
      L26m = L7m XOR L9m;
      L27 = L8 XOR L10;
      L27m = L8m XOR L10m;
      L28 = L11 XOR L14;
      L28m = L11m XOR L14m;
      L29 = L11 XOR L17;
      L29m = L11m XOR L17m;
      U_7 = L6 XOR L24;
      U_7m = L6m XOR L24m;
      U_6 = NOT (L16 XOR L26);
      U_6m = L16m XOR L26m;
      U_5 = NOT (L19 XOR L28);
      U_5m = L19m XOR L28m;
      U_4 = L6 XOR L21;
      U_4m = L6m XOR L21m;
      U_3 = L20 XOR L22;
      U_3m = L20m XOR L22m;
      U_2 = L25 XOR L29;
      U_2m = L25m XOR L29m;
      U_1 = NOT (L13 XOR L27);
      U_1m = L13m XOR L27m;
      U_0 = NOT (L6 XOR L23);
      U_0m = L6m XOR L23m;
      t = push_bit 0 (U_0 AND 0x01) OR
           push_bit 1 (U_1 AND 0x01) OR
           push_bit 2 (U_2 AND 0x01) OR
           push_bit 3 (U_3 AND 0x01) OR
           push_bit 4 (U_4 AND 0x01) OR
           push_bit 5 (U_5 AND 0x01) OR
           push_bit 6 (U_6 AND 0x01) OR
           push_bit 7 U_7;
      tm = push_bit 0 (U_0m AND 0x01) OR
           push_bit 1 (U_1m AND 0x01) OR
           push_bit 2 (U_2m AND 0x01) OR
           push_bit 3 (U_3m AND 0x01) OR
           push_bit 4 (U_4m AND 0x01) OR
           push_bit 5 (U_5m AND 0x01) OR
           push_bit 6 (U_6m AND 0x01) OR
           push_bit 7 U_7m
    in (t, tm))"

subsection \<open>The key schedule and the round transforms\<close>

text \<open>
  \<^verbatim>\<open>#define Nb 4\<close>, \<^verbatim>\<open>Nk 4\<close>, \<^verbatim>\<open>KEYLEN 16\<close>, \<^verbatim>\<open>Nr 10\<close>.
\<close>

definition Nb :: nat where "Nb = 4"
definition Nk :: nat where "Nk = 4"
definition KEYLEN :: nat where "KEYLEN = 16"
definition Nr :: nat where "Nr = 10"

text \<open>
  \<^verbatim>\<open>typedef uint8_t state_t[4][4]\<close>: the functions receive a \<^verbatim>\<open>state_t*\<close> that is a
  cast of a pointer to sixteen bytes, so a state is the list of these sixteen bytes
  and \<^verbatim>\<open>(*state)[i][j]\<close> is the byte at index \<open>4 * i + j\<close>.
\<close>

definition st_get :: "byte list \<Rightarrow> nat \<Rightarrow> nat \<Rightarrow> byte" where
  "st_get state i j = state ! (4 * i + j)"

definition st_set :: "byte list \<Rightarrow> nat \<Rightarrow> nat \<Rightarrow> byte \<Rightarrow> byte list" where
  "st_set state i j v = state[4 * i + j := v]"

text \<open>
  \<^verbatim>\<open>KeyExpansion\<close>. The first loop copies the key into the first four words; the second
  computes word \<open>i\<close> from words \<open>i - 1\<close> and \<open>i - Nk\<close>. The array \<^verbatim>\<open>RoundKey\<close> is updated
  in place, so the function takes its old contents.
\<close>

definition KeyExpansion_copy :: "byte list \<Rightarrow> nat \<Rightarrow> byte list \<Rightarrow> byte list" where
  "KeyExpansion_copy key i rk =
    (let rk = rk[i * 4 + 0 := key ! (i * 4 + 0)];
         rk = rk[i * 4 + 1 := key ! (i * 4 + 1)];
         rk = rk[i * 4 + 2 := key ! (i * 4 + 2)];
         rk = rk[i * 4 + 3 := key ! (i * 4 + 3)]
     in rk)"

definition RotWord :: "byte list \<Rightarrow> byte list" where
  "RotWord tempa =
    (let k = tempa ! 0;
         tempa = tempa[0 := tempa ! 1];
         tempa = tempa[1 := tempa ! 2];
         tempa = tempa[2 := tempa ! 3];
         tempa = tempa[3 := k]
     in tempa)"

definition SubWord :: "byte list \<Rightarrow> byte list" where
  "SubWord tempa =
    (let tempa = tempa[0 := getSBoxValue (tempa ! 0)];
         tempa = tempa[1 := getSBoxValue (tempa ! 1)];
         tempa = tempa[2 := getSBoxValue (tempa ! 2)];
         tempa = tempa[3 := getSBoxValue (tempa ! 3)]
     in tempa)"

definition KeyExpansion_word :: "nat \<Rightarrow> byte list \<Rightarrow> byte list" where
  "KeyExpansion_word i rk =
    (let tempa = map (\<lambda>j. rk ! ((i - 1) * 4 + j)) [0..<4];
         tempa =
           (if i mod Nk = 0 then
              (let tempa = RotWord tempa;
                   tempa = SubWord tempa
               in tempa[0 := tempa ! 0 XOR Rcon ! (i div Nk)])
            else if Nk > 6 \<and> i mod Nk = 4 then SubWord tempa
            else tempa);
         rk = rk[i * 4 + 0 := rk ! ((i - Nk) * 4 + 0) XOR tempa ! 0];
         rk = rk[i * 4 + 1 := rk ! ((i - Nk) * 4 + 1) XOR tempa ! 1];
         rk = rk[i * 4 + 2 := rk ! ((i - Nk) * 4 + 2) XOR tempa ! 2];
         rk = rk[i * 4 + 3 := rk ! ((i - Nk) * 4 + 3) XOR tempa ! 3]
     in rk)"

definition KeyExpansion :: "byte list \<Rightarrow> byte list \<Rightarrow> byte list" where
  "KeyExpansion key rk =
     fold KeyExpansion_word [Nk..<Nb * (Nr + 1)] (fold (KeyExpansion_copy key) [0..<Nk] rk)"

text \<open>\<^verbatim>\<open>AddRoundKey(state, round)\<close>, with the round keys as a parameter.\<close>

definition AddRoundKey :: "byte list \<Rightarrow> nat \<Rightarrow> byte list \<Rightarrow> byte list" where
  "AddRoundKey rk round state =
     fold (\<lambda>i. fold (\<lambda>j s.
         st_set s i j (st_get s i j XOR rk ! (round * Nb * 4 + i * Nb + j))) [0..<4])
       [0..<4] state"

text \<open>
  \<^verbatim>\<open>SubBytesm(state, statem)\<close>: the masked S-box on every byte; the mask byte is
  updated through the pointer \<^verbatim>\<open>(*statem)[j] + i\<close>.
\<close>

definition SubBytesm :: "byte list \<times> byte list \<Rightarrow> byte list \<times> byte list" where
  "SubBytesm sm =
     fold (\<lambda>i. fold (\<lambda>j (state, statem).
         (let (t, tm) = getSBoxValuem (st_get state j i) (st_get statem j i)
          in (st_set state j i t, st_set statem j i tm))) [0..<4])
       [0..<4] sm"

text \<open>\<^verbatim>\<open>SubBytes(state, statem)\<close>: the table S-box; the second parameter is not used.\<close>

definition SubBytes :: "byte list \<Rightarrow> byte list" where
  "SubBytes state =
     fold (\<lambda>i. fold (\<lambda>j s. st_set s j i (getSBoxValue (st_get s j i))) [0..<4]) [0..<4] state"

definition ShiftRows :: "byte list \<Rightarrow> byte list" where
  "ShiftRows state =
    (let temp = st_get state 0 1;
         state = st_set state 0 1 (st_get state 1 1);
         state = st_set state 1 1 (st_get state 2 1);
         state = st_set state 2 1 (st_get state 3 1);
         state = st_set state 3 1 temp;
         temp = st_get state 0 2;
         state = st_set state 0 2 (st_get state 2 2);
         state = st_set state 2 2 temp;
         temp = st_get state 1 2;
         state = st_set state 1 2 (st_get state 3 2);
         state = st_set state 3 2 temp;
         temp = st_get state 0 3;
         state = st_set state 0 3 (st_get state 3 3);
         state = st_set state 3 3 (st_get state 2 3);
         state = st_set state 2 3 (st_get state 1 3);
         state = st_set state 1 3 temp
     in state)"

text \<open>
  \<^verbatim>\<open>xtime\<close>: the shift is done in \<^verbatim>\<open>int\<close> and the result is cut to eight bits by the
  return type.
\<close>

definition xtime :: "byte \<Rightarrow> byte" where
  "xtime x = push_bit 1 x XOR (drop_bit 7 x AND 1) * 0x1b"

definition MixColumns_row :: "nat \<Rightarrow> byte list \<Rightarrow> byte list" where
  "MixColumns_row i state =
    (let t = st_get state i 0;
         Tmp = st_get state i 0 XOR st_get state i 1 XOR st_get state i 2 XOR st_get state i 3;
         Tm = st_get state i 0 XOR st_get state i 1;
         Tm = xtime Tm;
         state = st_set state i 0 (st_get state i 0 XOR (Tm XOR Tmp));
         Tm = st_get state i 1 XOR st_get state i 2;
         Tm = xtime Tm;
         state = st_set state i 1 (st_get state i 1 XOR (Tm XOR Tmp));
         Tm = st_get state i 2 XOR st_get state i 3;
         Tm = xtime Tm;
         state = st_set state i 2 (st_get state i 2 XOR (Tm XOR Tmp));
         Tm = st_get state i 3 XOR t;
         Tm = xtime Tm;
         state = st_set state i 3 (st_get state i 3 XOR (Tm XOR Tmp))
     in state)"

definition MixColumns :: "byte list \<Rightarrow> byte list" where
  "MixColumns state = fold MixColumns_row [0..<4] state"

text \<open>
  \<^verbatim>\<open>Multiply(x, y)\<close>, the macro (\<^verbatim>\<open>MULTIPLY_AS_A_FUNCTION\<close> is 0). Each product
  is a bit times a byte, so it does not leave eight bits.
\<close>

definition Multiply :: "byte \<Rightarrow> byte \<Rightarrow> byte" where
  "Multiply x y =
     ((y AND 1) * x) XOR
     ((drop_bit 1 y AND 1) * xtime x) XOR
     ((drop_bit 2 y AND 1) * xtime (xtime x)) XOR
     ((drop_bit 3 y AND 1) * xtime (xtime (xtime x))) XOR
     ((drop_bit 4 y AND 1) * xtime (xtime (xtime (xtime x))))"

definition InvMixColumns_row :: "nat \<Rightarrow> byte list \<Rightarrow> byte list" where
  "InvMixColumns_row i state =
    (let a = st_get state i 0;
         b = st_get state i 1;
         c = st_get state i 2;
         d = st_get state i 3;
         state = st_set state i 0
           (Multiply a 0x0e XOR Multiply b 0x0b XOR Multiply c 0x0d XOR Multiply d 0x09);
         state = st_set state i 1
           (Multiply a 0x09 XOR Multiply b 0x0e XOR Multiply c 0x0b XOR Multiply d 0x0d);
         state = st_set state i 2
           (Multiply a 0x0d XOR Multiply b 0x09 XOR Multiply c 0x0e XOR Multiply d 0x0b);
         state = st_set state i 3
           (Multiply a 0x0b XOR Multiply b 0x0d XOR Multiply c 0x09 XOR Multiply d 0x0e)
     in state)"

definition InvMixColumns :: "byte list \<Rightarrow> byte list" where
  "InvMixColumns state = fold InvMixColumns_row [0..<4] state"

definition InvSubBytes :: "byte list \<Rightarrow> byte list" where
  "InvSubBytes state =
     fold (\<lambda>i. fold (\<lambda>j s. st_set s j i (getSBoxInvert (st_get s j i))) [0..<4]) [0..<4] state"

definition InvShiftRows :: "byte list \<Rightarrow> byte list" where
  "InvShiftRows state =
    (let temp = st_get state 3 1;
         state = st_set state 3 1 (st_get state 2 1);
         state = st_set state 2 1 (st_get state 1 1);
         state = st_set state 1 1 (st_get state 0 1);
         state = st_set state 0 1 temp;
         temp = st_get state 0 2;
         state = st_set state 0 2 (st_get state 2 2);
         state = st_set state 2 2 temp;
         temp = st_get state 1 2;
         state = st_set state 1 2 (st_get state 3 2);
         state = st_set state 3 2 temp;
         temp = st_get state 0 3;
         state = st_set state 0 3 (st_get state 1 3);
         state = st_set state 1 3 (st_get state 2 3);
         state = st_set state 2 3 (st_get state 3 3);
         state = st_set state 3 3 temp
     in state)"

subsection \<open>The forward and the inverse cipher\<close>

text \<open>
  The two loops of \<^verbatim>\<open>Cipher\<close> that add and remove the mask:
  \<^verbatim>\<open>(*state)[i][j] ^= (*statem)[i][j]\<close>.
\<close>

definition xor_mask :: "byte list \<Rightarrow> byte list \<Rightarrow> byte list" where
  "xor_mask statem state =
     fold (\<lambda>i. fold (\<lambda>j s. st_set s i j (st_get s i j XOR st_get statem i j)) [0..<4])
       [0..<4] state"

text \<open>The body of the round loop of \<^verbatim>\<open>Cipher\<close>.\<close>

definition Cipher_round :: "byte list \<Rightarrow> nat \<Rightarrow> byte list \<times> byte list \<Rightarrow> byte list \<times> byte list" where
  "Cipher_round rk round sm =
    (let (state, statem) = SubBytesm sm;
         state = ShiftRows state;
         statem = ShiftRows statem;
         state = MixColumns state;
         statem = MixColumns statem;
         state = AddRoundKey rk round state
     in (state, statem))"

text \<open>
  \<^verbatim>\<open>Cipher(state)\<close> with the mask seed as a parameter: the source initialises the local
  array \<^verbatim>\<open>rng\<close> with sixteen constants and uses it as the mask state \<^verbatim>\<open>statem\<close>.
\<close>

definition Cipher_seeded :: "byte list \<Rightarrow> byte list \<Rightarrow> byte list \<Rightarrow> byte list" where
  "Cipher_seeded seed rk state =
    (let statem = seed;
         state = xor_mask statem state;
         state = AddRoundKey rk 0 state;
         (state, statem) = fold (Cipher_round rk) [1..<Nr] (state, statem);
         (state, statem) = SubBytesm (state, statem);
         state = ShiftRows state;
         statem = ShiftRows statem;
         state = AddRoundKey rk Nr state
     in xor_mask statem state)"

definition rng :: "byte list" where
  "rng = [0x13, 0x05, 0x59, 0x81, 0x49, 0xaf, 0xb3, 0x30,
          0x29, 0x11, 0xc4, 0xbb, 0x91, 0xe4, 0x98, 0x44]"

definition Cipher :: "byte list \<Rightarrow> byte list \<Rightarrow> byte list" where
  "Cipher rk state = Cipher_seeded rng rk state"

definition InvCipher_round :: "byte list \<Rightarrow> nat \<Rightarrow> byte list \<Rightarrow> byte list" where
  "InvCipher_round rk round state =
    (let state = InvShiftRows state;
         state = InvSubBytes state;
         state = AddRoundKey rk round state;
         state = InvMixColumns state
     in state)"

text \<open>\<^verbatim>\<open>InvCipher(state)\<close>: the loop runs \<^verbatim>\<open>round\<close> from \<open>Nr - 1\<close> down to 1.\<close>

definition InvCipher :: "byte list \<Rightarrow> byte list \<Rightarrow> byte list" where
  "InvCipher rk state =
    (let state = AddRoundKey rk Nr state;
         state = fold (InvCipher_round rk) (rev [1..<Nr]) state;
         state = InvShiftRows state;
         state = InvSubBytes state;
         state = AddRoundKey rk 0 state
     in state)"

subsection \<open>Memory, the file-scope variables and the public functions\<close>

text \<open>
  The public functions work on the caller's buffers through pointers, and on three
  file-scope variables: the array \<^verbatim>\<open>RoundKey[176]\<close> and the pointers \<^verbatim>\<open>Key\<close> and
  \<^verbatim>\<open>Iv\<close> (\<^verbatim>\<open>_state\<close> is declared and never used). Memory is a map from addresses to
  bytes, a pointer is an address, and the null pointer is 0. Buffers that overlap are
  overlapping address ranges, so every effect of aliasing is in the model; nothing
  is assumed about the buffers in the definitions.

  The loop counter \<^verbatim>\<open>i\<close> of the CBC functions is a \<^verbatim>\<open>uintptr_t\<close> compared with the
  \<^verbatim>\<open>uint32_t length\<close>; both are natural numbers here (with a pointer wider than 32
  bits \<^verbatim>\<open>i += KEYLEN\<close> does not wrap).
\<close>

record aes_state =
  mem :: "nat \<Rightarrow> byte"
  RoundKey :: "byte list"
  Key :: nat
  Iv :: nat

text \<open>The sixteen bytes at a pointer, and storing sixteen bytes there.\<close>

definition read_block :: "(nat \<Rightarrow> byte) \<Rightarrow> nat \<Rightarrow> byte list" where
  "read_block m p = map (\<lambda>i. m (p + i)) [0..<16]"

definition write_block :: "nat \<Rightarrow> byte list \<Rightarrow> (nat \<Rightarrow> byte) \<Rightarrow> (nat \<Rightarrow> byte)" where
  "write_block p bs m = fold (\<lambda>i m. m(p + i := bs ! i)) [0..<16] m"

text \<open>\<^verbatim>\<open>BlockCopy(output, input)\<close>: byte by byte, in ascending order.\<close>

definition BlockCopy :: "nat \<Rightarrow> nat \<Rightarrow> (nat \<Rightarrow> byte) \<Rightarrow> (nat \<Rightarrow> byte)" where
  "BlockCopy output input m = fold (\<lambda>i m. m(output + i := m (input + i))) [0..<KEYLEN] m"

text \<open>\<^verbatim>\<open>memset(p, 0, n)\<close>.\<close>

definition memset0 :: "nat \<Rightarrow> nat \<Rightarrow> (nat \<Rightarrow> byte) \<Rightarrow> (nat \<Rightarrow> byte)" where
  "memset0 p n m = fold (\<lambda>i m. m(p + i := 0)) [0..<n] m"

text \<open>
  \<^verbatim>\<open>KeyExpansion()\<close> reads the sixteen key bytes through \<^verbatim>\<open>Key\<close> and writes
  \<^verbatim>\<open>RoundKey\<close>.
\<close>

definition KeyExpansion_st :: "aes_state \<Rightarrow> aes_state" where
  "KeyExpansion_st s = s\<lparr>RoundKey := KeyExpansion (read_block (mem s) (Key s)) (RoundKey s)\<rparr>"

text \<open>
  \<^verbatim>\<open>Cipher(state)\<close> and \<^verbatim>\<open>InvCipher(state)\<close> on the sixteen bytes at the pointer
  \<^verbatim>\<open>state\<close>: they read and write these bytes, their locals and \<^verbatim>\<open>RoundKey\<close> only.
\<close>

definition Cipher_at :: "nat \<Rightarrow> aes_state \<Rightarrow> aes_state" where
  "Cipher_at state s =
     s\<lparr>mem := write_block state (Cipher (RoundKey s) (read_block (mem s) state)) (mem s)\<rparr>"

definition InvCipher_at :: "nat \<Rightarrow> aes_state \<Rightarrow> aes_state" where
  "InvCipher_at state s =
     s\<lparr>mem := write_block state (InvCipher (RoundKey s) (read_block (mem s) state)) (mem s)\<rparr>"

definition AES128_ECB_encrypt :: "nat \<Rightarrow> nat \<Rightarrow> nat \<Rightarrow> aes_state \<Rightarrow> aes_state" where
  "AES128_ECB_encrypt input key output s =
    (let s = s\<lparr>mem := BlockCopy output input (mem s)\<rparr>;
         s = s\<lparr>Key := key\<rparr>;
         s = KeyExpansion_st s
     in Cipher_at output s)"

definition AES128_ECB_decrypt :: "nat \<Rightarrow> nat \<Rightarrow> nat \<Rightarrow> aes_state \<Rightarrow> aes_state" where
  "AES128_ECB_decrypt input key output s =
    (let s = s\<lparr>mem := BlockCopy output input (mem s)\<rparr>;
         s = s\<lparr>Key := key\<rparr>;
         s = KeyExpansion_st s
     in InvCipher_at output s)"

text \<open>\<^verbatim>\<open>XorWithIv(buf)\<close>: \<^verbatim>\<open>buf[i] ^= Iv[i]\<close>, byte by byte.\<close>

definition XorWithIv :: "nat \<Rightarrow> aes_state \<Rightarrow> aes_state" where
  "XorWithIv buf s =
     s\<lparr>mem := fold (\<lambda>i m. m(buf + i := m (buf + i) XOR m (Iv s + i))) [0..<KEYLEN] (mem s)\<rparr>"

text \<open>
  The block loop of \<^verbatim>\<open>AES128_CBC_encrypt_buffer\<close>:
  \<^verbatim>\<open>for(i = 0; i < length; i += KEYLEN)\<close>. The loop state is the two pointers
  \<^verbatim>\<open>output\<close> and \<^verbatim>\<open>input\<close>, which the body advances, and the memory.
\<close>

definition cbc_encrypt_step :: "nat \<times> nat \<times> aes_state \<Rightarrow> nat \<times> nat \<times> aes_state" where
  "cbc_encrypt_step = (\<lambda>(output, input, s).
    (let s = XorWithIv input s;
         s = s\<lparr>mem := BlockCopy output input (mem s)\<rparr>;
         s = Cipher_at output s;
         s = s\<lparr>Iv := output\<rparr>
     in (output + KEYLEN, input + KEYLEN, s)))"

function cbc_encrypt_loop :: "nat \<Rightarrow> nat \<Rightarrow> nat \<times> nat \<times> aes_state \<Rightarrow> nat \<times> nat \<times> aes_state" where
  "cbc_encrypt_loop i len st =
     (if i < len then cbc_encrypt_loop (i + KEYLEN) len (cbc_encrypt_step st) else st)"
  by pat_completeness auto
termination
  by (relation "measure (\<lambda>(i, len, st). len - i)") (auto simp: KEYLEN_def)

declare cbc_encrypt_loop.simps [simp del]

definition AES128_CBC_encrypt_buffer ::
  "nat \<Rightarrow> nat \<Rightarrow> nat \<Rightarrow> nat \<Rightarrow> nat \<Rightarrow> aes_state \<Rightarrow> aes_state" where
  "AES128_CBC_encrypt_buffer output input len key iv s =
    (let remainders = len mod KEYLEN;
         s = s\<lparr>mem := BlockCopy output input (mem s)\<rparr>;
         s = (if key \<noteq> 0 then KeyExpansion_st (s\<lparr>Key := key\<rparr>) else s);
         s = (if iv \<noteq> 0 then s\<lparr>Iv := iv\<rparr> else s);
         (output, input, s) = cbc_encrypt_loop 0 len (output, input, s);
         s = (if remainders \<noteq> 0 then
                (let s = s\<lparr>mem := BlockCopy output input (mem s)\<rparr>;
                     s = s\<lparr>mem := memset0 (output + remainders) (KEYLEN - remainders) (mem s)\<rparr>
                 in Cipher_at output s)
              else s)
     in s)"

definition cbc_decrypt_step :: "nat \<times> nat \<times> aes_state \<Rightarrow> nat \<times> nat \<times> aes_state" where
  "cbc_decrypt_step = (\<lambda>(output, input, s).
    (let s = s\<lparr>mem := BlockCopy output input (mem s)\<rparr>;
         s = InvCipher_at output s;
         s = XorWithIv output s;
         s = s\<lparr>Iv := input\<rparr>
     in (output + KEYLEN, input + KEYLEN, s)))"

function cbc_decrypt_loop :: "nat \<Rightarrow> nat \<Rightarrow> nat \<times> nat \<times> aes_state \<Rightarrow> nat \<times> nat \<times> aes_state" where
  "cbc_decrypt_loop i len st =
     (if i < len then cbc_decrypt_loop (i + KEYLEN) len (cbc_decrypt_step st) else st)"
  by pat_completeness auto
termination
  by (relation "measure (\<lambda>(i, len, st). len - i)") (auto simp: KEYLEN_def)

declare cbc_decrypt_loop.simps [simp del]

definition AES128_CBC_decrypt_buffer ::
  "nat \<Rightarrow> nat \<Rightarrow> nat \<Rightarrow> nat \<Rightarrow> nat \<Rightarrow> aes_state \<Rightarrow> aes_state" where
  "AES128_CBC_decrypt_buffer output input len key iv s =
    (let remainders = len mod KEYLEN;
         s = s\<lparr>mem := BlockCopy output input (mem s)\<rparr>;
         s = (if key \<noteq> 0 then KeyExpansion_st (s\<lparr>Key := key\<rparr>) else s);
         s = (if iv \<noteq> 0 then s\<lparr>Iv := iv\<rparr> else s);
         (output, input, s) = cbc_decrypt_loop 0 len (output, input, s);
         s = (if remainders \<noteq> 0 then
                (let s = s\<lparr>mem := BlockCopy output input (mem s)\<rparr>;
                     s = s\<lparr>mem := memset0 (output + remainders) (KEYLEN - remainders) (mem s)\<rparr>
                 in InvCipher_at output s)
              else s)
     in s)"

subsection \<open>The masked AND gadget computes AND on the unmasked values\<close>

lemma SAND_eval:
  "SAND p1 p2 q1 q2 =
    ((p1 AND q2) XOR (0xff XOR (p1 AND q1)), (p2 AND q1) XOR (p2 AND q2) XOR 0xff)"
  by (simp add: SAND_def Let_def)

lemma SAND_unmask:
  "fst (SAND p1 p2 q1 q2) XOR snd (SAND p1 p2 q1 q2) = (p1 XOR p2) AND (q1 XOR q2)"
  by (simp add: SAND_eval bit_eq_iff bit_simps) auto

text \<open>
  Claim C3. For all bytes \<open>p1\<close>, \<open>p2\<close>, \<open>q1\<close>, \<open>q2\<close> the outputs \<open>(z, m)\<close> of the masked AND
  gadget satisfy \<open>z XOR m = (p1 XOR p2) AND (q1 XOR q2)\<close>: unmasked, the gadget
  computes the bitwise AND of its unmasked inputs.
\<close>

theorem SAND_contract:
  "SAND p1 p2 q1 q2 = (z, m) \<Longrightarrow> z XOR m = (p1 XOR p2) AND (q1 XOR q2)"
  using SAND_unmask [of p1 p2 q1 q2] by simp

theorem SAND_contract_witness:
  "SAND 0x35 0xa1 0x0f 0xd3 = (0xeb, 0x7f) \<and> (0xeb::byte) XOR 0x7f = (0x35 XOR 0xa1) AND (0x0f XOR 0xd3)"
proof -
  have h: "SAND 0x35 0xa1 0x0f 0xd3 = (0xeb, 0x7f)"
    by (simp add: SAND_eval)
  show ?thesis using h SAND_contract [OF h] by simp
qed

subsection \<open>The wires of the masked S-box\<close>

text \<open>
  To reason about \<open>getSBoxValuem\<close> gate by gate, every local variable \<^verbatim>\<open>X\<close> of the
  source and its mask twin \<^verbatim>\<open>Xm\<close> are read together as one masked wire
  \<open>w_X num numm = (X, Xm)\<close>, a function of the two arguments. Three kinds of
  assignment occur: the XOR of two wires on both sides (\<open>mxor\<close>), the masked AND
  gadget (\<open>msand\<close>), and, in the output mapping only, an XOR whose value side is
  complemented (\<open>mnxor\<close>). \<open>lane i\<close> is the unpacking \<^verbatim>\<open>num >> i\<close>, \<^verbatim>\<open>*numm >> i\<close>.
  The second assignment of the lane \<^verbatim>\<open>U_i\<close> is the wire \<open>w_out_i\<close>.
  \<open>unm\<close> is the unmasked value of a wire.
\<close>

definition unm :: "byte \<times> byte \<Rightarrow> byte" where
  "unm a = fst a XOR snd a"

definition lane :: "nat \<Rightarrow> byte \<Rightarrow> byte \<Rightarrow> byte \<times> byte" where
  "lane i num numm = (drop_bit i num, drop_bit i numm)"

definition mxor :: "byte \<times> byte \<Rightarrow> byte \<times> byte \<Rightarrow> byte \<times> byte" where
  "mxor a b = (fst a XOR fst b, snd a XOR snd b)"

definition mnxor :: "byte \<times> byte \<Rightarrow> byte \<times> byte \<Rightarrow> byte \<times> byte" where
  "mnxor a b = (NOT (fst a XOR fst b), snd a XOR snd b)"

definition msand :: "byte \<times> byte \<Rightarrow> byte \<times> byte \<Rightarrow> byte \<times> byte" where
  "msand a b = SAND (fst a) (snd a) (fst b) (snd b)"

text \<open>The repacking of eight lanes into a byte, as in the last two assignments.\<close>

definition pack8 :: "byte \<Rightarrow> byte \<Rightarrow> byte \<Rightarrow> byte \<Rightarrow> byte \<Rightarrow> byte \<Rightarrow> byte \<Rightarrow> byte \<Rightarrow> byte" where
  "pack8 u0 u1 u2 u3 u4 u5 u6 u7 =
     push_bit 0 (u0 AND 0x01) OR push_bit 1 (u1 AND 0x01) OR push_bit 2 (u2 AND 0x01) OR
     push_bit 3 (u3 AND 0x01) OR push_bit 4 (u4 AND 0x01) OR push_bit 5 (u5 AND 0x01) OR
     push_bit 6 (u6 AND 0x01) OR push_bit 7 u7"

definition w_U_0 :: "byte \<Rightarrow> byte \<Rightarrow> byte \<times> byte" where
  "w_U_0 num numm = lane 0 num numm"

definition w_U_1 :: "byte \<Rightarrow> byte \<Rightarrow> byte \<times> byte" where
  "w_U_1 num numm = lane 1 num numm"

definition w_U_2 :: "byte \<Rightarrow> byte \<Rightarrow> byte \<times> byte" where
  "w_U_2 num numm = lane 2 num numm"

definition w_U_3 :: "byte \<Rightarrow> byte \<Rightarrow> byte \<times> byte" where
  "w_U_3 num numm = lane 3 num numm"

definition w_U_4 :: "byte \<Rightarrow> byte \<Rightarrow> byte \<times> byte" where
  "w_U_4 num numm = lane 4 num numm"

definition w_U_5 :: "byte \<Rightarrow> byte \<Rightarrow> byte \<times> byte" where
  "w_U_5 num numm = lane 5 num numm"

definition w_U_6 :: "byte \<Rightarrow> byte \<Rightarrow> byte \<times> byte" where
  "w_U_6 num numm = lane 6 num numm"

definition w_U_7 :: "byte \<Rightarrow> byte \<Rightarrow> byte \<times> byte" where
  "w_U_7 num numm = lane 7 num numm"

definition w_T1 :: "byte \<Rightarrow> byte \<Rightarrow> byte \<times> byte" where
  "w_T1 num numm = mxor (w_U_7 num numm) (w_U_4 num numm)"

definition w_T2 :: "byte \<Rightarrow> byte \<Rightarrow> byte \<times> byte" where
  "w_T2 num numm = mxor (w_U_7 num numm) (w_U_2 num numm)"

definition w_T3 :: "byte \<Rightarrow> byte \<Rightarrow> byte \<times> byte" where
  "w_T3 num numm = mxor (w_U_7 num numm) (w_U_1 num numm)"

definition w_T4 :: "byte \<Rightarrow> byte \<Rightarrow> byte \<times> byte" where
  "w_T4 num numm = mxor (w_U_4 num numm) (w_U_2 num numm)"

definition w_T5 :: "byte \<Rightarrow> byte \<Rightarrow> byte \<times> byte" where
  "w_T5 num numm = mxor (w_U_3 num numm) (w_U_1 num numm)"

definition w_T6 :: "byte \<Rightarrow> byte \<Rightarrow> byte \<times> byte" where
  "w_T6 num numm = mxor (w_T1 num numm) (w_T5 num numm)"

definition w_T7 :: "byte \<Rightarrow> byte \<Rightarrow> byte \<times> byte" where
  "w_T7 num numm = mxor (w_U_6 num numm) (w_U_5 num numm)"

definition w_T8 :: "byte \<Rightarrow> byte \<Rightarrow> byte \<times> byte" where
  "w_T8 num numm = mxor (w_U_0 num numm) (w_T6 num numm)"

definition w_T9 :: "byte \<Rightarrow> byte \<Rightarrow> byte \<times> byte" where
  "w_T9 num numm = mxor (w_U_0 num numm) (w_T7 num numm)"

definition w_T10 :: "byte \<Rightarrow> byte \<Rightarrow> byte \<times> byte" where
  "w_T10 num numm = mxor (w_T6 num numm) (w_T7 num numm)"

definition w_T11 :: "byte \<Rightarrow> byte \<Rightarrow> byte \<times> byte" where
  "w_T11 num numm = mxor (w_U_6 num numm) (w_U_2 num numm)"

definition w_T12 :: "byte \<Rightarrow> byte \<Rightarrow> byte \<times> byte" where
  "w_T12 num numm = mxor (w_U_5 num numm) (w_U_2 num numm)"

definition w_T13 :: "byte \<Rightarrow> byte \<Rightarrow> byte \<times> byte" where
  "w_T13 num numm = mxor (w_T3 num numm) (w_T4 num numm)"

definition w_T14 :: "byte \<Rightarrow> byte \<Rightarrow> byte \<times> byte" where
  "w_T14 num numm = mxor (w_T6 num numm) (w_T11 num numm)"

definition w_T15 :: "byte \<Rightarrow> byte \<Rightarrow> byte \<times> byte" where
  "w_T15 num numm = mxor (w_T5 num numm) (w_T11 num numm)"

definition w_T16 :: "byte \<Rightarrow> byte \<Rightarrow> byte \<times> byte" where
  "w_T16 num numm = mxor (w_T5 num numm) (w_T12 num numm)"

definition w_T17 :: "byte \<Rightarrow> byte \<Rightarrow> byte \<times> byte" where
  "w_T17 num numm = mxor (w_T9 num numm) (w_T16 num numm)"

definition w_T18 :: "byte \<Rightarrow> byte \<Rightarrow> byte \<times> byte" where
  "w_T18 num numm = mxor (w_U_4 num numm) (w_U_0 num numm)"

definition w_T19 :: "byte \<Rightarrow> byte \<Rightarrow> byte \<times> byte" where
  "w_T19 num numm = mxor (w_T7 num numm) (w_T18 num numm)"

definition w_T20 :: "byte \<Rightarrow> byte \<Rightarrow> byte \<times> byte" where
  "w_T20 num numm = mxor (w_T1 num numm) (w_T19 num numm)"

definition w_T21 :: "byte \<Rightarrow> byte \<Rightarrow> byte \<times> byte" where
  "w_T21 num numm = mxor (w_U_1 num numm) (w_U_0 num numm)"

definition w_T22 :: "byte \<Rightarrow> byte \<Rightarrow> byte \<times> byte" where
  "w_T22 num numm = mxor (w_T7 num numm) (w_T21 num numm)"

definition w_T23 :: "byte \<Rightarrow> byte \<Rightarrow> byte \<times> byte" where
  "w_T23 num numm = mxor (w_T2 num numm) (w_T22 num numm)"

definition w_T24 :: "byte \<Rightarrow> byte \<Rightarrow> byte \<times> byte" where
  "w_T24 num numm = mxor (w_T2 num numm) (w_T10 num numm)"

definition w_T25 :: "byte \<Rightarrow> byte \<Rightarrow> byte \<times> byte" where
  "w_T25 num numm = mxor (w_T20 num numm) (w_T17 num numm)"

definition w_T26 :: "byte \<Rightarrow> byte \<Rightarrow> byte \<times> byte" where
  "w_T26 num numm = mxor (w_T3 num numm) (w_T16 num numm)"

definition w_T27 :: "byte \<Rightarrow> byte \<Rightarrow> byte \<times> byte" where
  "w_T27 num numm = mxor (w_T1 num numm) (w_T12 num numm)"

definition w_M1 :: "byte \<Rightarrow> byte \<Rightarrow> byte \<times> byte" where
  "w_M1 num numm = msand (w_T13 num numm) (w_T6 num numm)"

definition w_M2 :: "byte \<Rightarrow> byte \<Rightarrow> byte \<times> byte" where
  "w_M2 num numm = msand (w_T23 num numm) (w_T8 num numm)"

definition w_M3 :: "byte \<Rightarrow> byte \<Rightarrow> byte \<times> byte" where
  "w_M3 num numm = mxor (w_T14 num numm) (w_M1 num numm)"

definition w_M4 :: "byte \<Rightarrow> byte \<Rightarrow> byte \<times> byte" where
  "w_M4 num numm = msand (w_T19 num numm) (w_U_0 num numm)"

definition w_M5 :: "byte \<Rightarrow> byte \<Rightarrow> byte \<times> byte" where
  "w_M5 num numm = mxor (w_M4 num numm) (w_M1 num numm)"

definition w_M6 :: "byte \<Rightarrow> byte \<Rightarrow> byte \<times> byte" where
  "w_M6 num numm = msand (w_T3 num numm) (w_T16 num numm)"

definition w_M7 :: "byte \<Rightarrow> byte \<Rightarrow> byte \<times> byte" where
  "w_M7 num numm = msand (w_T22 num numm) (w_T9 num numm)"

definition w_M8 :: "byte \<Rightarrow> byte \<Rightarrow> byte \<times> byte" where
  "w_M8 num numm = mxor (w_T26 num numm) (w_M6 num numm)"

definition w_M9 :: "byte \<Rightarrow> byte \<Rightarrow> byte \<times> byte" where
  "w_M9 num numm = msand (w_T20 num numm) (w_T17 num numm)"

definition w_M10 :: "byte \<Rightarrow> byte \<Rightarrow> byte \<times> byte" where
  "w_M10 num numm = mxor (w_M9 num numm) (w_M6 num numm)"

definition w_M11 :: "byte \<Rightarrow> byte \<Rightarrow> byte \<times> byte" where
  "w_M11 num numm = msand (w_T1 num numm) (w_T15 num numm)"

definition w_M12 :: "byte \<Rightarrow> byte \<Rightarrow> byte \<times> byte" where
  "w_M12 num numm = msand (w_T4 num numm) (w_T27 num numm)"

definition w_M13 :: "byte \<Rightarrow> byte \<Rightarrow> byte \<times> byte" where
  "w_M13 num numm = mxor (w_M12 num numm) (w_M11 num numm)"

definition w_M14 :: "byte \<Rightarrow> byte \<Rightarrow> byte \<times> byte" where
  "w_M14 num numm = msand (w_T2 num numm) (w_T10 num numm)"

definition w_M15 :: "byte \<Rightarrow> byte \<Rightarrow> byte \<times> byte" where
  "w_M15 num numm = mxor (w_M14 num numm) (w_M11 num numm)"

definition w_M16 :: "byte \<Rightarrow> byte \<Rightarrow> byte \<times> byte" where
  "w_M16 num numm = mxor (w_M3 num numm) (w_M2 num numm)"

definition w_M17 :: "byte \<Rightarrow> byte \<Rightarrow> byte \<times> byte" where
  "w_M17 num numm = mxor (w_M5 num numm) (w_T24 num numm)"

definition w_M18 :: "byte \<Rightarrow> byte \<Rightarrow> byte \<times> byte" where
  "w_M18 num numm = mxor (w_M8 num numm) (w_M7 num numm)"

definition w_M19 :: "byte \<Rightarrow> byte \<Rightarrow> byte \<times> byte" where
  "w_M19 num numm = mxor (w_M10 num numm) (w_M15 num numm)"

definition w_M20 :: "byte \<Rightarrow> byte \<Rightarrow> byte \<times> byte" where
  "w_M20 num numm = mxor (w_M16 num numm) (w_M13 num numm)"

definition w_M21 :: "byte \<Rightarrow> byte \<Rightarrow> byte \<times> byte" where
  "w_M21 num numm = mxor (w_M17 num numm) (w_M15 num numm)"

definition w_M22 :: "byte \<Rightarrow> byte \<Rightarrow> byte \<times> byte" where
  "w_M22 num numm = mxor (w_M18 num numm) (w_M13 num numm)"

definition w_M23 :: "byte \<Rightarrow> byte \<Rightarrow> byte \<times> byte" where
  "w_M23 num numm = mxor (w_M19 num numm) (w_T25 num numm)"

definition w_M24 :: "byte \<Rightarrow> byte \<Rightarrow> byte \<times> byte" where
  "w_M24 num numm = mxor (w_M22 num numm) (w_M23 num numm)"

definition w_M25 :: "byte \<Rightarrow> byte \<Rightarrow> byte \<times> byte" where
  "w_M25 num numm = msand (w_M22 num numm) (w_M20 num numm)"

definition w_M26 :: "byte \<Rightarrow> byte \<Rightarrow> byte \<times> byte" where
  "w_M26 num numm = mxor (w_M21 num numm) (w_M25 num numm)"

definition w_M27 :: "byte \<Rightarrow> byte \<Rightarrow> byte \<times> byte" where
  "w_M27 num numm = mxor (w_M20 num numm) (w_M21 num numm)"

definition w_M28 :: "byte \<Rightarrow> byte \<Rightarrow> byte \<times> byte" where
  "w_M28 num numm = mxor (w_M23 num numm) (w_M25 num numm)"

definition w_M29 :: "byte \<Rightarrow> byte \<Rightarrow> byte \<times> byte" where
  "w_M29 num numm = msand (w_M28 num numm) (w_M27 num numm)"

definition w_M30 :: "byte \<Rightarrow> byte \<Rightarrow> byte \<times> byte" where
  "w_M30 num numm = msand (w_M26 num numm) (w_M24 num numm)"

definition w_M31 :: "byte \<Rightarrow> byte \<Rightarrow> byte \<times> byte" where
  "w_M31 num numm = msand (w_M20 num numm) (w_M23 num numm)"

definition w_M32 :: "byte \<Rightarrow> byte \<Rightarrow> byte \<times> byte" where
  "w_M32 num numm = msand (w_M27 num numm) (w_M31 num numm)"

definition w_M33 :: "byte \<Rightarrow> byte \<Rightarrow> byte \<times> byte" where
  "w_M33 num numm = mxor (w_M27 num numm) (w_M25 num numm)"

definition w_M34 :: "byte \<Rightarrow> byte \<Rightarrow> byte \<times> byte" where
  "w_M34 num numm = msand (w_M21 num numm) (w_M22 num numm)"

definition w_M35 :: "byte \<Rightarrow> byte \<Rightarrow> byte \<times> byte" where
  "w_M35 num numm = msand (w_M24 num numm) (w_M34 num numm)"

definition w_M36 :: "byte \<Rightarrow> byte \<Rightarrow> byte \<times> byte" where
  "w_M36 num numm = mxor (w_M24 num numm) (w_M25 num numm)"

definition w_M37 :: "byte \<Rightarrow> byte \<Rightarrow> byte \<times> byte" where
  "w_M37 num numm = mxor (w_M21 num numm) (w_M29 num numm)"

definition w_M38 :: "byte \<Rightarrow> byte \<Rightarrow> byte \<times> byte" where
  "w_M38 num numm = mxor (w_M32 num numm) (w_M33 num numm)"

definition w_M39 :: "byte \<Rightarrow> byte \<Rightarrow> byte \<times> byte" where
  "w_M39 num numm = mxor (w_M23 num numm) (w_M30 num numm)"

definition w_M40 :: "byte \<Rightarrow> byte \<Rightarrow> byte \<times> byte" where
  "w_M40 num numm = mxor (w_M35 num numm) (w_M36 num numm)"

definition w_M41 :: "byte \<Rightarrow> byte \<Rightarrow> byte \<times> byte" where
  "w_M41 num numm = mxor (w_M38 num numm) (w_M40 num numm)"

definition w_M42 :: "byte \<Rightarrow> byte \<Rightarrow> byte \<times> byte" where
  "w_M42 num numm = mxor (w_M37 num numm) (w_M39 num numm)"

definition w_M43 :: "byte \<Rightarrow> byte \<Rightarrow> byte \<times> byte" where
  "w_M43 num numm = mxor (w_M37 num numm) (w_M38 num numm)"

definition w_M44 :: "byte \<Rightarrow> byte \<Rightarrow> byte \<times> byte" where
  "w_M44 num numm = mxor (w_M39 num numm) (w_M40 num numm)"

definition w_M45 :: "byte \<Rightarrow> byte \<Rightarrow> byte \<times> byte" where
  "w_M45 num numm = mxor (w_M42 num numm) (w_M41 num numm)"

definition w_M46 :: "byte \<Rightarrow> byte \<Rightarrow> byte \<times> byte" where
  "w_M46 num numm = msand (w_M44 num numm) (w_T6 num numm)"

definition w_M47 :: "byte \<Rightarrow> byte \<Rightarrow> byte \<times> byte" where
  "w_M47 num numm = msand (w_M40 num numm) (w_T8 num numm)"

definition w_M48 :: "byte \<Rightarrow> byte \<Rightarrow> byte \<times> byte" where
  "w_M48 num numm = msand (w_M39 num numm) (w_U_0 num numm)"

definition w_M49 :: "byte \<Rightarrow> byte \<Rightarrow> byte \<times> byte" where
  "w_M49 num numm = msand (w_M43 num numm) (w_T16 num numm)"

definition w_M50 :: "byte \<Rightarrow> byte \<Rightarrow> byte \<times> byte" where
  "w_M50 num numm = msand (w_M38 num numm) (w_T9 num numm)"

definition w_M51 :: "byte \<Rightarrow> byte \<Rightarrow> byte \<times> byte" where
  "w_M51 num numm = msand (w_M37 num numm) (w_T17 num numm)"

definition w_M52 :: "byte \<Rightarrow> byte \<Rightarrow> byte \<times> byte" where
  "w_M52 num numm = msand (w_M42 num numm) (w_T15 num numm)"

definition w_M53 :: "byte \<Rightarrow> byte \<Rightarrow> byte \<times> byte" where
  "w_M53 num numm = msand (w_M45 num numm) (w_T27 num numm)"

definition w_M54 :: "byte \<Rightarrow> byte \<Rightarrow> byte \<times> byte" where
  "w_M54 num numm = msand (w_M41 num numm) (w_T10 num numm)"

definition w_M55 :: "byte \<Rightarrow> byte \<Rightarrow> byte \<times> byte" where
  "w_M55 num numm = msand (w_M44 num numm) (w_T13 num numm)"

definition w_M56 :: "byte \<Rightarrow> byte \<Rightarrow> byte \<times> byte" where
  "w_M56 num numm = msand (w_M40 num numm) (w_T23 num numm)"

definition w_M57 :: "byte \<Rightarrow> byte \<Rightarrow> byte \<times> byte" where
  "w_M57 num numm = msand (w_M39 num numm) (w_T19 num numm)"

definition w_M58 :: "byte \<Rightarrow> byte \<Rightarrow> byte \<times> byte" where
  "w_M58 num numm = msand (w_M43 num numm) (w_T3 num numm)"

definition w_M59 :: "byte \<Rightarrow> byte \<Rightarrow> byte \<times> byte" where
  "w_M59 num numm = msand (w_M38 num numm) (w_T22 num numm)"

definition w_M60 :: "byte \<Rightarrow> byte \<Rightarrow> byte \<times> byte" where
  "w_M60 num numm = msand (w_M37 num numm) (w_T20 num numm)"

definition w_M61 :: "byte \<Rightarrow> byte \<Rightarrow> byte \<times> byte" where
  "w_M61 num numm = msand (w_M42 num numm) (w_T1 num numm)"

definition w_M62 :: "byte \<Rightarrow> byte \<Rightarrow> byte \<times> byte" where
  "w_M62 num numm = msand (w_M45 num numm) (w_T4 num numm)"

definition w_M63 :: "byte \<Rightarrow> byte \<Rightarrow> byte \<times> byte" where
  "w_M63 num numm = msand (w_M41 num numm) (w_T2 num numm)"

definition w_L0 :: "byte \<Rightarrow> byte \<Rightarrow> byte \<times> byte" where
  "w_L0 num numm = mxor (w_M61 num numm) (w_M62 num numm)"

definition w_L1 :: "byte \<Rightarrow> byte \<Rightarrow> byte \<times> byte" where
  "w_L1 num numm = mxor (w_M50 num numm) (w_M56 num numm)"

definition w_L2 :: "byte \<Rightarrow> byte \<Rightarrow> byte \<times> byte" where
  "w_L2 num numm = mxor (w_M46 num numm) (w_M48 num numm)"

definition w_L3 :: "byte \<Rightarrow> byte \<Rightarrow> byte \<times> byte" where
  "w_L3 num numm = mxor (w_M47 num numm) (w_M55 num numm)"

definition w_L4 :: "byte \<Rightarrow> byte \<Rightarrow> byte \<times> byte" where
  "w_L4 num numm = mxor (w_M54 num numm) (w_M58 num numm)"

definition w_L5 :: "byte \<Rightarrow> byte \<Rightarrow> byte \<times> byte" where
  "w_L5 num numm = mxor (w_M49 num numm) (w_M61 num numm)"

definition w_L6 :: "byte \<Rightarrow> byte \<Rightarrow> byte \<times> byte" where
  "w_L6 num numm = mxor (w_M62 num numm) (w_L5 num numm)"

definition w_L7 :: "byte \<Rightarrow> byte \<Rightarrow> byte \<times> byte" where
  "w_L7 num numm = mxor (w_M46 num numm) (w_L3 num numm)"

definition w_L8 :: "byte \<Rightarrow> byte \<Rightarrow> byte \<times> byte" where
  "w_L8 num numm = mxor (w_M51 num numm) (w_M59 num numm)"

definition w_L9 :: "byte \<Rightarrow> byte \<Rightarrow> byte \<times> byte" where
  "w_L9 num numm = mxor (w_M52 num numm) (w_M53 num numm)"

definition w_L10 :: "byte \<Rightarrow> byte \<Rightarrow> byte \<times> byte" where
  "w_L10 num numm = mxor (w_M53 num numm) (w_L4 num numm)"

definition w_L11 :: "byte \<Rightarrow> byte \<Rightarrow> byte \<times> byte" where
  "w_L11 num numm = mxor (w_M60 num numm) (w_L2 num numm)"

definition w_L12 :: "byte \<Rightarrow> byte \<Rightarrow> byte \<times> byte" where
  "w_L12 num numm = mxor (w_M48 num numm) (w_M51 num numm)"

definition w_L13 :: "byte \<Rightarrow> byte \<Rightarrow> byte \<times> byte" where
  "w_L13 num numm = mxor (w_M50 num numm) (w_L0 num numm)"

definition w_L14 :: "byte \<Rightarrow> byte \<Rightarrow> byte \<times> byte" where
  "w_L14 num numm = mxor (w_M52 num numm) (w_M61 num numm)"

definition w_L15 :: "byte \<Rightarrow> byte \<Rightarrow> byte \<times> byte" where
  "w_L15 num numm = mxor (w_M55 num numm) (w_L1 num numm)"

definition w_L16 :: "byte \<Rightarrow> byte \<Rightarrow> byte \<times> byte" where
  "w_L16 num numm = mxor (w_M56 num numm) (w_L0 num numm)"

definition w_L17 :: "byte \<Rightarrow> byte \<Rightarrow> byte \<times> byte" where
  "w_L17 num numm = mxor (w_M57 num numm) (w_L1 num numm)"

definition w_L18 :: "byte \<Rightarrow> byte \<Rightarrow> byte \<times> byte" where
  "w_L18 num numm = mxor (w_M58 num numm) (w_L8 num numm)"

definition w_L19 :: "byte \<Rightarrow> byte \<Rightarrow> byte \<times> byte" where
  "w_L19 num numm = mxor (w_M63 num numm) (w_L4 num numm)"

definition w_L20 :: "byte \<Rightarrow> byte \<Rightarrow> byte \<times> byte" where
  "w_L20 num numm = mxor (w_L0 num numm) (w_L1 num numm)"

definition w_L21 :: "byte \<Rightarrow> byte \<Rightarrow> byte \<times> byte" where
  "w_L21 num numm = mxor (w_L1 num numm) (w_L7 num numm)"

definition w_L22 :: "byte \<Rightarrow> byte \<Rightarrow> byte \<times> byte" where
  "w_L22 num numm = mxor (w_L3 num numm) (w_L12 num numm)"

definition w_L23 :: "byte \<Rightarrow> byte \<Rightarrow> byte \<times> byte" where
  "w_L23 num numm = mxor (w_L18 num numm) (w_L2 num numm)"

definition w_L24 :: "byte \<Rightarrow> byte \<Rightarrow> byte \<times> byte" where
  "w_L24 num numm = mxor (w_L15 num numm) (w_L9 num numm)"

definition w_L25 :: "byte \<Rightarrow> byte \<Rightarrow> byte \<times> byte" where
  "w_L25 num numm = mxor (w_L6 num numm) (w_L10 num numm)"

definition w_L26 :: "byte \<Rightarrow> byte \<Rightarrow> byte \<times> byte" where
  "w_L26 num numm = mxor (w_L7 num numm) (w_L9 num numm)"

definition w_L27 :: "byte \<Rightarrow> byte \<Rightarrow> byte \<times> byte" where
  "w_L27 num numm = mxor (w_L8 num numm) (w_L10 num numm)"

definition w_L28 :: "byte \<Rightarrow> byte \<Rightarrow> byte \<times> byte" where
  "w_L28 num numm = mxor (w_L11 num numm) (w_L14 num numm)"

definition w_L29 :: "byte \<Rightarrow> byte \<Rightarrow> byte \<times> byte" where
  "w_L29 num numm = mxor (w_L11 num numm) (w_L17 num numm)"

definition w_out_7 :: "byte \<Rightarrow> byte \<Rightarrow> byte \<times> byte" where
  "w_out_7 num numm = mxor (w_L6 num numm) (w_L24 num numm)"

definition w_out_6 :: "byte \<Rightarrow> byte \<Rightarrow> byte \<times> byte" where
  "w_out_6 num numm = mnxor (w_L16 num numm) (w_L26 num numm)"

definition w_out_5 :: "byte \<Rightarrow> byte \<Rightarrow> byte \<times> byte" where
  "w_out_5 num numm = mnxor (w_L19 num numm) (w_L28 num numm)"

definition w_out_4 :: "byte \<Rightarrow> byte \<Rightarrow> byte \<times> byte" where
  "w_out_4 num numm = mxor (w_L6 num numm) (w_L21 num numm)"

definition w_out_3 :: "byte \<Rightarrow> byte \<Rightarrow> byte \<times> byte" where
  "w_out_3 num numm = mxor (w_L20 num numm) (w_L22 num numm)"

definition w_out_2 :: "byte \<Rightarrow> byte \<Rightarrow> byte \<times> byte" where
  "w_out_2 num numm = mxor (w_L25 num numm) (w_L29 num numm)"

definition w_out_1 :: "byte \<Rightarrow> byte \<Rightarrow> byte \<times> byte" where
  "w_out_1 num numm = mnxor (w_L13 num numm) (w_L27 num numm)"

definition w_out_0 :: "byte \<Rightarrow> byte \<Rightarrow> byte \<times> byte" where
  "w_out_0 num numm = mnxor (w_L6 num numm) (w_L23 num numm)"

subsection \<open>Every wire carries the masked form of the unmasked circuit\<close>

lemma unm_lane: "unm (lane i n m) = unm (lane i (n XOR m) 0)"
  by (simp add: unm_def lane_def bit_eq_iff bit_simps)

lemma unm_mxor_eq: "unm (mxor a b) = unm a XOR unm b"
  by (simp add: unm_def mxor_def xor.assoc xor.left_commute)

lemma unm_mnxor_eq: "unm (mnxor a b) = NOT (unm a XOR unm b)"
  by (simp add: unm_def mnxor_def bit_eq_iff bit_simps) auto

lemma unm_msand_eq: "unm (msand a b) = unm a AND unm b"
  by (simp add: unm_def msand_def SAND_unmask)

lemma unm_mxor: "unm a = unm a' \<Longrightarrow> unm b = unm b' \<Longrightarrow> unm (mxor a b) = unm (mxor a' b')"
  by (simp add: unm_mxor_eq)

lemma unm_mnxor: "unm a = unm a' \<Longrightarrow> unm b = unm b' \<Longrightarrow> unm (mnxor a b) = unm (mnxor a' b')"
  by (simp add: unm_mnxor_eq)

lemma unm_msand: "unm a = unm a' \<Longrightarrow> unm b = unm b' \<Longrightarrow> unm (msand a b) = unm (msand a' b')"
  by (simp add: unm_msand_eq)

text \<open>
  For every wire: its unmasked value at \<open>(n, m)\<close> is its unmasked value at
  \<open>(n XOR m, 0)\<close>. Each lemma follows from those of the two wires the gate reads.
\<close>

lemma unm_w_U_0: "unm (w_U_0 n m) = unm (w_U_0 (n XOR m) 0)"
  unfolding w_U_0_def by (rule unm_lane)

lemma unm_w_U_1: "unm (w_U_1 n m) = unm (w_U_1 (n XOR m) 0)"
  unfolding w_U_1_def by (rule unm_lane)

lemma unm_w_U_2: "unm (w_U_2 n m) = unm (w_U_2 (n XOR m) 0)"
  unfolding w_U_2_def by (rule unm_lane)

lemma unm_w_U_3: "unm (w_U_3 n m) = unm (w_U_3 (n XOR m) 0)"
  unfolding w_U_3_def by (rule unm_lane)

lemma unm_w_U_4: "unm (w_U_4 n m) = unm (w_U_4 (n XOR m) 0)"
  unfolding w_U_4_def by (rule unm_lane)

lemma unm_w_U_5: "unm (w_U_5 n m) = unm (w_U_5 (n XOR m) 0)"
  unfolding w_U_5_def by (rule unm_lane)

lemma unm_w_U_6: "unm (w_U_6 n m) = unm (w_U_6 (n XOR m) 0)"
  unfolding w_U_6_def by (rule unm_lane)

lemma unm_w_U_7: "unm (w_U_7 n m) = unm (w_U_7 (n XOR m) 0)"
  unfolding w_U_7_def by (rule unm_lane)

lemma unm_w_T1: "unm (w_T1 n m) = unm (w_T1 (n XOR m) 0)"
  unfolding w_T1_def by (rule unm_mxor [OF unm_w_U_7 unm_w_U_4])

lemma unm_w_T2: "unm (w_T2 n m) = unm (w_T2 (n XOR m) 0)"
  unfolding w_T2_def by (rule unm_mxor [OF unm_w_U_7 unm_w_U_2])

lemma unm_w_T3: "unm (w_T3 n m) = unm (w_T3 (n XOR m) 0)"
  unfolding w_T3_def by (rule unm_mxor [OF unm_w_U_7 unm_w_U_1])

lemma unm_w_T4: "unm (w_T4 n m) = unm (w_T4 (n XOR m) 0)"
  unfolding w_T4_def by (rule unm_mxor [OF unm_w_U_4 unm_w_U_2])

lemma unm_w_T5: "unm (w_T5 n m) = unm (w_T5 (n XOR m) 0)"
  unfolding w_T5_def by (rule unm_mxor [OF unm_w_U_3 unm_w_U_1])

lemma unm_w_T6: "unm (w_T6 n m) = unm (w_T6 (n XOR m) 0)"
  unfolding w_T6_def by (rule unm_mxor [OF unm_w_T1 unm_w_T5])

lemma unm_w_T7: "unm (w_T7 n m) = unm (w_T7 (n XOR m) 0)"
  unfolding w_T7_def by (rule unm_mxor [OF unm_w_U_6 unm_w_U_5])

lemma unm_w_T8: "unm (w_T8 n m) = unm (w_T8 (n XOR m) 0)"
  unfolding w_T8_def by (rule unm_mxor [OF unm_w_U_0 unm_w_T6])

lemma unm_w_T9: "unm (w_T9 n m) = unm (w_T9 (n XOR m) 0)"
  unfolding w_T9_def by (rule unm_mxor [OF unm_w_U_0 unm_w_T7])

lemma unm_w_T10: "unm (w_T10 n m) = unm (w_T10 (n XOR m) 0)"
  unfolding w_T10_def by (rule unm_mxor [OF unm_w_T6 unm_w_T7])

lemma unm_w_T11: "unm (w_T11 n m) = unm (w_T11 (n XOR m) 0)"
  unfolding w_T11_def by (rule unm_mxor [OF unm_w_U_6 unm_w_U_2])

lemma unm_w_T12: "unm (w_T12 n m) = unm (w_T12 (n XOR m) 0)"
  unfolding w_T12_def by (rule unm_mxor [OF unm_w_U_5 unm_w_U_2])

lemma unm_w_T13: "unm (w_T13 n m) = unm (w_T13 (n XOR m) 0)"
  unfolding w_T13_def by (rule unm_mxor [OF unm_w_T3 unm_w_T4])

lemma unm_w_T14: "unm (w_T14 n m) = unm (w_T14 (n XOR m) 0)"
  unfolding w_T14_def by (rule unm_mxor [OF unm_w_T6 unm_w_T11])

lemma unm_w_T15: "unm (w_T15 n m) = unm (w_T15 (n XOR m) 0)"
  unfolding w_T15_def by (rule unm_mxor [OF unm_w_T5 unm_w_T11])

lemma unm_w_T16: "unm (w_T16 n m) = unm (w_T16 (n XOR m) 0)"
  unfolding w_T16_def by (rule unm_mxor [OF unm_w_T5 unm_w_T12])

lemma unm_w_T17: "unm (w_T17 n m) = unm (w_T17 (n XOR m) 0)"
  unfolding w_T17_def by (rule unm_mxor [OF unm_w_T9 unm_w_T16])

lemma unm_w_T18: "unm (w_T18 n m) = unm (w_T18 (n XOR m) 0)"
  unfolding w_T18_def by (rule unm_mxor [OF unm_w_U_4 unm_w_U_0])

lemma unm_w_T19: "unm (w_T19 n m) = unm (w_T19 (n XOR m) 0)"
  unfolding w_T19_def by (rule unm_mxor [OF unm_w_T7 unm_w_T18])

lemma unm_w_T20: "unm (w_T20 n m) = unm (w_T20 (n XOR m) 0)"
  unfolding w_T20_def by (rule unm_mxor [OF unm_w_T1 unm_w_T19])

lemma unm_w_T21: "unm (w_T21 n m) = unm (w_T21 (n XOR m) 0)"
  unfolding w_T21_def by (rule unm_mxor [OF unm_w_U_1 unm_w_U_0])

lemma unm_w_T22: "unm (w_T22 n m) = unm (w_T22 (n XOR m) 0)"
  unfolding w_T22_def by (rule unm_mxor [OF unm_w_T7 unm_w_T21])

lemma unm_w_T23: "unm (w_T23 n m) = unm (w_T23 (n XOR m) 0)"
  unfolding w_T23_def by (rule unm_mxor [OF unm_w_T2 unm_w_T22])

lemma unm_w_T24: "unm (w_T24 n m) = unm (w_T24 (n XOR m) 0)"
  unfolding w_T24_def by (rule unm_mxor [OF unm_w_T2 unm_w_T10])

lemma unm_w_T25: "unm (w_T25 n m) = unm (w_T25 (n XOR m) 0)"
  unfolding w_T25_def by (rule unm_mxor [OF unm_w_T20 unm_w_T17])

lemma unm_w_T26: "unm (w_T26 n m) = unm (w_T26 (n XOR m) 0)"
  unfolding w_T26_def by (rule unm_mxor [OF unm_w_T3 unm_w_T16])

lemma unm_w_T27: "unm (w_T27 n m) = unm (w_T27 (n XOR m) 0)"
  unfolding w_T27_def by (rule unm_mxor [OF unm_w_T1 unm_w_T12])

lemma unm_w_M1: "unm (w_M1 n m) = unm (w_M1 (n XOR m) 0)"
  unfolding w_M1_def by (rule unm_msand [OF unm_w_T13 unm_w_T6])

lemma unm_w_M2: "unm (w_M2 n m) = unm (w_M2 (n XOR m) 0)"
  unfolding w_M2_def by (rule unm_msand [OF unm_w_T23 unm_w_T8])

lemma unm_w_M3: "unm (w_M3 n m) = unm (w_M3 (n XOR m) 0)"
  unfolding w_M3_def by (rule unm_mxor [OF unm_w_T14 unm_w_M1])

lemma unm_w_M4: "unm (w_M4 n m) = unm (w_M4 (n XOR m) 0)"
  unfolding w_M4_def by (rule unm_msand [OF unm_w_T19 unm_w_U_0])

lemma unm_w_M5: "unm (w_M5 n m) = unm (w_M5 (n XOR m) 0)"
  unfolding w_M5_def by (rule unm_mxor [OF unm_w_M4 unm_w_M1])

lemma unm_w_M6: "unm (w_M6 n m) = unm (w_M6 (n XOR m) 0)"
  unfolding w_M6_def by (rule unm_msand [OF unm_w_T3 unm_w_T16])

lemma unm_w_M7: "unm (w_M7 n m) = unm (w_M7 (n XOR m) 0)"
  unfolding w_M7_def by (rule unm_msand [OF unm_w_T22 unm_w_T9])

lemma unm_w_M8: "unm (w_M8 n m) = unm (w_M8 (n XOR m) 0)"
  unfolding w_M8_def by (rule unm_mxor [OF unm_w_T26 unm_w_M6])

lemma unm_w_M9: "unm (w_M9 n m) = unm (w_M9 (n XOR m) 0)"
  unfolding w_M9_def by (rule unm_msand [OF unm_w_T20 unm_w_T17])

lemma unm_w_M10: "unm (w_M10 n m) = unm (w_M10 (n XOR m) 0)"
  unfolding w_M10_def by (rule unm_mxor [OF unm_w_M9 unm_w_M6])

lemma unm_w_M11: "unm (w_M11 n m) = unm (w_M11 (n XOR m) 0)"
  unfolding w_M11_def by (rule unm_msand [OF unm_w_T1 unm_w_T15])

lemma unm_w_M12: "unm (w_M12 n m) = unm (w_M12 (n XOR m) 0)"
  unfolding w_M12_def by (rule unm_msand [OF unm_w_T4 unm_w_T27])

lemma unm_w_M13: "unm (w_M13 n m) = unm (w_M13 (n XOR m) 0)"
  unfolding w_M13_def by (rule unm_mxor [OF unm_w_M12 unm_w_M11])

lemma unm_w_M14: "unm (w_M14 n m) = unm (w_M14 (n XOR m) 0)"
  unfolding w_M14_def by (rule unm_msand [OF unm_w_T2 unm_w_T10])

lemma unm_w_M15: "unm (w_M15 n m) = unm (w_M15 (n XOR m) 0)"
  unfolding w_M15_def by (rule unm_mxor [OF unm_w_M14 unm_w_M11])

lemma unm_w_M16: "unm (w_M16 n m) = unm (w_M16 (n XOR m) 0)"
  unfolding w_M16_def by (rule unm_mxor [OF unm_w_M3 unm_w_M2])

lemma unm_w_M17: "unm (w_M17 n m) = unm (w_M17 (n XOR m) 0)"
  unfolding w_M17_def by (rule unm_mxor [OF unm_w_M5 unm_w_T24])

lemma unm_w_M18: "unm (w_M18 n m) = unm (w_M18 (n XOR m) 0)"
  unfolding w_M18_def by (rule unm_mxor [OF unm_w_M8 unm_w_M7])

lemma unm_w_M19: "unm (w_M19 n m) = unm (w_M19 (n XOR m) 0)"
  unfolding w_M19_def by (rule unm_mxor [OF unm_w_M10 unm_w_M15])

lemma unm_w_M20: "unm (w_M20 n m) = unm (w_M20 (n XOR m) 0)"
  unfolding w_M20_def by (rule unm_mxor [OF unm_w_M16 unm_w_M13])

lemma unm_w_M21: "unm (w_M21 n m) = unm (w_M21 (n XOR m) 0)"
  unfolding w_M21_def by (rule unm_mxor [OF unm_w_M17 unm_w_M15])

lemma unm_w_M22: "unm (w_M22 n m) = unm (w_M22 (n XOR m) 0)"
  unfolding w_M22_def by (rule unm_mxor [OF unm_w_M18 unm_w_M13])

lemma unm_w_M23: "unm (w_M23 n m) = unm (w_M23 (n XOR m) 0)"
  unfolding w_M23_def by (rule unm_mxor [OF unm_w_M19 unm_w_T25])

lemma unm_w_M24: "unm (w_M24 n m) = unm (w_M24 (n XOR m) 0)"
  unfolding w_M24_def by (rule unm_mxor [OF unm_w_M22 unm_w_M23])

lemma unm_w_M25: "unm (w_M25 n m) = unm (w_M25 (n XOR m) 0)"
  unfolding w_M25_def by (rule unm_msand [OF unm_w_M22 unm_w_M20])

lemma unm_w_M26: "unm (w_M26 n m) = unm (w_M26 (n XOR m) 0)"
  unfolding w_M26_def by (rule unm_mxor [OF unm_w_M21 unm_w_M25])

lemma unm_w_M27: "unm (w_M27 n m) = unm (w_M27 (n XOR m) 0)"
  unfolding w_M27_def by (rule unm_mxor [OF unm_w_M20 unm_w_M21])

lemma unm_w_M28: "unm (w_M28 n m) = unm (w_M28 (n XOR m) 0)"
  unfolding w_M28_def by (rule unm_mxor [OF unm_w_M23 unm_w_M25])

lemma unm_w_M29: "unm (w_M29 n m) = unm (w_M29 (n XOR m) 0)"
  unfolding w_M29_def by (rule unm_msand [OF unm_w_M28 unm_w_M27])

lemma unm_w_M30: "unm (w_M30 n m) = unm (w_M30 (n XOR m) 0)"
  unfolding w_M30_def by (rule unm_msand [OF unm_w_M26 unm_w_M24])

lemma unm_w_M31: "unm (w_M31 n m) = unm (w_M31 (n XOR m) 0)"
  unfolding w_M31_def by (rule unm_msand [OF unm_w_M20 unm_w_M23])

lemma unm_w_M32: "unm (w_M32 n m) = unm (w_M32 (n XOR m) 0)"
  unfolding w_M32_def by (rule unm_msand [OF unm_w_M27 unm_w_M31])

lemma unm_w_M33: "unm (w_M33 n m) = unm (w_M33 (n XOR m) 0)"
  unfolding w_M33_def by (rule unm_mxor [OF unm_w_M27 unm_w_M25])

lemma unm_w_M34: "unm (w_M34 n m) = unm (w_M34 (n XOR m) 0)"
  unfolding w_M34_def by (rule unm_msand [OF unm_w_M21 unm_w_M22])

lemma unm_w_M35: "unm (w_M35 n m) = unm (w_M35 (n XOR m) 0)"
  unfolding w_M35_def by (rule unm_msand [OF unm_w_M24 unm_w_M34])

lemma unm_w_M36: "unm (w_M36 n m) = unm (w_M36 (n XOR m) 0)"
  unfolding w_M36_def by (rule unm_mxor [OF unm_w_M24 unm_w_M25])

lemma unm_w_M37: "unm (w_M37 n m) = unm (w_M37 (n XOR m) 0)"
  unfolding w_M37_def by (rule unm_mxor [OF unm_w_M21 unm_w_M29])

lemma unm_w_M38: "unm (w_M38 n m) = unm (w_M38 (n XOR m) 0)"
  unfolding w_M38_def by (rule unm_mxor [OF unm_w_M32 unm_w_M33])

lemma unm_w_M39: "unm (w_M39 n m) = unm (w_M39 (n XOR m) 0)"
  unfolding w_M39_def by (rule unm_mxor [OF unm_w_M23 unm_w_M30])

lemma unm_w_M40: "unm (w_M40 n m) = unm (w_M40 (n XOR m) 0)"
  unfolding w_M40_def by (rule unm_mxor [OF unm_w_M35 unm_w_M36])

lemma unm_w_M41: "unm (w_M41 n m) = unm (w_M41 (n XOR m) 0)"
  unfolding w_M41_def by (rule unm_mxor [OF unm_w_M38 unm_w_M40])

lemma unm_w_M42: "unm (w_M42 n m) = unm (w_M42 (n XOR m) 0)"
  unfolding w_M42_def by (rule unm_mxor [OF unm_w_M37 unm_w_M39])

lemma unm_w_M43: "unm (w_M43 n m) = unm (w_M43 (n XOR m) 0)"
  unfolding w_M43_def by (rule unm_mxor [OF unm_w_M37 unm_w_M38])

lemma unm_w_M44: "unm (w_M44 n m) = unm (w_M44 (n XOR m) 0)"
  unfolding w_M44_def by (rule unm_mxor [OF unm_w_M39 unm_w_M40])

lemma unm_w_M45: "unm (w_M45 n m) = unm (w_M45 (n XOR m) 0)"
  unfolding w_M45_def by (rule unm_mxor [OF unm_w_M42 unm_w_M41])

lemma unm_w_M46: "unm (w_M46 n m) = unm (w_M46 (n XOR m) 0)"
  unfolding w_M46_def by (rule unm_msand [OF unm_w_M44 unm_w_T6])

lemma unm_w_M47: "unm (w_M47 n m) = unm (w_M47 (n XOR m) 0)"
  unfolding w_M47_def by (rule unm_msand [OF unm_w_M40 unm_w_T8])

lemma unm_w_M48: "unm (w_M48 n m) = unm (w_M48 (n XOR m) 0)"
  unfolding w_M48_def by (rule unm_msand [OF unm_w_M39 unm_w_U_0])

lemma unm_w_M49: "unm (w_M49 n m) = unm (w_M49 (n XOR m) 0)"
  unfolding w_M49_def by (rule unm_msand [OF unm_w_M43 unm_w_T16])

lemma unm_w_M50: "unm (w_M50 n m) = unm (w_M50 (n XOR m) 0)"
  unfolding w_M50_def by (rule unm_msand [OF unm_w_M38 unm_w_T9])

lemma unm_w_M51: "unm (w_M51 n m) = unm (w_M51 (n XOR m) 0)"
  unfolding w_M51_def by (rule unm_msand [OF unm_w_M37 unm_w_T17])

lemma unm_w_M52: "unm (w_M52 n m) = unm (w_M52 (n XOR m) 0)"
  unfolding w_M52_def by (rule unm_msand [OF unm_w_M42 unm_w_T15])

lemma unm_w_M53: "unm (w_M53 n m) = unm (w_M53 (n XOR m) 0)"
  unfolding w_M53_def by (rule unm_msand [OF unm_w_M45 unm_w_T27])

lemma unm_w_M54: "unm (w_M54 n m) = unm (w_M54 (n XOR m) 0)"
  unfolding w_M54_def by (rule unm_msand [OF unm_w_M41 unm_w_T10])

lemma unm_w_M55: "unm (w_M55 n m) = unm (w_M55 (n XOR m) 0)"
  unfolding w_M55_def by (rule unm_msand [OF unm_w_M44 unm_w_T13])

lemma unm_w_M56: "unm (w_M56 n m) = unm (w_M56 (n XOR m) 0)"
  unfolding w_M56_def by (rule unm_msand [OF unm_w_M40 unm_w_T23])

lemma unm_w_M57: "unm (w_M57 n m) = unm (w_M57 (n XOR m) 0)"
  unfolding w_M57_def by (rule unm_msand [OF unm_w_M39 unm_w_T19])

lemma unm_w_M58: "unm (w_M58 n m) = unm (w_M58 (n XOR m) 0)"
  unfolding w_M58_def by (rule unm_msand [OF unm_w_M43 unm_w_T3])

lemma unm_w_M59: "unm (w_M59 n m) = unm (w_M59 (n XOR m) 0)"
  unfolding w_M59_def by (rule unm_msand [OF unm_w_M38 unm_w_T22])

lemma unm_w_M60: "unm (w_M60 n m) = unm (w_M60 (n XOR m) 0)"
  unfolding w_M60_def by (rule unm_msand [OF unm_w_M37 unm_w_T20])

lemma unm_w_M61: "unm (w_M61 n m) = unm (w_M61 (n XOR m) 0)"
  unfolding w_M61_def by (rule unm_msand [OF unm_w_M42 unm_w_T1])

lemma unm_w_M62: "unm (w_M62 n m) = unm (w_M62 (n XOR m) 0)"
  unfolding w_M62_def by (rule unm_msand [OF unm_w_M45 unm_w_T4])

lemma unm_w_M63: "unm (w_M63 n m) = unm (w_M63 (n XOR m) 0)"
  unfolding w_M63_def by (rule unm_msand [OF unm_w_M41 unm_w_T2])

lemma unm_w_L0: "unm (w_L0 n m) = unm (w_L0 (n XOR m) 0)"
  unfolding w_L0_def by (rule unm_mxor [OF unm_w_M61 unm_w_M62])

lemma unm_w_L1: "unm (w_L1 n m) = unm (w_L1 (n XOR m) 0)"
  unfolding w_L1_def by (rule unm_mxor [OF unm_w_M50 unm_w_M56])

lemma unm_w_L2: "unm (w_L2 n m) = unm (w_L2 (n XOR m) 0)"
  unfolding w_L2_def by (rule unm_mxor [OF unm_w_M46 unm_w_M48])

lemma unm_w_L3: "unm (w_L3 n m) = unm (w_L3 (n XOR m) 0)"
  unfolding w_L3_def by (rule unm_mxor [OF unm_w_M47 unm_w_M55])

lemma unm_w_L4: "unm (w_L4 n m) = unm (w_L4 (n XOR m) 0)"
  unfolding w_L4_def by (rule unm_mxor [OF unm_w_M54 unm_w_M58])

lemma unm_w_L5: "unm (w_L5 n m) = unm (w_L5 (n XOR m) 0)"
  unfolding w_L5_def by (rule unm_mxor [OF unm_w_M49 unm_w_M61])

lemma unm_w_L6: "unm (w_L6 n m) = unm (w_L6 (n XOR m) 0)"
  unfolding w_L6_def by (rule unm_mxor [OF unm_w_M62 unm_w_L5])

lemma unm_w_L7: "unm (w_L7 n m) = unm (w_L7 (n XOR m) 0)"
  unfolding w_L7_def by (rule unm_mxor [OF unm_w_M46 unm_w_L3])

lemma unm_w_L8: "unm (w_L8 n m) = unm (w_L8 (n XOR m) 0)"
  unfolding w_L8_def by (rule unm_mxor [OF unm_w_M51 unm_w_M59])

lemma unm_w_L9: "unm (w_L9 n m) = unm (w_L9 (n XOR m) 0)"
  unfolding w_L9_def by (rule unm_mxor [OF unm_w_M52 unm_w_M53])

lemma unm_w_L10: "unm (w_L10 n m) = unm (w_L10 (n XOR m) 0)"
  unfolding w_L10_def by (rule unm_mxor [OF unm_w_M53 unm_w_L4])

lemma unm_w_L11: "unm (w_L11 n m) = unm (w_L11 (n XOR m) 0)"
  unfolding w_L11_def by (rule unm_mxor [OF unm_w_M60 unm_w_L2])

lemma unm_w_L12: "unm (w_L12 n m) = unm (w_L12 (n XOR m) 0)"
  unfolding w_L12_def by (rule unm_mxor [OF unm_w_M48 unm_w_M51])

lemma unm_w_L13: "unm (w_L13 n m) = unm (w_L13 (n XOR m) 0)"
  unfolding w_L13_def by (rule unm_mxor [OF unm_w_M50 unm_w_L0])

lemma unm_w_L14: "unm (w_L14 n m) = unm (w_L14 (n XOR m) 0)"
  unfolding w_L14_def by (rule unm_mxor [OF unm_w_M52 unm_w_M61])

lemma unm_w_L15: "unm (w_L15 n m) = unm (w_L15 (n XOR m) 0)"
  unfolding w_L15_def by (rule unm_mxor [OF unm_w_M55 unm_w_L1])

lemma unm_w_L16: "unm (w_L16 n m) = unm (w_L16 (n XOR m) 0)"
  unfolding w_L16_def by (rule unm_mxor [OF unm_w_M56 unm_w_L0])

lemma unm_w_L17: "unm (w_L17 n m) = unm (w_L17 (n XOR m) 0)"
  unfolding w_L17_def by (rule unm_mxor [OF unm_w_M57 unm_w_L1])

lemma unm_w_L18: "unm (w_L18 n m) = unm (w_L18 (n XOR m) 0)"
  unfolding w_L18_def by (rule unm_mxor [OF unm_w_M58 unm_w_L8])

lemma unm_w_L19: "unm (w_L19 n m) = unm (w_L19 (n XOR m) 0)"
  unfolding w_L19_def by (rule unm_mxor [OF unm_w_M63 unm_w_L4])

lemma unm_w_L20: "unm (w_L20 n m) = unm (w_L20 (n XOR m) 0)"
  unfolding w_L20_def by (rule unm_mxor [OF unm_w_L0 unm_w_L1])

lemma unm_w_L21: "unm (w_L21 n m) = unm (w_L21 (n XOR m) 0)"
  unfolding w_L21_def by (rule unm_mxor [OF unm_w_L1 unm_w_L7])

lemma unm_w_L22: "unm (w_L22 n m) = unm (w_L22 (n XOR m) 0)"
  unfolding w_L22_def by (rule unm_mxor [OF unm_w_L3 unm_w_L12])

lemma unm_w_L23: "unm (w_L23 n m) = unm (w_L23 (n XOR m) 0)"
  unfolding w_L23_def by (rule unm_mxor [OF unm_w_L18 unm_w_L2])

lemma unm_w_L24: "unm (w_L24 n m) = unm (w_L24 (n XOR m) 0)"
  unfolding w_L24_def by (rule unm_mxor [OF unm_w_L15 unm_w_L9])

lemma unm_w_L25: "unm (w_L25 n m) = unm (w_L25 (n XOR m) 0)"
  unfolding w_L25_def by (rule unm_mxor [OF unm_w_L6 unm_w_L10])

lemma unm_w_L26: "unm (w_L26 n m) = unm (w_L26 (n XOR m) 0)"
  unfolding w_L26_def by (rule unm_mxor [OF unm_w_L7 unm_w_L9])

lemma unm_w_L27: "unm (w_L27 n m) = unm (w_L27 (n XOR m) 0)"
  unfolding w_L27_def by (rule unm_mxor [OF unm_w_L8 unm_w_L10])

lemma unm_w_L28: "unm (w_L28 n m) = unm (w_L28 (n XOR m) 0)"
  unfolding w_L28_def by (rule unm_mxor [OF unm_w_L11 unm_w_L14])

lemma unm_w_L29: "unm (w_L29 n m) = unm (w_L29 (n XOR m) 0)"
  unfolding w_L29_def by (rule unm_mxor [OF unm_w_L11 unm_w_L17])

lemma unm_w_out_7: "unm (w_out_7 n m) = unm (w_out_7 (n XOR m) 0)"
  unfolding w_out_7_def by (rule unm_mxor [OF unm_w_L6 unm_w_L24])

lemma unm_w_out_6: "unm (w_out_6 n m) = unm (w_out_6 (n XOR m) 0)"
  unfolding w_out_6_def by (rule unm_mnxor [OF unm_w_L16 unm_w_L26])

lemma unm_w_out_5: "unm (w_out_5 n m) = unm (w_out_5 (n XOR m) 0)"
  unfolding w_out_5_def by (rule unm_mnxor [OF unm_w_L19 unm_w_L28])

lemma unm_w_out_4: "unm (w_out_4 n m) = unm (w_out_4 (n XOR m) 0)"
  unfolding w_out_4_def by (rule unm_mxor [OF unm_w_L6 unm_w_L21])

lemma unm_w_out_3: "unm (w_out_3 n m) = unm (w_out_3 (n XOR m) 0)"
  unfolding w_out_3_def by (rule unm_mxor [OF unm_w_L20 unm_w_L22])

lemma unm_w_out_2: "unm (w_out_2 n m) = unm (w_out_2 (n XOR m) 0)"
  unfolding w_out_2_def by (rule unm_mxor [OF unm_w_L25 unm_w_L29])

lemma unm_w_out_1: "unm (w_out_1 n m) = unm (w_out_1 (n XOR m) 0)"
  unfolding w_out_1_def by (rule unm_mnxor [OF unm_w_L13 unm_w_L27])

lemma unm_w_out_0: "unm (w_out_0 n m) = unm (w_out_0 (n XOR m) 0)"
  unfolding w_out_0_def by (rule unm_mnxor [OF unm_w_L6 unm_w_L23])

subsection \<open>The function is the repacking of its output wires\<close>

text \<open>Each bound expression of \<open>getSBoxValuem\<close>, read on the wires.\<close>

lemma lane_folds:
  "drop_bit 0 num = fst (w_U_0 num numm)" "drop_bit 0 numm = snd (w_U_0 num numm)"
  "drop_bit 1 num = fst (w_U_1 num numm)" "drop_bit 1 numm = snd (w_U_1 num numm)"
  "drop_bit 2 num = fst (w_U_2 num numm)" "drop_bit 2 numm = snd (w_U_2 num numm)"
  "drop_bit 3 num = fst (w_U_3 num numm)" "drop_bit 3 numm = snd (w_U_3 num numm)"
  "drop_bit 4 num = fst (w_U_4 num numm)" "drop_bit 4 numm = snd (w_U_4 num numm)"
  "drop_bit 5 num = fst (w_U_5 num numm)" "drop_bit 5 numm = snd (w_U_5 num numm)"
  "drop_bit 6 num = fst (w_U_6 num numm)" "drop_bit 6 numm = snd (w_U_6 num numm)"
  "drop_bit 7 num = fst (w_U_7 num numm)" "drop_bit 7 numm = snd (w_U_7 num numm)"
  by (simp_all add: lane_def w_U_0_def w_U_1_def w_U_2_def w_U_3_def w_U_4_def w_U_5_def w_U_6_def w_U_7_def)

lemma mxor_fst: "w = mxor a b \<Longrightarrow> fst a XOR fst b = fst w"
  and mxor_snd: "w = mxor a b \<Longrightarrow> snd a XOR snd b = snd w"
  by (simp_all add: mxor_def)

lemma mnxor_fst: "w = mnxor a b \<Longrightarrow> NOT (fst a XOR fst b) = fst w"
  and mnxor_snd: "w = mnxor a b \<Longrightarrow> snd a XOR snd b = snd w"
  by (simp_all add: mnxor_def)

lemma msand_fold: "w = msand a b \<Longrightarrow> SAND (fst a) (snd a) (fst b) (snd b) = w"
  by (simp add: msand_def)

lemmas gate_folds =
  mxor_fst [OF w_T1_def] mxor_snd [OF w_T1_def]
  mxor_fst [OF w_T2_def] mxor_snd [OF w_T2_def]
  mxor_fst [OF w_T3_def] mxor_snd [OF w_T3_def]
  mxor_fst [OF w_T4_def] mxor_snd [OF w_T4_def]
  mxor_fst [OF w_T5_def] mxor_snd [OF w_T5_def]
  mxor_fst [OF w_T6_def] mxor_snd [OF w_T6_def]
  mxor_fst [OF w_T7_def] mxor_snd [OF w_T7_def]
  mxor_fst [OF w_T8_def] mxor_snd [OF w_T8_def]
  mxor_fst [OF w_T9_def] mxor_snd [OF w_T9_def]
  mxor_fst [OF w_T10_def] mxor_snd [OF w_T10_def]
  mxor_fst [OF w_T11_def] mxor_snd [OF w_T11_def]
  mxor_fst [OF w_T12_def] mxor_snd [OF w_T12_def]
  mxor_fst [OF w_T13_def] mxor_snd [OF w_T13_def]
  mxor_fst [OF w_T14_def] mxor_snd [OF w_T14_def]
  mxor_fst [OF w_T15_def] mxor_snd [OF w_T15_def]
  mxor_fst [OF w_T16_def] mxor_snd [OF w_T16_def]
  mxor_fst [OF w_T17_def] mxor_snd [OF w_T17_def]
  mxor_fst [OF w_T18_def] mxor_snd [OF w_T18_def]
  mxor_fst [OF w_T19_def] mxor_snd [OF w_T19_def]
  mxor_fst [OF w_T20_def] mxor_snd [OF w_T20_def]
  mxor_fst [OF w_T21_def] mxor_snd [OF w_T21_def]
  mxor_fst [OF w_T22_def] mxor_snd [OF w_T22_def]
  mxor_fst [OF w_T23_def] mxor_snd [OF w_T23_def]
  mxor_fst [OF w_T24_def] mxor_snd [OF w_T24_def]
  mxor_fst [OF w_T25_def] mxor_snd [OF w_T25_def]
  mxor_fst [OF w_T26_def] mxor_snd [OF w_T26_def]
  mxor_fst [OF w_T27_def] mxor_snd [OF w_T27_def]
  msand_fold [OF w_M1_def]
  msand_fold [OF w_M2_def]
  mxor_fst [OF w_M3_def] mxor_snd [OF w_M3_def]
  msand_fold [OF w_M4_def]
  mxor_fst [OF w_M5_def] mxor_snd [OF w_M5_def]
  msand_fold [OF w_M6_def]
  msand_fold [OF w_M7_def]
  mxor_fst [OF w_M8_def] mxor_snd [OF w_M8_def]
  msand_fold [OF w_M9_def]
  mxor_fst [OF w_M10_def] mxor_snd [OF w_M10_def]
  msand_fold [OF w_M11_def]
  msand_fold [OF w_M12_def]
  mxor_fst [OF w_M13_def] mxor_snd [OF w_M13_def]
  msand_fold [OF w_M14_def]
  mxor_fst [OF w_M15_def] mxor_snd [OF w_M15_def]
  mxor_fst [OF w_M16_def] mxor_snd [OF w_M16_def]
  mxor_fst [OF w_M17_def] mxor_snd [OF w_M17_def]
  mxor_fst [OF w_M18_def] mxor_snd [OF w_M18_def]
  mxor_fst [OF w_M19_def] mxor_snd [OF w_M19_def]
  mxor_fst [OF w_M20_def] mxor_snd [OF w_M20_def]
  mxor_fst [OF w_M21_def] mxor_snd [OF w_M21_def]
  mxor_fst [OF w_M22_def] mxor_snd [OF w_M22_def]
  mxor_fst [OF w_M23_def] mxor_snd [OF w_M23_def]
  mxor_fst [OF w_M24_def] mxor_snd [OF w_M24_def]
  msand_fold [OF w_M25_def]
  mxor_fst [OF w_M26_def] mxor_snd [OF w_M26_def]
  mxor_fst [OF w_M27_def] mxor_snd [OF w_M27_def]
  mxor_fst [OF w_M28_def] mxor_snd [OF w_M28_def]
  msand_fold [OF w_M29_def]
  msand_fold [OF w_M30_def]
  msand_fold [OF w_M31_def]
  msand_fold [OF w_M32_def]
  mxor_fst [OF w_M33_def] mxor_snd [OF w_M33_def]
  msand_fold [OF w_M34_def]
  msand_fold [OF w_M35_def]
  mxor_fst [OF w_M36_def] mxor_snd [OF w_M36_def]
  mxor_fst [OF w_M37_def] mxor_snd [OF w_M37_def]
  mxor_fst [OF w_M38_def] mxor_snd [OF w_M38_def]
  mxor_fst [OF w_M39_def] mxor_snd [OF w_M39_def]
  mxor_fst [OF w_M40_def] mxor_snd [OF w_M40_def]
  mxor_fst [OF w_M41_def] mxor_snd [OF w_M41_def]
  mxor_fst [OF w_M42_def] mxor_snd [OF w_M42_def]
  mxor_fst [OF w_M43_def] mxor_snd [OF w_M43_def]
  mxor_fst [OF w_M44_def] mxor_snd [OF w_M44_def]
  mxor_fst [OF w_M45_def] mxor_snd [OF w_M45_def]
  msand_fold [OF w_M46_def]
  msand_fold [OF w_M47_def]
  msand_fold [OF w_M48_def]
  msand_fold [OF w_M49_def]
  msand_fold [OF w_M50_def]
  msand_fold [OF w_M51_def]
  msand_fold [OF w_M52_def]
  msand_fold [OF w_M53_def]
  msand_fold [OF w_M54_def]
  msand_fold [OF w_M55_def]
  msand_fold [OF w_M56_def]
  msand_fold [OF w_M57_def]
  msand_fold [OF w_M58_def]
  msand_fold [OF w_M59_def]
  msand_fold [OF w_M60_def]
  msand_fold [OF w_M61_def]
  msand_fold [OF w_M62_def]
  msand_fold [OF w_M63_def]
  mxor_fst [OF w_L0_def] mxor_snd [OF w_L0_def]
  mxor_fst [OF w_L1_def] mxor_snd [OF w_L1_def]
  mxor_fst [OF w_L2_def] mxor_snd [OF w_L2_def]
  mxor_fst [OF w_L3_def] mxor_snd [OF w_L3_def]
  mxor_fst [OF w_L4_def] mxor_snd [OF w_L4_def]
  mxor_fst [OF w_L5_def] mxor_snd [OF w_L5_def]
  mxor_fst [OF w_L6_def] mxor_snd [OF w_L6_def]
  mxor_fst [OF w_L7_def] mxor_snd [OF w_L7_def]
  mxor_fst [OF w_L8_def] mxor_snd [OF w_L8_def]
  mxor_fst [OF w_L9_def] mxor_snd [OF w_L9_def]
  mxor_fst [OF w_L10_def] mxor_snd [OF w_L10_def]
  mxor_fst [OF w_L11_def] mxor_snd [OF w_L11_def]
  mxor_fst [OF w_L12_def] mxor_snd [OF w_L12_def]
  mxor_fst [OF w_L13_def] mxor_snd [OF w_L13_def]
  mxor_fst [OF w_L14_def] mxor_snd [OF w_L14_def]
  mxor_fst [OF w_L15_def] mxor_snd [OF w_L15_def]
  mxor_fst [OF w_L16_def] mxor_snd [OF w_L16_def]
  mxor_fst [OF w_L17_def] mxor_snd [OF w_L17_def]
  mxor_fst [OF w_L18_def] mxor_snd [OF w_L18_def]
  mxor_fst [OF w_L19_def] mxor_snd [OF w_L19_def]
  mxor_fst [OF w_L20_def] mxor_snd [OF w_L20_def]
  mxor_fst [OF w_L21_def] mxor_snd [OF w_L21_def]
  mxor_fst [OF w_L22_def] mxor_snd [OF w_L22_def]
  mxor_fst [OF w_L23_def] mxor_snd [OF w_L23_def]
  mxor_fst [OF w_L24_def] mxor_snd [OF w_L24_def]
  mxor_fst [OF w_L25_def] mxor_snd [OF w_L25_def]
  mxor_fst [OF w_L26_def] mxor_snd [OF w_L26_def]
  mxor_fst [OF w_L27_def] mxor_snd [OF w_L27_def]
  mxor_fst [OF w_L28_def] mxor_snd [OF w_L28_def]
  mxor_fst [OF w_L29_def] mxor_snd [OF w_L29_def]
  mxor_fst [OF w_out_7_def] mxor_snd [OF w_out_7_def]
  mnxor_fst [OF w_out_6_def] mnxor_snd [OF w_out_6_def]
  mnxor_fst [OF w_out_5_def] mnxor_snd [OF w_out_5_def]
  mxor_fst [OF w_out_4_def] mxor_snd [OF w_out_4_def]
  mxor_fst [OF w_out_3_def] mxor_snd [OF w_out_3_def]
  mxor_fst [OF w_out_2_def] mxor_snd [OF w_out_2_def]
  mnxor_fst [OF w_out_1_def] mnxor_snd [OF w_out_1_def]
  mnxor_fst [OF w_out_0_def] mnxor_snd [OF w_out_0_def]

lemma Let_pair_split: "Let p (case_prod f) = (let x = fst p; y = snd p in f x y)"
  by (simp add: Let_def case_prod_beta)

lemma Let_fst: "Let (fst p) f = f (fst p)"
  by (simp add: Let_def)

lemma Let_snd: "Let (snd p) f = f (snd p)"
  by (simp add: Let_def)

lemma Let_or: "Let (a OR b) f = f (a OR b)"
  by (simp add: Let_def)

lemma getSBoxValuem_wires:
  "getSBoxValuem num numm =
    (pack8 (fst (w_out_0 num numm)) (fst (w_out_1 num numm)) (fst (w_out_2 num numm))
           (fst (w_out_3 num numm)) (fst (w_out_4 num numm)) (fst (w_out_5 num numm))
           (fst (w_out_6 num numm)) (fst (w_out_7 num numm)),
     pack8 (snd (w_out_0 num numm)) (snd (w_out_1 num numm)) (snd (w_out_2 num numm))
           (snd (w_out_3 num numm)) (snd (w_out_4 num numm)) (snd (w_out_5 num numm))
           (snd (w_out_6 num numm)) (snd (w_out_7 num numm)))"
  unfolding getSBoxValuem_def pack8_def
  by (simp only: lane_folds [where num = num and numm = numm] gate_folds Let_fst Let_snd Let_or Let_pair_split
      cong: let_weak_cong)

subsection \<open>The masked S-box depends on the unmasked byte only\<close>

lemma bit_times2: "bit (u * 2 :: byte) (Suc 0) = bit u 0"
  using bit_double_iff [of u "Suc 0"] by (simp add: mult.commute)

lemma bit_pack8:
  "bit (pack8 u0 u1 u2 u3 u4 u5 u6 u7) 0 = bit u0 0"
  "bit (pack8 u0 u1 u2 u3 u4 u5 u6 u7) (Suc 0) = bit u1 0"
  "bit (pack8 u0 u1 u2 u3 u4 u5 u6 u7) 2 = bit u2 0"
  "bit (pack8 u0 u1 u2 u3 u4 u5 u6 u7) 3 = bit u3 0"
  "bit (pack8 u0 u1 u2 u3 u4 u5 u6 u7) 4 = bit u4 0"
  "bit (pack8 u0 u1 u2 u3 u4 u5 u6 u7) 5 = bit u5 0"
  "bit (pack8 u0 u1 u2 u3 u4 u5 u6 u7) 6 = bit u6 0"
  "bit (pack8 u0 u1 u2 u3 u4 u5 u6 u7) 7 = bit u7 0"
  by (simp_all add: pack8_def bit_simps bit_times2)

lemma less_8_cases:
  "k < 8 \<Longrightarrow> k = 0 \<or> k = 1 \<or> k = 2 \<or> k = 3 \<or> k = 4 \<or> k = 5 \<or> k = 6 \<or> k = (7::nat)"
  by arith

lemma pack8_xor:
  "pack8 a0 a1 a2 a3 a4 a5 a6 a7 XOR pack8 b0 b1 b2 b3 b4 b5 b6 b7 =
   pack8 (a0 XOR b0) (a1 XOR b1) (a2 XOR b2) (a3 XOR b3)
         (a4 XOR b4) (a5 XOR b5) (a6 XOR b6) (a7 XOR b7)"
proof (rule bit_word_eqI)
  fix k assume "k < LENGTH(8)"
  then have "k < 8" by simp
  from less_8_cases [OF this]
  show "bit (pack8 a0 a1 a2 a3 a4 a5 a6 a7 XOR pack8 b0 b1 b2 b3 b4 b5 b6 b7) k =
        bit (pack8 (a0 XOR b0) (a1 XOR b1) (a2 XOR b2) (a3 XOR b3)
                   (a4 XOR b4) (a5 XOR b5) (a6 XOR b6) (a7 XOR b7)) k"
    by (elim disjE) (simp_all add: bit_xor_iff bit_pack8)
qed

lemma unm_getSBoxValuem: "unm (getSBoxValuem n m) = unm (getSBoxValuem (n XOR m) 0)"
proof -
  have "unm (getSBoxValuem n m) =
      pack8 (unm (w_out_0 n m)) (unm (w_out_1 n m)) (unm (w_out_2 n m)) (unm (w_out_3 n m))
            (unm (w_out_4 n m)) (unm (w_out_5 n m)) (unm (w_out_6 n m)) (unm (w_out_7 n m))"
    for n m
    by (simp add: getSBoxValuem_wires unm_def pack8_xor)
  then show ?thesis
    by (simp only: unm_w_out_0 [of n m] unm_w_out_1 [of n m] unm_w_out_2 [of n m]
        unm_w_out_3 [of n m] unm_w_out_4 [of n m] unm_w_out_5 [of n m] unm_w_out_6 [of n m]
        unm_w_out_7 [of n m])
qed

subsection \<open>With a zero mask the circuit is the S-box table, on all 256 bytes\<close>

definition sbox_agrees :: "byte \<Rightarrow> bool" where
  "sbox_agrees x = (unm (getSBoxValuem x 0) = getSBoxValue x)"

lemma Let_pair: "Let (a, b) (case_prod f) = (let x = a; y = b in f x y)"
  by (simp add: Let_def)

text \<open>
  The circuit is run on each byte. The bindings are evaluated one after the other:
  the weak congruence rules keep the simplifier out of the rest of the chain until
  the bound value is a numeral.
\<close>

lemma sbox_row_0: "list_all sbox_agrees
    [0x00, 0x01, 0x02, 0x03, 0x04, 0x05, 0x06, 0x07, 0x08, 0x09, 0x0a, 0x0b, 0x0c, 0x0d, 0x0e, 0x0f]"
  by (simp add: sbox_agrees_def getSBoxValuem_def SAND_eval Let_pair unm_def
      getSBoxValue_def sbox_def cong: let_weak_cong prod.case_cong_weak)

lemma sbox_row_1: "list_all sbox_agrees
    [0x10, 0x11, 0x12, 0x13, 0x14, 0x15, 0x16, 0x17, 0x18, 0x19, 0x1a, 0x1b, 0x1c, 0x1d, 0x1e, 0x1f]"
  by (simp add: sbox_agrees_def getSBoxValuem_def SAND_eval Let_pair unm_def
      getSBoxValue_def sbox_def cong: let_weak_cong prod.case_cong_weak)

lemma sbox_row_2: "list_all sbox_agrees
    [0x20, 0x21, 0x22, 0x23, 0x24, 0x25, 0x26, 0x27, 0x28, 0x29, 0x2a, 0x2b, 0x2c, 0x2d, 0x2e, 0x2f]"
  by (simp add: sbox_agrees_def getSBoxValuem_def SAND_eval Let_pair unm_def
      getSBoxValue_def sbox_def cong: let_weak_cong prod.case_cong_weak)

lemma sbox_row_3: "list_all sbox_agrees
    [0x30, 0x31, 0x32, 0x33, 0x34, 0x35, 0x36, 0x37, 0x38, 0x39, 0x3a, 0x3b, 0x3c, 0x3d, 0x3e, 0x3f]"
  by (simp add: sbox_agrees_def getSBoxValuem_def SAND_eval Let_pair unm_def
      getSBoxValue_def sbox_def cong: let_weak_cong prod.case_cong_weak)

lemma sbox_row_4: "list_all sbox_agrees
    [0x40, 0x41, 0x42, 0x43, 0x44, 0x45, 0x46, 0x47, 0x48, 0x49, 0x4a, 0x4b, 0x4c, 0x4d, 0x4e, 0x4f]"
  by (simp add: sbox_agrees_def getSBoxValuem_def SAND_eval Let_pair unm_def
      getSBoxValue_def sbox_def cong: let_weak_cong prod.case_cong_weak)

lemma sbox_row_5: "list_all sbox_agrees
    [0x50, 0x51, 0x52, 0x53, 0x54, 0x55, 0x56, 0x57, 0x58, 0x59, 0x5a, 0x5b, 0x5c, 0x5d, 0x5e, 0x5f]"
  by (simp add: sbox_agrees_def getSBoxValuem_def SAND_eval Let_pair unm_def
      getSBoxValue_def sbox_def cong: let_weak_cong prod.case_cong_weak)

lemma sbox_row_6: "list_all sbox_agrees
    [0x60, 0x61, 0x62, 0x63, 0x64, 0x65, 0x66, 0x67, 0x68, 0x69, 0x6a, 0x6b, 0x6c, 0x6d, 0x6e, 0x6f]"
  by (simp add: sbox_agrees_def getSBoxValuem_def SAND_eval Let_pair unm_def
      getSBoxValue_def sbox_def cong: let_weak_cong prod.case_cong_weak)

lemma sbox_row_7: "list_all sbox_agrees
    [0x70, 0x71, 0x72, 0x73, 0x74, 0x75, 0x76, 0x77, 0x78, 0x79, 0x7a, 0x7b, 0x7c, 0x7d, 0x7e, 0x7f]"
  by (simp add: sbox_agrees_def getSBoxValuem_def SAND_eval Let_pair unm_def
      getSBoxValue_def sbox_def cong: let_weak_cong prod.case_cong_weak)

lemma sbox_row_8: "list_all sbox_agrees
    [0x80, 0x81, 0x82, 0x83, 0x84, 0x85, 0x86, 0x87, 0x88, 0x89, 0x8a, 0x8b, 0x8c, 0x8d, 0x8e, 0x8f]"
  by (simp add: sbox_agrees_def getSBoxValuem_def SAND_eval Let_pair unm_def
      getSBoxValue_def sbox_def cong: let_weak_cong prod.case_cong_weak)

lemma sbox_row_9: "list_all sbox_agrees
    [0x90, 0x91, 0x92, 0x93, 0x94, 0x95, 0x96, 0x97, 0x98, 0x99, 0x9a, 0x9b, 0x9c, 0x9d, 0x9e, 0x9f]"
  by (simp add: sbox_agrees_def getSBoxValuem_def SAND_eval Let_pair unm_def
      getSBoxValue_def sbox_def cong: let_weak_cong prod.case_cong_weak)

lemma sbox_row_a: "list_all sbox_agrees
    [0xa0, 0xa1, 0xa2, 0xa3, 0xa4, 0xa5, 0xa6, 0xa7, 0xa8, 0xa9, 0xaa, 0xab, 0xac, 0xad, 0xae, 0xaf]"
  by (simp add: sbox_agrees_def getSBoxValuem_def SAND_eval Let_pair unm_def
      getSBoxValue_def sbox_def cong: let_weak_cong prod.case_cong_weak)

lemma sbox_row_b: "list_all sbox_agrees
    [0xb0, 0xb1, 0xb2, 0xb3, 0xb4, 0xb5, 0xb6, 0xb7, 0xb8, 0xb9, 0xba, 0xbb, 0xbc, 0xbd, 0xbe, 0xbf]"
  by (simp add: sbox_agrees_def getSBoxValuem_def SAND_eval Let_pair unm_def
      getSBoxValue_def sbox_def cong: let_weak_cong prod.case_cong_weak)

lemma sbox_row_c: "list_all sbox_agrees
    [0xc0, 0xc1, 0xc2, 0xc3, 0xc4, 0xc5, 0xc6, 0xc7, 0xc8, 0xc9, 0xca, 0xcb, 0xcc, 0xcd, 0xce, 0xcf]"
  by (simp add: sbox_agrees_def getSBoxValuem_def SAND_eval Let_pair unm_def
      getSBoxValue_def sbox_def cong: let_weak_cong prod.case_cong_weak)

lemma sbox_row_d: "list_all sbox_agrees
    [0xd0, 0xd1, 0xd2, 0xd3, 0xd4, 0xd5, 0xd6, 0xd7, 0xd8, 0xd9, 0xda, 0xdb, 0xdc, 0xdd, 0xde, 0xdf]"
  by (simp add: sbox_agrees_def getSBoxValuem_def SAND_eval Let_pair unm_def
      getSBoxValue_def sbox_def cong: let_weak_cong prod.case_cong_weak)

lemma sbox_row_e: "list_all sbox_agrees
    [0xe0, 0xe1, 0xe2, 0xe3, 0xe4, 0xe5, 0xe6, 0xe7, 0xe8, 0xe9, 0xea, 0xeb, 0xec, 0xed, 0xee, 0xef]"
  by (simp add: sbox_agrees_def getSBoxValuem_def SAND_eval Let_pair unm_def
      getSBoxValue_def sbox_def cong: let_weak_cong prod.case_cong_weak)

lemma sbox_row_f: "list_all sbox_agrees
    [0xf0, 0xf1, 0xf2, 0xf3, 0xf4, 0xf5, 0xf6, 0xf7, 0xf8, 0xf9, 0xfa, 0xfb, 0xfc, 0xfd, 0xfe, 0xff]"
  by (simp add: sbox_agrees_def getSBoxValuem_def SAND_eval Let_pair unm_def
      getSBoxValue_def sbox_def cong: let_weak_cong prod.case_cong_weak)

lemma all_bytes:
  "map of_nat [0..<256] =
    ([0x00, 0x01, 0x02, 0x03, 0x04, 0x05, 0x06, 0x07, 0x08, 0x09, 0x0a, 0x0b, 0x0c, 0x0d, 0x0e, 0x0f] @
     [0x10, 0x11, 0x12, 0x13, 0x14, 0x15, 0x16, 0x17, 0x18, 0x19, 0x1a, 0x1b, 0x1c, 0x1d, 0x1e, 0x1f] @
     [0x20, 0x21, 0x22, 0x23, 0x24, 0x25, 0x26, 0x27, 0x28, 0x29, 0x2a, 0x2b, 0x2c, 0x2d, 0x2e, 0x2f] @
     [0x30, 0x31, 0x32, 0x33, 0x34, 0x35, 0x36, 0x37, 0x38, 0x39, 0x3a, 0x3b, 0x3c, 0x3d, 0x3e, 0x3f] @
     [0x40, 0x41, 0x42, 0x43, 0x44, 0x45, 0x46, 0x47, 0x48, 0x49, 0x4a, 0x4b, 0x4c, 0x4d, 0x4e, 0x4f] @
     [0x50, 0x51, 0x52, 0x53, 0x54, 0x55, 0x56, 0x57, 0x58, 0x59, 0x5a, 0x5b, 0x5c, 0x5d, 0x5e, 0x5f] @
     [0x60, 0x61, 0x62, 0x63, 0x64, 0x65, 0x66, 0x67, 0x68, 0x69, 0x6a, 0x6b, 0x6c, 0x6d, 0x6e, 0x6f] @
     [0x70, 0x71, 0x72, 0x73, 0x74, 0x75, 0x76, 0x77, 0x78, 0x79, 0x7a, 0x7b, 0x7c, 0x7d, 0x7e, 0x7f] @
     [0x80, 0x81, 0x82, 0x83, 0x84, 0x85, 0x86, 0x87, 0x88, 0x89, 0x8a, 0x8b, 0x8c, 0x8d, 0x8e, 0x8f] @
     [0x90, 0x91, 0x92, 0x93, 0x94, 0x95, 0x96, 0x97, 0x98, 0x99, 0x9a, 0x9b, 0x9c, 0x9d, 0x9e, 0x9f] @
     [0xa0, 0xa1, 0xa2, 0xa3, 0xa4, 0xa5, 0xa6, 0xa7, 0xa8, 0xa9, 0xaa, 0xab, 0xac, 0xad, 0xae, 0xaf] @
     [0xb0, 0xb1, 0xb2, 0xb3, 0xb4, 0xb5, 0xb6, 0xb7, 0xb8, 0xb9, 0xba, 0xbb, 0xbc, 0xbd, 0xbe, 0xbf] @
     [0xc0, 0xc1, 0xc2, 0xc3, 0xc4, 0xc5, 0xc6, 0xc7, 0xc8, 0xc9, 0xca, 0xcb, 0xcc, 0xcd, 0xce, 0xcf] @
     [0xd0, 0xd1, 0xd2, 0xd3, 0xd4, 0xd5, 0xd6, 0xd7, 0xd8, 0xd9, 0xda, 0xdb, 0xdc, 0xdd, 0xde, 0xdf] @
     [0xe0, 0xe1, 0xe2, 0xe3, 0xe4, 0xe5, 0xe6, 0xe7, 0xe8, 0xe9, 0xea, 0xeb, 0xec, 0xed, 0xee, 0xef] @
     [0xf0, 0xf1, 0xf2, 0xf3, 0xf4, 0xf5, 0xf6, 0xf7, 0xf8, 0xf9, 0xfa, 0xfb, 0xfc, 0xfd, 0xfe, 0xff] :: byte list)"
  by code_simp

lemma sbox_agrees_all: "list_all sbox_agrees (map of_nat [0..<256])"
  unfolding all_bytes list_all_append
  by (intro conjI sbox_row_0 sbox_row_1 sbox_row_2 sbox_row_3 sbox_row_4 sbox_row_5 sbox_row_6 sbox_row_7 sbox_row_8 sbox_row_9 sbox_row_a sbox_row_b sbox_row_c sbox_row_d sbox_row_e sbox_row_f)

lemma byte_in: "(x::byte) \<in> set (map of_nat [0..<256])"
proof -
  have "unat x < 2 ^ 8" using unsigned_less [of x] by simp
  then have "unat x \<in> set [0..<256]" by simp
  moreover have "x = of_nat (unat x)" by simp
  ultimately have "x \<in> of_nat ` set [0..<256]" by (rule rev_image_eqI)
  then show ?thesis by simp
qed

lemma sbox_agrees: "sbox_agrees x"
  using sbox_agrees_all byte_in [of x] unfolding list_all_iff by blast

lemma getSBoxValuem_unmasked: "unm (getSBoxValuem num numm) = getSBoxValue (num XOR numm)"
  using unm_getSBoxValuem [of num numm] sbox_agrees [of "num XOR numm"]
  by (simp add: sbox_agrees_def)

text \<open>
  Claim C1. For every byte \<open>num\<close> and every mask byte \<open>numm\<close>, the byte \<open>t\<close> returned by
  \<open>getSBoxValuem\<close> and the mask byte \<open>tm\<close> written back satisfy
  \<open>t XOR tm = sbox[num XOR numm]\<close>.
\<close>

theorem getSBoxValuem_correct:
  "getSBoxValuem num numm = (t, tm) \<Longrightarrow> t XOR tm = sbox ! unat (num XOR numm)"
  using getSBoxValuem_unmasked [of num numm] by (simp add: unm_def getSBoxValue_def)

theorem getSBoxValuem_correct_witness:
  "getSBoxValuem 0x53 0x3c = (0x5e, 0xf6) \<and> (0x5e::byte) XOR 0xf6 = sbox ! unat ((0x53::byte) XOR 0x3c)"
proof -
  have h: "getSBoxValuem 0x53 0x3c = (0x5e, 0xf6)"
    by (simp add: getSBoxValuem_def SAND_eval Let_pair cong: let_weak_cong prod.case_cong_weak)
  show ?thesis using h getSBoxValuem_correct [OF h] by simp
qed

subsection \<open>The output mapping of the masked S-box\<close>

text \<open>
  The last stage of \<open>getSBoxValuem\<close> before the repacking: the sixteen assignments to
  \<^verbatim>\<open>U_7 .. U_0\<close> and their mask twins, as a function of the signals \<^verbatim>\<open>L0 .. L29\<close>
  (\<open>L i\<close>) and \<^verbatim>\<open>L0m .. L29m\<close> (\<open>Lm i\<close>) that they read. The result lists the value
  lanes and the mask lanes, lane 0 first.
\<close>

definition output_mapping :: "(nat \<Rightarrow> byte) \<Rightarrow> (nat \<Rightarrow> byte) \<Rightarrow> byte list \<times> byte list" where
  "output_mapping L Lm =
    (let
      U_7 = L 6 XOR L 24;
      U_7m = Lm 6 XOR Lm 24;
      U_6 = NOT (L 16 XOR L 26);
      U_6m = Lm 16 XOR Lm 26;
      U_5 = NOT (L 19 XOR L 28);
      U_5m = Lm 19 XOR Lm 28;
      U_4 = L 6 XOR L 21;
      U_4m = Lm 6 XOR Lm 21;
      U_3 = L 20 XOR L 22;
      U_3m = Lm 20 XOR Lm 22;
      U_2 = L 25 XOR L 29;
      U_2m = Lm 25 XOR Lm 29;
      U_1 = NOT (L 13 XOR L 27);
      U_1m = Lm 13 XOR Lm 27;
      U_0 = NOT (L 6 XOR L 23);
      U_0m = Lm 6 XOR Lm 23
     in ([U_0, U_1, U_2, U_3, U_4, U_5, U_6, U_7],
         [U_0m, U_1m, U_2m, U_3m, U_4m, U_5m, U_6m, U_7m]))"

text \<open>The two signals that lane \<open>k\<close> combines, and their XOR.\<close>

definition lane_xor :: "nat \<Rightarrow> (nat \<Rightarrow> byte) \<Rightarrow> byte" where
  "lane_xor k L =
    (if k = 0 then L 6 XOR L 23
     else if k = 1 then L 13 XOR L 27
     else if k = 2 then L 25 XOR L 29
     else if k = 3 then L 20 XOR L 22
     else if k = 4 then L 6 XOR L 21
     else if k = 5 then L 19 XOR L 28
     else if k = 6 then L 16 XOR L 26
     else if k = 7 then L 6 XOR L 24
     else 0)"

text \<open>
  A lane is complemented on the value side (or on the mask side) when, for all
  signals, its output is the complement of this XOR; it is plain when its output is
  the XOR itself.
\<close>

definition value_complemented :: "nat \<Rightarrow> bool" where
  "value_complemented k \<longleftrightarrow> (\<forall>L Lm. fst (output_mapping L Lm) ! k = NOT (lane_xor k L))"

definition value_plain :: "nat \<Rightarrow> bool" where
  "value_plain k \<longleftrightarrow> (\<forall>L Lm. fst (output_mapping L Lm) ! k = lane_xor k L)"

definition mask_complemented :: "nat \<Rightarrow> bool" where
  "mask_complemented k \<longleftrightarrow> (\<forall>L Lm. snd (output_mapping L Lm) ! k = NOT (lane_xor k Lm))"

definition mask_plain :: "nat \<Rightarrow> bool" where
  "mask_plain k \<longleftrightarrow> (\<forall>L Lm. snd (output_mapping L Lm) ! k = lane_xor k Lm)"

text \<open>The signals \<^verbatim>\<open>L0 .. L29\<close> of a call, by index.\<close>

definition L_wire :: "byte \<Rightarrow> byte \<Rightarrow> nat \<Rightarrow> byte \<times> byte" where
  "L_wire num numm i =
    (if i = 0 then w_L0 num numm
     else if i = 1 then w_L1 num numm
     else if i = 2 then w_L2 num numm
     else if i = 3 then w_L3 num numm
     else if i = 4 then w_L4 num numm
     else if i = 5 then w_L5 num numm
     else if i = 6 then w_L6 num numm
     else if i = 7 then w_L7 num numm
     else if i = 8 then w_L8 num numm
     else if i = 9 then w_L9 num numm
     else if i = 10 then w_L10 num numm
     else if i = 11 then w_L11 num numm
     else if i = 12 then w_L12 num numm
     else if i = 13 then w_L13 num numm
     else if i = 14 then w_L14 num numm
     else if i = 15 then w_L15 num numm
     else if i = 16 then w_L16 num numm
     else if i = 17 then w_L17 num numm
     else if i = 18 then w_L18 num numm
     else if i = 19 then w_L19 num numm
     else if i = 20 then w_L20 num numm
     else if i = 21 then w_L21 num numm
     else if i = 22 then w_L22 num numm
     else if i = 23 then w_L23 num numm
     else if i = 24 then w_L24 num numm
     else if i = 25 then w_L25 num numm
     else if i = 26 then w_L26 num numm
     else if i = 27 then w_L27 num numm
     else if i = 28 then w_L28 num numm
     else if i = 29 then w_L29 num numm
     else (0, 0))"

lemma not_neq_self: "NOT x \<noteq> (x::byte)"
proof
  assume "NOT x = x"
  then have "bit (NOT x) 0 = bit x 0" by simp
  then show False by (simp add: bit_not_iff)
qed

lemma not_eq_self [simp]: "(NOT x = x) = False" "(x = NOT x) = False" for x :: byte
  using not_neq_self [of x] by auto

lemmas stage5_simps = output_mapping_def lane_xor_def Let_def

text \<open>The output wires of a call are the output mapping of its \<open>L\<close> wires.\<close>

lemma output_wires:
  "output_mapping (\<lambda>i. fst (L_wire num numm i)) (\<lambda>i. snd (L_wire num numm i)) =
    ([fst (w_out_0 num numm), fst (w_out_1 num numm), fst (w_out_2 num numm), fst (w_out_3 num numm), fst (w_out_4 num numm), fst (w_out_5 num numm), fst (w_out_6 num numm), fst (w_out_7 num numm)],
     [snd (w_out_0 num numm), snd (w_out_1 num numm), snd (w_out_2 num numm), snd (w_out_3 num numm), snd (w_out_4 num numm), snd (w_out_5 num numm), snd (w_out_6 num numm), snd (w_out_7 num numm)])"
  by (simp add: output_mapping_def Let_def L_wire_def mxor_def mnxor_def
      w_out_0_def w_out_1_def w_out_2_def w_out_3_def w_out_4_def w_out_5_def w_out_6_def w_out_7_def)

lemma getSBoxValuem_output_mapping:
  "getSBoxValuem num numm =
    (let (U, Um) = output_mapping (\<lambda>i. fst (L_wire num numm i)) (\<lambda>i. snd (L_wire num numm i))
     in (pack8 (U ! 0) (U ! 1) (U ! 2) (U ! 3) (U ! 4) (U ! 5) (U ! 6) (U ! 7),
         pack8 (Um ! 0) (Um ! 1) (Um ! 2) (Um ! 3) (Um ! 4) (Um ! 5) (Um ! 6) (Um ! 7)))"
  by (simp add: output_wires getSBoxValuem_wires)

lemma value_lanes:
  "value_complemented 0"
  "value_complemented (Suc 0)"
  "value_complemented 5"
  "value_complemented 6"
  "value_plain 2"
  "value_plain 3"
  "value_plain 4"
  "value_plain 7"
  by (simp_all add: value_complemented_def value_plain_def stage5_simps)

lemma value_lanes_not:
  "\<not> value_plain 0"
  "\<not> value_plain (Suc 0)"
  "\<not> value_plain 5"
  "\<not> value_plain 6"
  "\<not> value_complemented 2"
  "\<not> value_complemented 3"
  "\<not> value_complemented 4"
  "\<not> value_complemented 7"
  by (simp_all add: value_complemented_def value_plain_def stage5_simps)

lemma mask_lanes:
  "mask_plain 0"
  "mask_plain (Suc 0)"
  "mask_plain 2"
  "mask_plain 3"
  "mask_plain 4"
  "mask_plain 5"
  "mask_plain 6"
  "mask_plain 7"
  "\<not> mask_complemented 0"
  "\<not> mask_complemented (Suc 0)"
  "\<not> mask_complemented 2"
  "\<not> mask_complemented 3"
  "\<not> mask_complemented 4"
  "\<not> mask_complemented 5"
  "\<not> mask_complemented 6"
  "\<not> mask_complemented 7"
  by (simp_all add: mask_complemented_def mask_plain_def stage5_simps)

lemma complemented_lanes: "{k. k < 8 \<and> value_complemented k} = {0, 1, 5, 6}"
  using value_lanes value_lanes_not by (auto dest!: less_8_cases)

lemma plain_lanes: "{k. k < 8 \<and> value_plain k} = {2, 3, 4, 7}"
  using value_lanes value_lanes_not by (auto dest!: less_8_cases)

lemma plain_mask_lanes: "{k. k < 8 \<and> mask_plain k} = {0, 1, 2, 3, 4, 5, 6, 7}"
  using mask_lanes by (auto dest!: less_8_cases)

lemma complemented_mask_lanes: "{k. k < 8 \<and> mask_complemented k} = {}"
  using mask_lanes by (auto dest!: less_8_cases)

text \<open>
  Claim C7, as stated: exactly five of the eight output lanes receive a complement
  on the value lane. The source complements four.
\<close>

theorem five_complemented_lanes_counterexample:
  "card {k. k < 8 \<and> value_complemented k} \<noteq> 5"
  by (simp add: complemented_lanes)

text \<open>
  Claim C7, amended. In the output mapping exactly four of the eight lanes, \<^verbatim>\<open>U_0\<close>,
  \<^verbatim>\<open>U_1\<close>, \<^verbatim>\<open>U_5\<close> and \<^verbatim>\<open>U_6\<close>, are the complement of the XOR of their two \<open>L\<close> signals on
  the value side; the four others are that XOR itself. On the mask side every lane is
  the plain XOR of the matching mask signals, and none is complemented.
\<close>

theorem four_complemented_lanes:
  "{k. k < 8 \<and> value_complemented k} = {0, 1, 5, 6} \<and>
   {k. k < 8 \<and> value_plain k} = {2, 3, 4, 7} \<and>
   {k. k < 8 \<and> mask_plain k} = {0, 1, 2, 3, 4, 5, 6, 7} \<and>
   {k. k < 8 \<and> mask_complemented k} = {}"
  by (simp only: complemented_lanes plain_lanes plain_mask_lanes complemented_mask_lanes simp_thms)

subsection \<open>The transforms on a state of sixteen bytes\<close>

lemma upt_0_4: "[0..<4] = [0, 1, 2, 3]"
  by code_simp

lemma list_update_Cons_numeral: "(x # xs)[numeral v := y] = x # xs[numeral v - 1 := y]"
  by (simp add: numeral_eq_Suc)

lemma length_16_D:
  "length s = 16 \<Longrightarrow> \<exists>a0 a1 a2 a3 a4 a5 a6 a7 a8 a9 a10 a11 a12 a13 a14 a15.
     s = [a0, a1, a2, a3, a4, a5, a6, a7, a8, a9, a10, a11, a12, a13, a14, a15]"
  by (simp add: numeral_eq_Suc length_Suc_conv) blast

lemmas st_simps = st_get_def st_set_def upt_0_4 list_update_Cons_numeral Let_def

text \<open>Each transform, computed on sixteen bytes.\<close>

lemma xor_mask_16:
  "xor_mask [b0, b1, b2, b3, b4, b5, b6, b7, b8, b9, b10, b11, b12, b13, b14, b15]
     [a0, a1, a2, a3, a4, a5, a6, a7, a8, a9, a10, a11, a12, a13, a14, a15] =
   [a0 XOR b0, a1 XOR b1, a2 XOR b2, a3 XOR b3, a4 XOR b4, a5 XOR b5, a6 XOR b6, a7 XOR b7, a8 XOR b8, a9 XOR b9, a10 XOR b10, a11 XOR b11, a12 XOR b12, a13 XOR b13, a14 XOR b14, a15 XOR b15]"
  by (simp add: xor_mask_def st_simps)

lemma AddRoundKey_16:
  "AddRoundKey rk r [a0, a1, a2, a3, a4, a5, a6, a7, a8, a9, a10, a11, a12, a13, a14, a15] =
   [a0 XOR rk ! (r * 16 + 0), a1 XOR rk ! (r * 16 + 1), a2 XOR rk ! (r * 16 + 2), a3 XOR rk ! (r * 16 + 3), a4 XOR rk ! (r * 16 + 4), a5 XOR rk ! (r * 16 + 5), a6 XOR rk ! (r * 16 + 6), a7 XOR rk ! (r * 16 + 7), a8 XOR rk ! (r * 16 + 8), a9 XOR rk ! (r * 16 + 9), a10 XOR rk ! (r * 16 + 10), a11 XOR rk ! (r * 16 + 11), a12 XOR rk ! (r * 16 + 12), a13 XOR rk ! (r * 16 + 13), a14 XOR rk ! (r * 16 + 14), a15 XOR rk ! (r * 16 + 15)]"
  by (simp add: AddRoundKey_def st_simps Nb_def add.commute mult.commute)

lemma SubBytes_16:
  "SubBytes [a0, a1, a2, a3, a4, a5, a6, a7, a8, a9, a10, a11, a12, a13, a14, a15] =
   [getSBoxValue a0, getSBoxValue a1, getSBoxValue a2, getSBoxValue a3, getSBoxValue a4, getSBoxValue a5, getSBoxValue a6, getSBoxValue a7, getSBoxValue a8, getSBoxValue a9, getSBoxValue a10, getSBoxValue a11, getSBoxValue a12, getSBoxValue a13, getSBoxValue a14, getSBoxValue a15]"
  by (simp add: SubBytes_def st_simps)

lemma InvSubBytes_16:
  "InvSubBytes [a0, a1, a2, a3, a4, a5, a6, a7, a8, a9, a10, a11, a12, a13, a14, a15] =
   [getSBoxInvert a0, getSBoxInvert a1, getSBoxInvert a2, getSBoxInvert a3, getSBoxInvert a4, getSBoxInvert a5, getSBoxInvert a6, getSBoxInvert a7, getSBoxInvert a8, getSBoxInvert a9, getSBoxInvert a10, getSBoxInvert a11, getSBoxInvert a12, getSBoxInvert a13, getSBoxInvert a14, getSBoxInvert a15]"
  by (simp add: InvSubBytes_def st_simps)

lemma SubBytesm_16:
  "SubBytesm ([a0, a1, a2, a3, a4, a5, a6, a7, a8, a9, a10, a11, a12, a13, a14, a15],
     [b0, b1, b2, b3, b4, b5, b6, b7, b8, b9, b10, b11, b12, b13, b14, b15]) =
   ([fst (getSBoxValuem a0 b0), fst (getSBoxValuem a1 b1), fst (getSBoxValuem a2 b2), fst (getSBoxValuem a3 b3), fst (getSBoxValuem a4 b4), fst (getSBoxValuem a5 b5), fst (getSBoxValuem a6 b6), fst (getSBoxValuem a7 b7), fst (getSBoxValuem a8 b8), fst (getSBoxValuem a9 b9), fst (getSBoxValuem a10 b10), fst (getSBoxValuem a11 b11), fst (getSBoxValuem a12 b12), fst (getSBoxValuem a13 b13), fst (getSBoxValuem a14 b14), fst (getSBoxValuem a15 b15)],
    [snd (getSBoxValuem a0 b0), snd (getSBoxValuem a1 b1), snd (getSBoxValuem a2 b2), snd (getSBoxValuem a3 b3), snd (getSBoxValuem a4 b4), snd (getSBoxValuem a5 b5), snd (getSBoxValuem a6 b6), snd (getSBoxValuem a7 b7), snd (getSBoxValuem a8 b8), snd (getSBoxValuem a9 b9), snd (getSBoxValuem a10 b10), snd (getSBoxValuem a11 b11), snd (getSBoxValuem a12 b12), snd (getSBoxValuem a13 b13), snd (getSBoxValuem a14 b14), snd (getSBoxValuem a15 b15)])"
  by (simp add: SubBytesm_def st_simps case_prod_beta)

lemma ShiftRows_16:
  "ShiftRows [a0, a1, a2, a3, a4, a5, a6, a7, a8, a9, a10, a11, a12, a13, a14, a15] =
   [a0, a5, a10, a15, a4, a9, a14, a3, a8, a13, a2, a7, a12, a1, a6, a11]"
  by (simp add: ShiftRows_def st_simps)

lemma InvShiftRows_16:
  "InvShiftRows [a0, a1, a2, a3, a4, a5, a6, a7, a8, a9, a10, a11, a12, a13, a14, a15] =
   [a0, a13, a10, a7, a4, a1, a14, a11, a8, a5, a2, a15, a12, a9, a6, a3]"
  by (simp add: InvShiftRows_def st_simps)

definition mix0 :: "byte \<Rightarrow> byte \<Rightarrow> byte \<Rightarrow> byte \<Rightarrow> byte" where
  "mix0 a b c d = a XOR (xtime (a XOR b) XOR (a XOR b XOR c XOR d))"

lemma MixColumns_16:
  "MixColumns [a0, a1, a2, a3, a4, a5, a6, a7, a8, a9, a10, a11, a12, a13, a14, a15] =
   [mix0 a0 a1 a2 a3, mix0 a1 a2 a3 a0, mix0 a2 a3 a0 a1, mix0 a3 a0 a1 a2,
    mix0 a4 a5 a6 a7, mix0 a5 a6 a7 a4, mix0 a6 a7 a4 a5, mix0 a7 a4 a5 a6,
    mix0 a8 a9 a10 a11, mix0 a9 a10 a11 a8, mix0 a10 a11 a8 a9, mix0 a11 a8 a9 a10,
    mix0 a12 a13 a14 a15, mix0 a13 a14 a15 a12, mix0 a14 a15 a12 a13, mix0 a15 a12 a13 a14]"
  by (simp add: MixColumns_def MixColumns_row_def st_simps mix0_def xor.assoc xor.commute
      xor.left_commute)

definition imix0 :: "byte \<Rightarrow> byte \<Rightarrow> byte \<Rightarrow> byte \<Rightarrow> byte" where
  "imix0 a b c d = Multiply a 0x0e XOR Multiply b 0x0b XOR Multiply c 0x0d XOR Multiply d 0x09"

lemma InvMixColumns_16:
  "InvMixColumns [a0, a1, a2, a3, a4, a5, a6, a7, a8, a9, a10, a11, a12, a13, a14, a15] =
   [imix0 a0 a1 a2 a3, imix0 a1 a2 a3 a0, imix0 a2 a3 a0 a1, imix0 a3 a0 a1 a2,
    imix0 a4 a5 a6 a7, imix0 a5 a6 a7 a4, imix0 a6 a7 a4 a5, imix0 a7 a4 a5 a6,
    imix0 a8 a9 a10 a11, imix0 a9 a10 a11 a8, imix0 a10 a11 a8 a9, imix0 a11 a8 a9 a10,
    imix0 a12 a13 a14 a15, imix0 a13 a14 a15 a12, imix0 a14 a15 a12 a13, imix0 a15 a12 a13 a14]"
  by (simp add: InvMixColumns_def InvMixColumns_row_def st_simps imix0_def xor.assoc xor.commute
      xor.left_commute)

lemmas transforms_16 = xor_mask_16 AddRoundKey_16 SubBytes_16 InvSubBytes_16 SubBytesm_16
  ShiftRows_16 InvShiftRows_16 MixColumns_16 InvMixColumns_16

text \<open>The transforms keep the sixteen bytes.\<close>

lemma length_AddRoundKey: "length s = 16 \<Longrightarrow> length (AddRoundKey rk r s) = 16"
  by (auto dest!: length_16_D simp: transforms_16)

lemma length_SubBytes: "length s = 16 \<Longrightarrow> length (SubBytes s) = 16"
  by (auto dest!: length_16_D simp: transforms_16)

lemma length_InvSubBytes: "length s = 16 \<Longrightarrow> length (InvSubBytes s) = 16"
  by (auto dest!: length_16_D simp: transforms_16)

lemma length_ShiftRows: "length s = 16 \<Longrightarrow> length (ShiftRows s) = 16"
  by (auto dest!: length_16_D simp: transforms_16)

lemma length_InvShiftRows: "length s = 16 \<Longrightarrow> length (InvShiftRows s) = 16"
  by (auto dest!: length_16_D simp: transforms_16)

lemma length_MixColumns: "length s = 16 \<Longrightarrow> length (MixColumns s) = 16"
  by (auto dest!: length_16_D simp: transforms_16)

lemma length_InvMixColumns: "length s = 16 \<Longrightarrow> length (InvMixColumns s) = 16"
  by (auto dest!: length_16_D simp: transforms_16)

lemma length_xor_mask: "length s = 16 \<Longrightarrow> length m = 16 \<Longrightarrow> length (xor_mask m s) = 16"
  by (auto dest!: length_16_D simp: transforms_16)

lemma length_SubBytesm:
  "length s = 16 \<Longrightarrow> length m = 16 \<Longrightarrow>
   length (fst (SubBytesm (s, m))) = 16 \<and> length (snd (SubBytesm (s, m))) = 16"
  by (auto dest!: length_16_D simp: transforms_16)

lemmas length_16 = length_AddRoundKey length_SubBytes length_InvSubBytes length_ShiftRows
  length_InvShiftRows length_MixColumns length_InvMixColumns length_xor_mask

subsection \<open>The masked cipher computes the cipher without masks\<close>

lemma top_bit_byte: "drop_bit 7 (x::byte) AND 1 = (if bit x 7 then 1 else 0)"
  by (simp add: and_one_eq mod_2_eq_odd bit_iff_odd_drop_bit)

lemma xtime_carry_xor:
  "(drop_bit 7 (a XOR b) AND 1) * (0x1b::byte) =
   (drop_bit 7 a AND 1) * 0x1b XOR (drop_bit 7 b AND 1) * 0x1b"
  unfolding top_bit_byte bit_xor_iff by (cases "bit a 7"; cases "bit b 7"; simp)

lemma xtime_xor: "xtime (a XOR b) = xtime a XOR xtime b"
  unfolding xtime_def push_bit_xor xtime_carry_xor
  by (simp only: xor.assoc xor.left_commute)

lemma mix0_xor:
  "mix0 (a XOR a') (b XOR b') (c XOR c') (d XOR d') = mix0 a b c d XOR mix0 a' b' c' d'"
  by (simp add: mix0_def xtime_xor xor.assoc xor.commute xor.left_commute)

lemma getSBoxValuem_fst_snd:
  "fst (getSBoxValuem a b) XOR snd (getSBoxValuem a b) = getSBoxValue (a XOR b)"
  using getSBoxValuem_unmasked [of a b] by (simp add: unm_def)

text \<open>
  The state without its mask is \<open>xor_mask statem state\<close>. Every step of a round acts
  on it as the step without masks does.
\<close>

lemma xor_mask_twice:
  "length s = 16 \<Longrightarrow> length m = 16 \<Longrightarrow> xor_mask m (xor_mask m s) = s"
  by (auto dest!: length_16_D simp: transforms_16 xor.assoc)

lemma unmask_AddRoundKey:
  "length s = 16 \<Longrightarrow> length m = 16 \<Longrightarrow>
   xor_mask m (AddRoundKey rk r s) = AddRoundKey rk r (xor_mask m s)"
  by (auto dest!: length_16_D simp: transforms_16 xor.assoc xor.commute xor.left_commute)

lemma unmask_ShiftRows:
  "length s = 16 \<Longrightarrow> length m = 16 \<Longrightarrow>
   xor_mask (ShiftRows m) (ShiftRows s) = ShiftRows (xor_mask m s)"
  by (auto dest!: length_16_D simp: transforms_16)

lemma unmask_MixColumns:
  "length s = 16 \<Longrightarrow> length m = 16 \<Longrightarrow>
   xor_mask (MixColumns m) (MixColumns s) = MixColumns (xor_mask m s)"
  by (auto dest!: length_16_D simp: transforms_16 mix0_xor)

lemma unmask_SubBytesm:
  "length s = 16 \<Longrightarrow> length m = 16 \<Longrightarrow>
   xor_mask (snd (SubBytesm (s, m))) (fst (SubBytesm (s, m))) = SubBytes (xor_mask m s)"
  by (auto dest!: length_16_D simp: transforms_16 getSBoxValuem_fst_snd)

text \<open>
  The cipher without masks: the rounds of \<^verbatim>\<open>Cipher\<close> on one state, with the table
  S-box \<open>SubBytes\<close> of the source in the place of \<open>SubBytesm\<close>.
\<close>

definition Cipher_round_plain :: "byte list \<Rightarrow> nat \<Rightarrow> byte list \<Rightarrow> byte list" where
  "Cipher_round_plain rk round state =
     AddRoundKey rk round (MixColumns (ShiftRows (SubBytes state)))"

definition Cipher_plain :: "byte list \<Rightarrow> byte list \<Rightarrow> byte list" where
  "Cipher_plain rk state =
     AddRoundKey rk Nr (ShiftRows (SubBytes
       (fold (Cipher_round_plain rk) [1..<Nr] (AddRoundKey rk 0 state))))"

lemma Cipher_round_eq:
  "Cipher_round rk r (s, m) =
    (AddRoundKey rk r (MixColumns (ShiftRows (fst (SubBytesm (s, m))))),
     MixColumns (ShiftRows (snd (SubBytesm (s, m)))))"
  by (simp add: Cipher_round_def Let_def case_prod_beta)

lemma Cipher_round_unmask:
  assumes "length s = 16" "length m = 16"
  shows "length (fst (Cipher_round rk r (s, m))) = 16"
    and "length (snd (Cipher_round rk r (s, m))) = 16"
    and "xor_mask (snd (Cipher_round rk r (s, m))) (fst (Cipher_round rk r (s, m))) =
         Cipher_round_plain rk r (xor_mask m s)"
proof -
  from length_SubBytesm [OF assms]
  have l1: "length (fst (SubBytesm (s, m))) = 16" and l2: "length (snd (SubBytesm (s, m))) = 16"
    by simp_all
  show "length (fst (Cipher_round rk r (s, m))) = 16"
    by (simp add: Cipher_round_eq length_16 l1)
  show "length (snd (Cipher_round rk r (s, m))) = 16"
    by (simp add: Cipher_round_eq length_16 l2)
  show "xor_mask (snd (Cipher_round rk r (s, m))) (fst (Cipher_round rk r (s, m))) =
         Cipher_round_plain rk r (xor_mask m s)"
    by (simp add: Cipher_round_eq Cipher_round_plain_def unmask_AddRoundKey unmask_MixColumns
        unmask_ShiftRows unmask_SubBytesm length_16 l1 l2 assms)
qed

lemma rounds_unmask:
  "length (fst sm) = 16 \<Longrightarrow> length (snd sm) = 16 \<Longrightarrow>
   length (fst (fold (Cipher_round rk) rs sm)) = 16 \<and>
   length (snd (fold (Cipher_round rk) rs sm)) = 16 \<and>
   xor_mask (snd (fold (Cipher_round rk) rs sm)) (fst (fold (Cipher_round rk) rs sm)) =
     fold (Cipher_round_plain rk) rs (xor_mask (snd sm) (fst sm))"
proof (induction rs arbitrary: sm)
  case Nil
  then show ?case by simp
next
  case (Cons r rs)
  obtain s m where sm: "sm = (s, m)" by (cases sm)
  with Cons.prems have len: "length s = 16" "length m = 16" by simp_all
  note step = Cipher_round_unmask [OF len, of rk r]
  from Cons.IH [OF step(1) step(2)] step(3) show ?case by (simp add: sm)
qed

lemma Cipher_seeded_eq:
  "Cipher_seeded seed rk state =
    (let sm = fold (Cipher_round rk) [1..<Nr] (AddRoundKey rk 0 (xor_mask seed state), seed);
         sm' = SubBytesm sm
     in xor_mask (ShiftRows (snd sm')) (AddRoundKey rk Nr (ShiftRows (fst sm'))))"
  by (simp add: Cipher_seeded_def Let_def case_prod_beta)

lemma Cipher_seeded_plain:
  assumes "length seed = 16" "length state = 16"
  shows "Cipher_seeded seed rk state = Cipher_plain rk state"
proof -
  define s0 where "s0 = AddRoundKey rk 0 (xor_mask seed state)"
  define sm where "sm = fold (Cipher_round rk) [1..<Nr] (s0, seed)"
  have l0: "length s0 = 16" by (simp add: s0_def length_16 assms)
  have u0: "xor_mask seed s0 = AddRoundKey rk 0 state"
    by (simp add: s0_def unmask_AddRoundKey [symmetric] xor_mask_twice length_16 assms)
  from rounds_unmask [of "(s0, seed)" rk "[1..<Nr]"] l0 assms u0
  have l: "length (fst sm) = 16" "length (snd sm) = 16"
    and u: "xor_mask (snd sm) (fst sm) = fold (Cipher_round_plain rk) [1..<Nr] (AddRoundKey rk 0 state)"
    by (simp_all add: sm_def)
  obtain s m where p: "sm = (s, m)" by (cases sm)
  with l have ls: "length s = 16" "length m = 16" by simp_all
  from length_SubBytesm [OF ls]
  have l1: "length (fst (SubBytesm (s, m))) = 16" and l2: "length (snd (SubBytesm (s, m))) = 16"
    by simp_all
  have "Cipher_seeded seed rk state =
      xor_mask (ShiftRows (snd (SubBytesm (s, m)))) (AddRoundKey rk Nr (ShiftRows (fst (SubBytesm (s, m)))))"
    using p [unfolded sm_def s0_def] by (simp add: Cipher_seeded_eq Let_def)
  also have "\<dots> = AddRoundKey rk Nr (ShiftRows (SubBytes (xor_mask m s)))"
    by (simp add: unmask_AddRoundKey unmask_ShiftRows unmask_SubBytesm length_16 l1 l2 ls)
  also have "\<dots> = Cipher_plain rk state"
    using u by (simp add: Cipher_plain_def p)
  finally show ?thesis .
qed

subsection \<open>The inverse transforms undo the forward transforms\<close>

definition rsbox_inverts :: "byte \<Rightarrow> bool" where
  "rsbox_inverts x = (getSBoxInvert (getSBoxValue x) = x)"

lemma rsbox_row_0: "list_all rsbox_inverts
    [0x00, 0x01, 0x02, 0x03, 0x04, 0x05, 0x06, 0x07, 0x08, 0x09, 0x0a, 0x0b, 0x0c, 0x0d, 0x0e, 0x0f]"
  by (simp add: rsbox_inverts_def getSBoxInvert_def getSBoxValue_def sbox_def rsbox_def)

lemma rsbox_row_1: "list_all rsbox_inverts
    [0x10, 0x11, 0x12, 0x13, 0x14, 0x15, 0x16, 0x17, 0x18, 0x19, 0x1a, 0x1b, 0x1c, 0x1d, 0x1e, 0x1f]"
  by (simp add: rsbox_inverts_def getSBoxInvert_def getSBoxValue_def sbox_def rsbox_def)

lemma rsbox_row_2: "list_all rsbox_inverts
    [0x20, 0x21, 0x22, 0x23, 0x24, 0x25, 0x26, 0x27, 0x28, 0x29, 0x2a, 0x2b, 0x2c, 0x2d, 0x2e, 0x2f]"
  by (simp add: rsbox_inverts_def getSBoxInvert_def getSBoxValue_def sbox_def rsbox_def)

lemma rsbox_row_3: "list_all rsbox_inverts
    [0x30, 0x31, 0x32, 0x33, 0x34, 0x35, 0x36, 0x37, 0x38, 0x39, 0x3a, 0x3b, 0x3c, 0x3d, 0x3e, 0x3f]"
  by (simp add: rsbox_inverts_def getSBoxInvert_def getSBoxValue_def sbox_def rsbox_def)

lemma rsbox_row_4: "list_all rsbox_inverts
    [0x40, 0x41, 0x42, 0x43, 0x44, 0x45, 0x46, 0x47, 0x48, 0x49, 0x4a, 0x4b, 0x4c, 0x4d, 0x4e, 0x4f]"
  by (simp add: rsbox_inverts_def getSBoxInvert_def getSBoxValue_def sbox_def rsbox_def)

lemma rsbox_row_5: "list_all rsbox_inverts
    [0x50, 0x51, 0x52, 0x53, 0x54, 0x55, 0x56, 0x57, 0x58, 0x59, 0x5a, 0x5b, 0x5c, 0x5d, 0x5e, 0x5f]"
  by (simp add: rsbox_inverts_def getSBoxInvert_def getSBoxValue_def sbox_def rsbox_def)

lemma rsbox_row_6: "list_all rsbox_inverts
    [0x60, 0x61, 0x62, 0x63, 0x64, 0x65, 0x66, 0x67, 0x68, 0x69, 0x6a, 0x6b, 0x6c, 0x6d, 0x6e, 0x6f]"
  by (simp add: rsbox_inverts_def getSBoxInvert_def getSBoxValue_def sbox_def rsbox_def)

lemma rsbox_row_7: "list_all rsbox_inverts
    [0x70, 0x71, 0x72, 0x73, 0x74, 0x75, 0x76, 0x77, 0x78, 0x79, 0x7a, 0x7b, 0x7c, 0x7d, 0x7e, 0x7f]"
  by (simp add: rsbox_inverts_def getSBoxInvert_def getSBoxValue_def sbox_def rsbox_def)

lemma rsbox_row_8: "list_all rsbox_inverts
    [0x80, 0x81, 0x82, 0x83, 0x84, 0x85, 0x86, 0x87, 0x88, 0x89, 0x8a, 0x8b, 0x8c, 0x8d, 0x8e, 0x8f]"
  by (simp add: rsbox_inverts_def getSBoxInvert_def getSBoxValue_def sbox_def rsbox_def)

lemma rsbox_row_9: "list_all rsbox_inverts
    [0x90, 0x91, 0x92, 0x93, 0x94, 0x95, 0x96, 0x97, 0x98, 0x99, 0x9a, 0x9b, 0x9c, 0x9d, 0x9e, 0x9f]"
  by (simp add: rsbox_inverts_def getSBoxInvert_def getSBoxValue_def sbox_def rsbox_def)

lemma rsbox_row_a: "list_all rsbox_inverts
    [0xa0, 0xa1, 0xa2, 0xa3, 0xa4, 0xa5, 0xa6, 0xa7, 0xa8, 0xa9, 0xaa, 0xab, 0xac, 0xad, 0xae, 0xaf]"
  by (simp add: rsbox_inverts_def getSBoxInvert_def getSBoxValue_def sbox_def rsbox_def)

lemma rsbox_row_b: "list_all rsbox_inverts
    [0xb0, 0xb1, 0xb2, 0xb3, 0xb4, 0xb5, 0xb6, 0xb7, 0xb8, 0xb9, 0xba, 0xbb, 0xbc, 0xbd, 0xbe, 0xbf]"
  by (simp add: rsbox_inverts_def getSBoxInvert_def getSBoxValue_def sbox_def rsbox_def)

lemma rsbox_row_c: "list_all rsbox_inverts
    [0xc0, 0xc1, 0xc2, 0xc3, 0xc4, 0xc5, 0xc6, 0xc7, 0xc8, 0xc9, 0xca, 0xcb, 0xcc, 0xcd, 0xce, 0xcf]"
  by (simp add: rsbox_inverts_def getSBoxInvert_def getSBoxValue_def sbox_def rsbox_def)

lemma rsbox_row_d: "list_all rsbox_inverts
    [0xd0, 0xd1, 0xd2, 0xd3, 0xd4, 0xd5, 0xd6, 0xd7, 0xd8, 0xd9, 0xda, 0xdb, 0xdc, 0xdd, 0xde, 0xdf]"
  by (simp add: rsbox_inverts_def getSBoxInvert_def getSBoxValue_def sbox_def rsbox_def)

lemma rsbox_row_e: "list_all rsbox_inverts
    [0xe0, 0xe1, 0xe2, 0xe3, 0xe4, 0xe5, 0xe6, 0xe7, 0xe8, 0xe9, 0xea, 0xeb, 0xec, 0xed, 0xee, 0xef]"
  by (simp add: rsbox_inverts_def getSBoxInvert_def getSBoxValue_def sbox_def rsbox_def)

lemma rsbox_row_f: "list_all rsbox_inverts
    [0xf0, 0xf1, 0xf2, 0xf3, 0xf4, 0xf5, 0xf6, 0xf7, 0xf8, 0xf9, 0xfa, 0xfb, 0xfc, 0xfd, 0xfe, 0xff]"
  by (simp add: rsbox_inverts_def getSBoxInvert_def getSBoxValue_def sbox_def rsbox_def)


lemma rsbox_inverts_all: "list_all rsbox_inverts (map of_nat [0..<256])"
  unfolding all_bytes list_all_append
  by (intro conjI rsbox_row_0 rsbox_row_1 rsbox_row_2 rsbox_row_3 rsbox_row_4 rsbox_row_5 rsbox_row_6 rsbox_row_7 rsbox_row_8 rsbox_row_9 rsbox_row_a rsbox_row_b rsbox_row_c rsbox_row_d rsbox_row_e rsbox_row_f)

lemma getSBoxInvert_getSBoxValue: "getSBoxInvert (getSBoxValue x) = x"
  using rsbox_inverts_all byte_in [of x] unfolding list_all_iff rsbox_inverts_def by blast

lemma InvSubBytes_SubBytes: "length s = 16 \<Longrightarrow> InvSubBytes (SubBytes s) = s"
  by (auto dest!: length_16_D simp: transforms_16 getSBoxInvert_getSBoxValue)

lemma InvShiftRows_ShiftRows: "length s = 16 \<Longrightarrow> InvShiftRows (ShiftRows s) = s"
  by (auto dest!: length_16_D simp: transforms_16)

lemma AddRoundKey_twice: "length s = 16 \<Longrightarrow> AddRoundKey rk r (AddRoundKey rk r s) = s"
  by (auto dest!: length_16_D simp: transforms_16 xor.assoc)

lemma Multiply_consts:
  "Multiply x 0x0e = xtime x XOR xtime (xtime x) XOR xtime (xtime (xtime x))"
  "Multiply x 0x0b = x XOR xtime x XOR xtime (xtime (xtime x))"
  "Multiply x 0x0d = x XOR xtime (xtime x) XOR xtime (xtime (xtime x))"
  "Multiply x 0x09 = x XOR xtime (xtime (xtime x))"
  by (simp_all add: Multiply_def)

lemma xor_cancel: "x XOR (x XOR y) = (y::byte)"
  by (simp add: xor.assoc [symmetric])

lemma imix0_mix0:
  "imix0 (mix0 a b c d) (mix0 b c d a) (mix0 c d a b) (mix0 d a b c) = a"
  by (simp add: imix0_def mix0_def Multiply_consts xtime_xor xor.assoc xor.commute
      xor.left_commute xor_cancel)

lemma InvMixColumns_MixColumns: "length s = 16 \<Longrightarrow> InvMixColumns (MixColumns s) = s"
  by (auto dest!: length_16_D simp: transforms_16 imix0_mix0)

lemma length_Cipher_round_plain:
  "length s = 16 \<Longrightarrow> length (Cipher_round_plain rk r s) = 16"
  by (simp add: Cipher_round_plain_def length_16)

lemma length_plain_rounds:
  "length s = 16 \<Longrightarrow> length (fold (Cipher_round_plain rk) rs s) = 16"
  by (induction rs arbitrary: s) (simp_all add: length_Cipher_round_plain)

lemma InvCipher_round_undoes:
  assumes "length s = 16"
  shows "InvCipher_round rk r (ShiftRows (SubBytes (Cipher_round_plain rk r s))) =
         ShiftRows (SubBytes s)"
  by (simp add: InvCipher_round_def Cipher_round_plain_def Let_def InvShiftRows_ShiftRows
      InvSubBytes_SubBytes AddRoundKey_twice InvMixColumns_MixColumns length_16 assms)

lemma InvCipher_rounds_undo:
  "length s = 16 \<Longrightarrow>
   fold (InvCipher_round rk) (rev rs) (ShiftRows (SubBytes (fold (Cipher_round_plain rk) rs s))) =
   ShiftRows (SubBytes s)"
proof (induction rs arbitrary: s)
  case Nil
  then show ?case by simp
next
  case (Cons r rs)
  have l: "length (Cipher_round_plain rk r s) = 16"
    using Cons.prems by (rule length_Cipher_round_plain)
  show ?case
    using Cons.IH [OF l] by (simp add: InvCipher_round_undoes Cons.prems)
qed

lemma InvCipher_Cipher_plain:
  assumes "length s = 16"
  shows "InvCipher rk (Cipher_plain rk s) = s"
proof -
  have l0: "length (AddRoundKey rk 0 s) = 16" by (simp add: length_16 assms)
  have l1: "length (fold (Cipher_round_plain rk) [1..<Nr] (AddRoundKey rk 0 s)) = 16"
    using l0 by (rule length_plain_rounds)
  show ?thesis
    using InvCipher_rounds_undo [OF l0, of rk "[1..<Nr]"] l0 l1
    by (simp add: InvCipher_def Cipher_plain_def Let_def AddRoundKey_twice
        InvShiftRows_ShiftRows InvSubBytes_SubBytes length_16 assms)
qed

lemma InvCipher_Cipher: "length s = 16 \<Longrightarrow> InvCipher rk (Cipher rk s) = s"
  by (simp add: Cipher_def Cipher_seeded_plain InvCipher_Cipher_plain rng_def)

subsection \<open>Blocks in memory\<close>

text \<open>
  A loop that stores one byte per step at \<open>p + i\<close>: when the byte stored at step \<open>i\<close>
  does not depend on the bytes stored before, the loop stores \<open>h i\<close> at \<open>p + i\<close> and
  leaves every other address as it was.
\<close>

lemma fold_store:
  assumes "\<And>i m'. i < n \<Longrightarrow> (\<forall>a. a < p \<or> p + i \<le> a \<longrightarrow> m' a = m a) \<Longrightarrow> g i m' = h i"
  shows "fold (\<lambda>i m. m(p + i := g i m)) [0..<n] m =
         (\<lambda>a. if p \<le> a \<and> a < p + n then h (a - p) else m a)"
  using assms
proof (induction n)
  case 0
  then show ?case by (auto simp add: fun_eq_iff)
next
  case (Suc n)
  let ?F = "\<lambda>i m. m(p + i := g i m)"
  let ?m' = "\<lambda>a. if p \<le> a \<and> a < p + n then h (a - p) else m a"
  have IH: "fold ?F [0..<n] m = ?m'"
    by (rule Suc.IH) (simp add: Suc.prems)
  have gn: "g n ?m' = h n"
    by (rule Suc.prems) auto
  have "fold ?F [0..<Suc n] m = (fold ?F [0..<n] m)(p + n := g n (fold ?F [0..<n] m))"
    by simp
  also have "\<dots> = ?m'(p + n := h n)"
    by (simp only: IH gn)
  also have "\<dots> = (\<lambda>a. if p \<le> a \<and> a < p + Suc n then h (a - p) else m a)"
    by (auto simp add: fun_eq_iff)
  finally show ?case .
qed

definition xor_block :: "byte list \<Rightarrow> byte list \<Rightarrow> byte list" where
  "xor_block a b = map2 (XOR) a b"

lemma upt_0_16: "[0..<16] = [0, 1, 2, 3, 4, 5, 6, 7, 8, 9, 10, 11, 12, 13, 14, 15]"
  by code_simp

lemma length_read_block [simp]: "length (read_block m p) = 16"
  by (simp add: read_block_def)

lemma nth_read_block [simp]: "i < 16 \<Longrightarrow> read_block m p ! i = m (p + i)"
  by (simp add: read_block_def)

lemma write_block_apply:
  "write_block p bs m a = (if p \<le> a \<and> a < p + 16 then bs ! (a - p) else m a)"
  unfolding write_block_def by (subst fold_store [where h = "\<lambda>i. bs ! i"]) simp_all

lemma read_write_same: "length bs = 16 \<Longrightarrow> read_block (write_block p bs m) p = bs"
  by (rule nth_equalityI) (simp_all add: write_block_apply)

lemma read_write_other:
  "p + 16 \<le> q \<or> q + 16 \<le> p \<Longrightarrow> read_block (write_block p bs m) q = read_block m q"
  by (rule nth_equalityI) (auto simp add: write_block_apply)

lemma read_block_cong:
  "(\<And>a. q \<le> a \<Longrightarrow> a < q + 16 \<Longrightarrow> m' a = m a) \<Longrightarrow> read_block m' q = read_block m q"
  by (rule nth_equalityI) simp_all

lemma BlockCopy_eq:
  assumes "output + 16 \<le> input \<or> input + 16 \<le> output"
  shows "BlockCopy output input m = write_block output (read_block m input) m"
proof -
  have "BlockCopy output input m =
      (\<lambda>a. if output \<le> a \<and> a < output + 16 then m (input + (a - output)) else m a)"
    unfolding BlockCopy_def KEYLEN_def
    using assms by (intro fold_store) auto
  then show ?thesis
    by (auto simp add: fun_eq_iff write_block_apply)
qed

lemma XorWithIv_eq:
  assumes "buf + 16 \<le> Iv s \<or> Iv s + 16 \<le> buf"
  shows "XorWithIv buf s =
    s\<lparr>mem := write_block buf (xor_block (read_block (mem s) buf) (read_block (mem s) (Iv s))) (mem s)\<rparr>"
proof -
  have "fold (\<lambda>i m. m(buf + i := m (buf + i) XOR m (Iv s + i))) [0..<16] (mem s) =
      (\<lambda>a. if buf \<le> a \<and> a < buf + 16 then mem s (buf + (a - buf)) XOR mem s (Iv s + (a - buf))
           else mem s a)"
    using assms by (intro fold_store) auto
  also have "\<dots> =
      write_block buf (xor_block (read_block (mem s) buf) (read_block (mem s) (Iv s))) (mem s)"
    by (auto simp add: fun_eq_iff write_block_apply xor_block_def)
  finally show ?thesis
    by (simp add: XorWithIv_def KEYLEN_def)
qed

lemma memset0_apply:
  "memset0 p n m a = (if p \<le> a \<and> a < p + n then 0 else m a)"
  unfolding memset0_def by (subst fold_store [where h = "\<lambda>i. 0"]) simp_all

subsection \<open>The key schedule overwrites the whole array\<close>

text \<open>
  \<open>KeyExpansion\<close> updates \<^verbatim>\<open>RoundKey\<close> in place. Word \<open>i\<close> is computed from words that
  were written before, so the result does not depend on the old contents.
\<close>

definition next_temp :: "nat \<Rightarrow> byte list \<Rightarrow> byte list" where
  "next_temp i tempa =
     (if i mod Nk = 0 then
        (let tempa = RotWord tempa;
             tempa = SubWord tempa
         in tempa[0 := tempa ! 0 XOR Rcon ! (i div Nk)])
      else if Nk > 6 \<and> i mod Nk = 4 then SubWord tempa
      else tempa)"

lemma KeyExpansion_word_alt:
  assumes "0 < i"
  shows "KeyExpansion_word i rk =
    (let t = next_temp i (map (\<lambda>j. rk ! ((i - 1) * 4 + j)) [0..<4])
     in rk[i * 4 + 0 := rk ! ((i - Nk) * 4 + 0) XOR t ! 0,
           i * 4 + 1 := rk ! ((i - Nk) * 4 + 1) XOR t ! 1,
           i * 4 + 2 := rk ! ((i - Nk) * 4 + 2) XOR t ! 2,
           i * 4 + 3 := rk ! ((i - Nk) * 4 + 3) XOR t ! 3])"
proof -
  have lt: "(i - Nk) * 4 + j < i * 4" if "j < 4" for j
    using that assms by (auto simp add: Nk_def)
  show ?thesis
    using lt [of 1] lt [of 2] lt [of 3]
    by (simp add: KeyExpansion_word_def next_temp_def Let_def)
qed

definition agree :: "nat \<Rightarrow> byte list \<Rightarrow> byte list \<Rightarrow> bool" where
  "agree n a b \<longleftrightarrow> length a = length b \<and> (\<forall>k<n. a ! k = b ! k)"

lemma length_KeyExpansion_copy [simp]: "length (KeyExpansion_copy key i rk) = length rk"
  by (simp add: KeyExpansion_copy_def Let_def)

lemma length_KeyExpansion_word [simp]: "length (KeyExpansion_word i rk) = length rk"
  by (simp add: KeyExpansion_word_def Let_def)

lemma length_fold_keep:
  "(\<And>i x. length (f i x) = length x) \<Longrightarrow> length (fold f xs x) = length x"
  by (induction xs arbitrary: x) simp_all

lemma length_KeyExpansion [simp]: "length (KeyExpansion key rk) = length rk"
  by (simp add: KeyExpansion_def length_fold_keep)

lemma agree_update4:
  assumes "agree (4 * i) a b" "4 * i + 4 \<le> length a"
  shows "agree (4 * Suc i)
           (a[i * 4 + 0 := x0, i * 4 + 1 := x1, i * 4 + 2 := x2, i * 4 + 3 := x3])
           (b[i * 4 + 0 := x0, i * 4 + 1 := x1, i * 4 + 2 := x2, i * 4 + 3 := x3])"
  using assms by (auto simp add: agree_def nth_list_update mult.commute)

lemma agree_copy:
  assumes "agree (4 * i) a b" "4 * i + 4 \<le> length a"
  shows "agree (4 * Suc i) (KeyExpansion_copy key i a) (KeyExpansion_copy key i b)"
  unfolding KeyExpansion_copy_def Let_def using assms by (rule agree_update4)

lemma agree_word:
  assumes "agree (4 * i) a b" "4 * i + 4 \<le> length a" "0 < i"
  shows "agree (4 * Suc i) (KeyExpansion_word i a) (KeyExpansion_word i b)"
proof -
  from assms have eq: "\<And>k. k < 4 * i \<Longrightarrow> a ! k = b ! k"
    by (simp add: agree_def)
  have t: "map (\<lambda>j. a ! ((i - 1) * 4 + j)) [0..<4] = map (\<lambda>j. b ! ((i - 1) * 4 + j)) [0..<4]"
    using assms(3) by (intro map_cong refl eq) auto
  have prev:
    "a ! ((i - Nk) * 4 + 0) = b ! ((i - Nk) * 4 + 0)"
    "a ! ((i - Nk) * 4 + 1) = b ! ((i - Nk) * 4 + 1)"
    "a ! ((i - Nk) * 4 + 2) = b ! ((i - Nk) * 4 + 2)"
    "a ! ((i - Nk) * 4 + 3) = b ! ((i - Nk) * 4 + 3)"
    using assms(3) by (auto intro!: eq simp add: Nk_def)
  show ?thesis
    unfolding KeyExpansion_word_alt [OF assms(3)] Let_def t prev
    using assms(1,2) by (rule agree_update4)
qed

lemma agree_fold:
  assumes step: "\<And>i a b. m \<le> i \<Longrightarrow> agree (4 * i) a b \<Longrightarrow> 4 * i + 4 \<le> length a \<Longrightarrow>
      agree (4 * Suc i) (f i a) (f i b)"
    and len: "\<And>i x. length (f i x) = length x"
  shows "m \<le> n \<Longrightarrow> agree (4 * m) a b \<Longrightarrow> 4 * n \<le> length a \<Longrightarrow>
      agree (4 * n) (fold f [m..<n] a) (fold f [m..<n] b)"
proof (induction n)
  case 0
  then show ?case by simp
next
  case (Suc n)
  show ?case
  proof (cases "m = Suc n")
    case True
    with Suc.prems show ?thesis by simp
  next
    case False
    with Suc.prems have mn: "m \<le> n" by simp
    have IH: "agree (4 * n) (fold f [m..<n] a) (fold f [m..<n] b)"
      using Suc.prems by (intro Suc.IH mn) simp_all
    have "agree (4 * Suc n) (f n (fold f [m..<n] a)) (f n (fold f [m..<n] b))"
      using Suc.prems by (intro step mn IH) (simp add: length_fold_keep len)
    then show ?thesis using mn by simp
  qed
qed

lemma KeyExpansion_old_contents:
  assumes "length rk = 176" "length rk' = 176"
  shows "KeyExpansion key rk = KeyExpansion key rk'"
proof -
  have a0: "agree (4 * 0) rk rk'" by (simp add: agree_def assms)
  have a1: "agree (4 * Nk) (fold (KeyExpansion_copy key) [0..<Nk] rk)
                           (fold (KeyExpansion_copy key) [0..<Nk] rk')"
    by (rule agree_fold [OF agree_copy _ _ a0]) (simp_all add: Nk_def assms)
  have "agree (4 * (Nb * (Nr + 1))) (KeyExpansion key rk) (KeyExpansion key rk')"
    unfolding KeyExpansion_def
    by (rule agree_fold [OF agree_word _ _ a1])
       (simp_all add: Nk_def Nb_def Nr_def assms length_fold_keep)
  then show ?thesis
    by (auto simp add: agree_def Nb_def Nr_def assms intro!: nth_equalityI)
qed

subsection \<open>The test vector of the file header\<close>

definition fips_key :: "byte list" where
  "fips_key =
    [0x2b, 0x7e, 0x15, 0x16, 0x28, 0xae, 0xd2, 0xa6, 0xab, 0xf7, 0x15, 0x88, 0x09, 0xcf, 0x4f, 0x3c]"

definition fips_plain :: "byte list" where
  "fips_plain =
    [0x6b, 0xc1, 0xbe, 0xe2, 0x2e, 0x40, 0x9f, 0x96, 0xe9, 0x3d, 0x7e, 0x11, 0x73, 0x93, 0x17, 0x2a]"

definition fips_cipher :: "byte list" where
  "fips_cipher =
    [0x3a, 0xd7, 0x7b, 0xb4, 0x0d, 0x7a, 0x36, 0x60, 0xa8, 0x9e, 0xca, 0xf3, 0x24, 0x66, 0xef, 0x97]"

text \<open>The expanded key, as the source computes it for \<open>fips_key\<close>.\<close>

definition fips_round_keys :: "byte list" where
  "fips_round_keys =
    [0x2b, 0x7e, 0x15, 0x16, 0x28, 0xae, 0xd2, 0xa6, 0xab, 0xf7, 0x15, 0x88, 0x09, 0xcf, 0x4f, 0x3c,
     0xa0, 0xfa, 0xfe, 0x17, 0x88, 0x54, 0x2c, 0xb1, 0x23, 0xa3, 0x39, 0x39, 0x2a, 0x6c, 0x76, 0x05,
     0xf2, 0xc2, 0x95, 0xf2, 0x7a, 0x96, 0xb9, 0x43, 0x59, 0x35, 0x80, 0x7a, 0x73, 0x59, 0xf6, 0x7f,
     0x3d, 0x80, 0x47, 0x7d, 0x47, 0x16, 0xfe, 0x3e, 0x1e, 0x23, 0x7e, 0x44, 0x6d, 0x7a, 0x88, 0x3b,
     0xef, 0x44, 0xa5, 0x41, 0xa8, 0x52, 0x5b, 0x7f, 0xb6, 0x71, 0x25, 0x3b, 0xdb, 0x0b, 0xad, 0x00,
     0xd4, 0xd1, 0xc6, 0xf8, 0x7c, 0x83, 0x9d, 0x87, 0xca, 0xf2, 0xb8, 0xbc, 0x11, 0xf9, 0x15, 0xbc,
     0x6d, 0x88, 0xa3, 0x7a, 0x11, 0x0b, 0x3e, 0xfd, 0xdb, 0xf9, 0x86, 0x41, 0xca, 0x00, 0x93, 0xfd,
     0x4e, 0x54, 0xf7, 0x0e, 0x5f, 0x5f, 0xc9, 0xf3, 0x84, 0xa6, 0x4f, 0xb2, 0x4e, 0xa6, 0xdc, 0x4f,
     0xea, 0xd2, 0x73, 0x21, 0xb5, 0x8d, 0xba, 0xd2, 0x31, 0x2b, 0xf5, 0x60, 0x7f, 0x8d, 0x29, 0x2f,
     0xac, 0x77, 0x66, 0xf3, 0x19, 0xfa, 0xdc, 0x21, 0x28, 0xd1, 0x29, 0x41, 0x57, 0x5c, 0x00, 0x6e,
     0xd0, 0x14, 0xf9, 0xa8, 0xc9, 0xee, 0x25, 0x89, 0xe1, 0x3f, 0x0c, 0xc8, 0xb6, 0x63, 0x0c, 0xa6]"

text \<open>
  The key schedule is checked word by word: a step that finds its result already in
  the array leaves the array as it is, so the array is the result of the schedule.
\<close>

definition word_check :: "byte list \<Rightarrow> nat \<Rightarrow> bool" where
  "word_check F i =
    (let t = next_temp i (map (\<lambda>j. F ! ((i - 1) * 4 + j)) [0..<4])
     in F ! ((i - Nk) * 4 + 0) XOR t ! 0 = F ! (i * 4 + 0) \<and>
        F ! ((i - Nk) * 4 + 1) XOR t ! 1 = F ! (i * 4 + 1) \<and>
        F ! ((i - Nk) * 4 + 2) XOR t ! 2 = F ! (i * 4 + 2) \<and>
        F ! ((i - Nk) * 4 + 3) XOR t ! 3 = F ! (i * 4 + 3))"

lemma word_check_fixed:
  assumes "0 < i" "word_check F i"
  shows "KeyExpansion_word i F = F"
  using assms(2) unfolding word_check_def KeyExpansion_word_alt [OF assms(1)] Let_def
  by (simp only: list_update_id)

lemma copy_fixed:
  assumes "take 16 F = take 16 key" "i < 4"
  shows "KeyExpansion_copy key i F = F"
proof -
  have "F ! k = key ! k" if "k < 16" for k
    using that nth_take [of k 16 F] nth_take [of k 16 key] assms(1) by simp
  then have "key ! (i * 4 + 0) = F ! (i * 4 + 0)" "key ! (i * 4 + 1) = F ! (i * 4 + 1)"
    "key ! (i * 4 + 2) = F ! (i * 4 + 2)" "key ! (i * 4 + 3) = F ! (i * 4 + 3)"
    using assms(2) by simp_all
  then show ?thesis
    unfolding KeyExpansion_copy_def Let_def by (simp only: list_update_id)
qed

lemma fold_fixed: "(\<And>x. x \<in> set xs \<Longrightarrow> f x s = s) \<Longrightarrow> fold f xs s = s"
  by (induction xs) simp_all

lemma upt_4_44:
  "[4..<44] = [4, 5, 6, 7, 8, 9, 10, 11, 12, 13, 14, 15, 16, 17, 18, 19, 20, 21, 22, 23,
     24, 25, 26, 27, 28, 29, 30, 31, 32, 33, 34, 35, 36, 37, 38, 39, 40, 41, 42, 43]"
  by code_simp

lemmas word_check_simps = word_check_def next_temp_def RotWord_def SubWord_def Nk_def
  getSBoxValue_def sbox_def Rcon_def fips_round_keys_def upt_0_4 Let_def


lemma fips_words_a: "list_all (word_check fips_round_keys) [4, 5, 6, 7, 8, 9, 10, 11, 12, 13]"
  by (simp add: word_check_simps)

lemma fips_words_b:
  "list_all (word_check fips_round_keys) [14, 15, 16, 17, 18, 19, 20, 21, 22, 23]"
  by (simp add: word_check_simps)

lemma fips_words_c:
  "list_all (word_check fips_round_keys) [24, 25, 26, 27, 28, 29, 30, 31, 32, 33]"
  by (simp add: word_check_simps)

lemma fips_words_d:
  "list_all (word_check fips_round_keys) [34, 35, 36, 37, 38, 39, 40, 41, 42, 43]"
  by (simp add: word_check_simps)

lemma fips_words: "i \<in> set [4..<44] \<Longrightarrow> word_check fips_round_keys i"
  using fips_words_a fips_words_b fips_words_c fips_words_d
  unfolding upt_4_44 list_all_iff by auto

lemma KeyExpansion_fips:
  assumes "length rk = 176"
  shows "KeyExpansion fips_key rk = fips_round_keys"
proof -
  have len: "length fips_round_keys = 176"
    by (simp add: fips_round_keys_def)
  have tk: "take 16 fips_round_keys = take 16 fips_key"
    by (simp add: fips_round_keys_def fips_key_def)
  have c: "fold (KeyExpansion_copy fips_key) [0..<Nk] fips_round_keys = fips_round_keys"
    by (rule fold_fixed) (simp add: copy_fixed [OF tk] Nk_def)
  have w: "fold KeyExpansion_word [Nk..<Nb * (Nr + 1)] fips_round_keys = fips_round_keys"
  proof (rule fold_fixed)
    fix x assume "x \<in> set [Nk..<Nb * (Nr + 1)]"
    then have b: "4 \<le> x \<and> x < 44"
      by (simp add: Nk_def Nb_def Nr_def del: upt_rec_numeral)
    then have x: "x \<in> set [4..<44]" by (simp del: upt_rec_numeral)
    from b have "0 < x" by simp
    then show "KeyExpansion_word x fips_round_keys = fips_round_keys"
      using fips_words [OF x] by (rule word_check_fixed)
  qed
  have "KeyExpansion fips_key fips_round_keys = fips_round_keys"
    unfolding KeyExpansion_def c w ..
  with KeyExpansion_old_contents [OF assms len, of fips_key] show ?thesis by simp
qed

lemma upt_1_Nr: "[1..<Nr] = [1, 2, 3, 4, 5, 6, 7, 8, 9]"
  unfolding Nr_def by code_simp

lemma Cipher_plain_fips: "Cipher_plain fips_round_keys fips_plain = fips_cipher"
  unfolding Cipher_plain_def upt_1_Nr
  by (simp add: Cipher_round_plain_def transforms_16 Nr_def mix0_def
      xtime_def getSBoxValue_def sbox_def fips_round_keys_def fips_plain_def fips_cipher_def)

lemma length_fips_plain: "length fips_plain = 16"
  by (simp add: fips_plain_def)

lemma Cipher_fips:
  "length rk = 176 \<Longrightarrow> Cipher (KeyExpansion fips_key rk) fips_plain = fips_cipher"
  by (simp add: KeyExpansion_fips Cipher_def Cipher_seeded_plain Cipher_plain_fips rng_def
      length_fips_plain)

subsection \<open>The ciphers keep the sixteen bytes\<close>

lemma length_Cipher: "length s = 16 \<Longrightarrow> length (Cipher rk s) = 16"
  by (simp add: Cipher_def Cipher_seeded_plain rng_def Cipher_plain_def length_16
      length_plain_rounds)

lemma length_InvCipher_round: "length s = 16 \<Longrightarrow> length (InvCipher_round rk r s) = 16"
  by (simp add: InvCipher_round_def Let_def length_16)

lemma length_inv_rounds:
  "length s = 16 \<Longrightarrow> length (fold (InvCipher_round rk) rs s) = 16"
  by (induction rs arbitrary: s) (simp_all add: length_InvCipher_round)

lemma length_InvCipher: "length s = 16 \<Longrightarrow> length (InvCipher rk s) = 16"
  by (simp add: InvCipher_def Let_def length_16 length_inv_rounds)

subsection \<open>The ECB functions\<close>

lemma fold_store_frame:
  "a < p \<or> p + n \<le> a \<Longrightarrow> fold (\<lambda>i m. m(p + i := g i m)) [0..<n] m a = m a"
  by (induction n) auto

lemma BlockCopy_frame:
  "a < output \<or> output + 16 \<le> a \<Longrightarrow> BlockCopy output input m a = m a"
  unfolding BlockCopy_def KEYLEN_def by (rule fold_store_frame)

lemma write_block_frame:
  "a < p \<or> p + 16 \<le> a \<Longrightarrow> write_block p bs m a = m a"
  by (auto simp add: write_block_apply)

text \<open>What the two functions leave in memory and in \<^verbatim>\<open>RoundKey\<close>, for any pointers.\<close>

lemma ECB_encrypt_state:
  "mem (AES128_ECB_encrypt input key output s) =
     write_block output
       (Cipher (KeyExpansion (read_block (BlockCopy output input (mem s)) key) (RoundKey s))
          (read_block (BlockCopy output input (mem s)) output))
       (BlockCopy output input (mem s))"
  "RoundKey (AES128_ECB_encrypt input key output s) =
     KeyExpansion (read_block (BlockCopy output input (mem s)) key) (RoundKey s)"
  by (simp_all add: AES128_ECB_encrypt_def KeyExpansion_st_def Cipher_at_def Let_def)

lemma ECB_decrypt_state:
  "mem (AES128_ECB_decrypt input key output s) =
     write_block output
       (InvCipher (KeyExpansion (read_block (BlockCopy output input (mem s)) key) (RoundKey s))
          (read_block (BlockCopy output input (mem s)) output))
       (BlockCopy output input (mem s))"
  "RoundKey (AES128_ECB_decrypt input key output s) =
     KeyExpansion (read_block (BlockCopy output input (mem s)) key) (RoundKey s)"
  by (simp_all add: AES128_ECB_decrypt_def KeyExpansion_st_def InvCipher_at_def Let_def)

lemma ECB_encrypt_frame:
  "a < output \<or> output + 16 \<le> a \<Longrightarrow> mem (AES128_ECB_encrypt input key output s) a = mem s a"
  by (simp add: ECB_encrypt_state write_block_frame BlockCopy_frame)

lemma ECB_decrypt_frame:
  "a < output \<or> output + 16 \<le> a \<Longrightarrow> mem (AES128_ECB_decrypt input key output s) a = mem s a"
  by (simp add: ECB_decrypt_state write_block_frame BlockCopy_frame)

lemma read_block_outside:
  assumes "\<And>a. a < p \<or> p + 16 \<le> a \<Longrightarrow> m' a = m a" "p + 16 \<le> q \<or> q + 16 \<le> p"
  shows "read_block m' q = read_block m q"
  using assms(2) by (intro read_block_cong assms(1)) auto

text \<open>With an output block apart from the input block and the key.\<close>

lemma ECB_encrypt_block:
  assumes "output + 16 \<le> input \<or> input + 16 \<le> output"
    and "output + 16 \<le> key \<or> key + 16 \<le> output"
  shows "read_block (mem (AES128_ECB_encrypt input key output s)) output =
         Cipher (KeyExpansion (read_block (mem s) key) (RoundKey s)) (read_block (mem s) input)"
    and "RoundKey (AES128_ECB_encrypt input key output s) =
         KeyExpansion (read_block (mem s) key) (RoundKey s)"
proof -
  have k: "read_block (BlockCopy output input (mem s)) key = read_block (mem s) key"
    using assms(2) by (simp add: BlockCopy_eq [OF assms(1)] read_write_other)
  have i: "read_block (BlockCopy output input (mem s)) output = read_block (mem s) input"
    by (simp add: BlockCopy_eq [OF assms(1)] read_write_same)
  show "RoundKey (AES128_ECB_encrypt input key output s) =
         KeyExpansion (read_block (mem s) key) (RoundKey s)"
    by (simp add: ECB_encrypt_state k)
  show "read_block (mem (AES128_ECB_encrypt input key output s)) output =
         Cipher (KeyExpansion (read_block (mem s) key) (RoundKey s)) (read_block (mem s) input)"
    by (simp add: ECB_encrypt_state k i read_write_same length_Cipher)
qed

lemma ECB_decrypt_block:
  assumes "output + 16 \<le> input \<or> input + 16 \<le> output"
    and "output + 16 \<le> key \<or> key + 16 \<le> output"
  shows "read_block (mem (AES128_ECB_decrypt input key output s)) output =
         InvCipher (KeyExpansion (read_block (mem s) key) (RoundKey s)) (read_block (mem s) input)"
    and "RoundKey (AES128_ECB_decrypt input key output s) =
         KeyExpansion (read_block (mem s) key) (RoundKey s)"
proof -
  have k: "read_block (BlockCopy output input (mem s)) key = read_block (mem s) key"
    using assms(2) by (simp add: BlockCopy_eq [OF assms(1)] read_write_other)
  have i: "read_block (BlockCopy output input (mem s)) output = read_block (mem s) input"
    by (simp add: BlockCopy_eq [OF assms(1)] read_write_same)
  show "RoundKey (AES128_ECB_decrypt input key output s) =
         KeyExpansion (read_block (mem s) key) (RoundKey s)"
    by (simp add: ECB_decrypt_state k)
  show "read_block (mem (AES128_ECB_decrypt input key output s)) output =
         InvCipher (KeyExpansion (read_block (mem s) key) (RoundKey s)) (read_block (mem s) input)"
    by (simp add: ECB_decrypt_state k i read_write_same length_InvCipher)
qed

lemma ECB_roundtrip:
  assumes rk: "length (RoundKey s) = 176"
    and cp: "c + 16 \<le> p \<or> p + 16 \<le> c"
    and ck: "c + 16 \<le> key \<or> key + 16 \<le> c"
    and qc: "q + 16 \<le> c \<or> c + 16 \<le> q"
    and qk: "q + 16 \<le> key \<or> key + 16 \<le> q"
  shows "read_block (mem (AES128_ECB_decrypt c key q (AES128_ECB_encrypt p key c s))) q =
         read_block (mem s) p"
proof -
  let ?s1 = "AES128_ECB_encrypt p key c s"
  let ?K = "read_block (mem s) key"
  let ?rk = "KeyExpansion ?K (RoundKey s)"
  have c1: "read_block (mem ?s1) c = Cipher ?rk (read_block (mem s) p)"
    and r1: "RoundKey ?s1 = ?rk"
    by (rule ECB_encrypt_block [OF cp ck])+
  have k1: "read_block (mem ?s1) key = ?K"
    using ck by (intro read_block_cong ECB_encrypt_frame) auto
  have rk': "KeyExpansion ?K ?rk = ?rk"
    by (rule KeyExpansion_old_contents) (simp_all add: rk)
  have "read_block (mem (AES128_ECB_decrypt c key q ?s1)) q =
        InvCipher (KeyExpansion (read_block (mem ?s1) key) (RoundKey ?s1)) (read_block (mem ?s1) c)"
    by (rule ECB_decrypt_block [OF qc qk])
  also have "\<dots> = InvCipher ?rk (Cipher ?rk (read_block (mem s) p))"
    by (simp only: c1 r1 k1 rk')
  also have "\<dots> = read_block (mem s) p"
    by (simp add: InvCipher_Cipher)
  finally show ?thesis .
qed

section \<open>The claims about the cipher and the ECB functions\<close>

text \<open>
  Two states for the instances below. In \<open>example_state\<close> the byte at address \<open>a\<close> is
  \<open>a mod 256\<close>; \<open>fips_state\<close> holds the plaintext of the test vector at address 256 and
  its key at address 512. \<^verbatim>\<open>RoundKey\<close> is zero, as static storage is before the first
  call.
\<close>

definition example_state :: aes_state where
  "example_state = \<lparr>mem = (\<lambda>a. of_nat a), RoundKey = replicate 176 0, Key = 0, Iv = 0\<rparr>"

definition fips_state :: aes_state where
  "fips_state =
     \<lparr>mem = write_block 512 fips_key (write_block 256 fips_plain (\<lambda>a. 0)),
      RoundKey = replicate 176 0, Key = 0, Iv = 0\<rparr>"

text \<open>
  Claim C2. The output of the forward cipher does not depend on the mask seed: for
  every 16-byte plaintext \<open>P\<close>, every key \<open>K\<close> (expanded over any old contents \<open>rk\<close> of
  \<^verbatim>\<open>RoundKey\<close>) and any two 16-byte seeds \<open>M1\<close> and \<open>M2\<close>, \<open>Cipher_seeded\<close> yields the
  same block.
\<close>

theorem Cipher_seed_independent:
  assumes "length P = 16" "length M1 = 16" "length M2 = 16"
  shows "Cipher_seeded M1 (KeyExpansion K rk) P = Cipher_seeded M2 (KeyExpansion K rk) P"
  by (simp add: Cipher_seeded_plain assms)

theorem Cipher_seed_independent_witness:
  "length fips_plain = 16 \<and> length rng = 16 \<and> length (replicate 16 (0::byte)) = 16 \<and>
   Cipher_seeded rng (KeyExpansion fips_key (replicate 176 0)) fips_plain =
   Cipher_seeded (replicate 16 0) (KeyExpansion fips_key (replicate 176 0)) fips_plain"
proof -
  have h1: "length fips_plain = 16" by (simp add: fips_plain_def)
  have h2: "length rng = 16" by (simp add: rng_def)
  have h3: "length (replicate 16 (0::byte)) = 16" by simp
  from h1 h2 h3 Cipher_seed_independent [OF h1 h2 h3, of fips_key "replicate 176 0"]
  show ?thesis by (intro conjI)
qed

text \<open>
  Claim C4. For every 16-byte plaintext at \<open>p\<close> and every 16-byte key at \<open>key\<close>:
  \<open>AES128_ECB_decrypt\<close>, applied with the same key to the block that
  \<open>AES128_ECB_encrypt\<close> wrote at \<open>c\<close>, writes the plaintext at \<open>q\<close>. The ciphertext block
  lies apart from the plaintext and the key, and the block \<open>q\<close> apart from the
  ciphertext and the key; \<^verbatim>\<open>RoundKey\<close> has its 176 bytes.
\<close>

theorem AES128_ECB_roundtrip:
  assumes "length (RoundKey s) = 176"
    and "c + 16 \<le> p \<or> p + 16 \<le> c"
    and "c + 16 \<le> key \<or> key + 16 \<le> c"
    and "q + 16 \<le> c \<or> c + 16 \<le> q"
    and "q + 16 \<le> key \<or> key + 16 \<le> q"
  shows "read_block (mem (AES128_ECB_decrypt c key q (AES128_ECB_encrypt p key c s))) q =
         read_block (mem s) p"
  using assms by (rule ECB_roundtrip)

theorem AES128_ECB_roundtrip_witness:
  "length (RoundKey example_state) = 176 \<and>
   ((768::nat) + 16 \<le> 256 \<or> (256::nat) + 16 \<le> 768) \<and>
   ((768::nat) + 16 \<le> 512 \<or> (512::nat) + 16 \<le> 768) \<and>
   ((1024::nat) + 16 \<le> 768 \<or> (768::nat) + 16 \<le> 1024) \<and>
   ((1024::nat) + 16 \<le> 512 \<or> (512::nat) + 16 \<le> 1024) \<and>
   read_block (mem (AES128_ECB_decrypt 768 512 1024 (AES128_ECB_encrypt 256 512 768 example_state)))
     1024 = read_block (mem example_state) 256"
proof -
  have h1: "length (RoundKey example_state) = 176" by (simp add: example_state_def)
  have h2: "(768::nat) + 16 \<le> 256 \<or> (256::nat) + 16 \<le> 768" by simp
  have h3: "(768::nat) + 16 \<le> 512 \<or> (512::nat) + 16 \<le> 768" by simp
  have h4: "(1024::nat) + 16 \<le> 768 \<or> (768::nat) + 16 \<le> 1024" by simp
  have h5: "(1024::nat) + 16 \<le> 512 \<or> (512::nat) + 16 \<le> 1024" by simp
  from h1 h2 h3 h4 h5 AES128_ECB_roundtrip [OF h1 h2 h3 h4 h5]
  show ?thesis by (intro conjI)
qed

text \<open>
  Claim C5. \<open>AES128_ECB_encrypt\<close> with the key
  \<^verbatim>\<open>2b7e151628aed2a6abf7158809cf4f3c\<close> and the plaintext block
  \<^verbatim>\<open>6bc1bee22e409f96e93d7e117393172a\<close> writes the ciphertext block
  \<^verbatim>\<open>3ad77bb40d7a3660a89ecaf32466ef97\<close>, wherever the three buffers are, as long as the
  output block is apart from the two others.
\<close>

theorem AES128_ECB_encrypt_test_vector:
  assumes "read_block (mem s) key =
      [0x2b, 0x7e, 0x15, 0x16, 0x28, 0xae, 0xd2, 0xa6,
       0xab, 0xf7, 0x15, 0x88, 0x09, 0xcf, 0x4f, 0x3c]"
    and "read_block (mem s) input =
      [0x6b, 0xc1, 0xbe, 0xe2, 0x2e, 0x40, 0x9f, 0x96,
       0xe9, 0x3d, 0x7e, 0x11, 0x73, 0x93, 0x17, 0x2a]"
    and "output + 16 \<le> input \<or> input + 16 \<le> output"
    and "output + 16 \<le> key \<or> key + 16 \<le> output"
    and "length (RoundKey s) = 176"
  shows "read_block (mem (AES128_ECB_encrypt input key output s)) output =
      [0x3a, 0xd7, 0x7b, 0xb4, 0x0d, 0x7a, 0x36, 0x60,
       0xa8, 0x9e, 0xca, 0xf3, 0x24, 0x66, 0xef, 0x97]"
proof -
  have "read_block (mem (AES128_ECB_encrypt input key output s)) output =
      Cipher (KeyExpansion fips_key (RoundKey s)) fips_plain"
    using assms(1,2) by (simp add: ECB_encrypt_block(1) [OF assms(3,4)] fips_key_def fips_plain_def)
  also have "\<dots> = fips_cipher"
    using assms(5) by (rule Cipher_fips)
  finally show ?thesis by (simp add: fips_cipher_def)
qed

theorem AES128_ECB_encrypt_test_vector_witness:
  "read_block (mem fips_state) 512 =
      [0x2b, 0x7e, 0x15, 0x16, 0x28, 0xae, 0xd2, 0xa6,
       0xab, 0xf7, 0x15, 0x88, 0x09, 0xcf, 0x4f, 0x3c] \<and>
   read_block (mem fips_state) 256 =
      [0x6b, 0xc1, 0xbe, 0xe2, 0x2e, 0x40, 0x9f, 0x96,
       0xe9, 0x3d, 0x7e, 0x11, 0x73, 0x93, 0x17, 0x2a] \<and>
   ((768::nat) + 16 \<le> 256 \<or> (256::nat) + 16 \<le> 768) \<and>
   ((768::nat) + 16 \<le> 512 \<or> (512::nat) + 16 \<le> 768) \<and>
   length (RoundKey fips_state) = 176 \<and>
   read_block (mem (AES128_ECB_encrypt 256 512 768 fips_state)) 768 =
      [0x3a, 0xd7, 0x7b, 0xb4, 0x0d, 0x7a, 0x36, 0x60,
       0xa8, 0x9e, 0xca, 0xf3, 0x24, 0x66, 0xef, 0x97]"
proof -
  have h1: "read_block (mem fips_state) 512 =
      [0x2b, 0x7e, 0x15, 0x16, 0x28, 0xae, 0xd2, 0xa6,
       0xab, 0xf7, 0x15, 0x88, 0x09, 0xcf, 0x4f, 0x3c]"
    by (simp add: fips_state_def read_write_same fips_key_def)
  have h2: "read_block (mem fips_state) 256 =
      [0x6b, 0xc1, 0xbe, 0xe2, 0x2e, 0x40, 0x9f, 0x96,
       0xe9, 0x3d, 0x7e, 0x11, 0x73, 0x93, 0x17, 0x2a]"
    by (simp add: fips_state_def read_write_same read_write_other fips_plain_def)
  have h3: "(768::nat) + 16 \<le> 256 \<or> (256::nat) + 16 \<le> 768" by simp
  have h4: "(768::nat) + 16 \<le> 512 \<or> (512::nat) + 16 \<le> 768" by simp
  have h5: "length (RoundKey fips_state) = 176" by (simp add: fips_state_def)
  from h1 h2 h3 h4 h5 AES128_ECB_encrypt_test_vector [OF h1 h2 h3 h4 h5]
  show ?thesis by (intro conjI)
qed

text \<open>
  Claim C10. \<open>AES128_ECB_encrypt\<close> and \<open>AES128_ECB_decrypt\<close> write memory in the sixteen
  bytes of the output block only (the other writes go to the file-scope variables
  \<^verbatim>\<open>RoundKey\<close> and \<^verbatim>\<open>Key\<close>). So an input block and a key that lie apart from the
  output block hold after the call what they held before.
\<close>

theorem AES128_ECB_frame:
  assumes "output + 16 \<le> input \<or> input + 16 \<le> output"
    and "output + 16 \<le> key \<or> key + 16 \<le> output"
  shows "read_block (mem (AES128_ECB_encrypt input key output s)) input = read_block (mem s) input \<and>
         read_block (mem (AES128_ECB_encrypt input key output s)) key = read_block (mem s) key \<and>
         read_block (mem (AES128_ECB_decrypt input key output s)) input = read_block (mem s) input \<and>
         read_block (mem (AES128_ECB_decrypt input key output s)) key = read_block (mem s) key \<and>
         (\<forall>a. a < output \<or> output + 16 \<le> a \<longrightarrow>
            mem (AES128_ECB_encrypt input key output s) a = mem s a \<and>
            mem (AES128_ECB_decrypt input key output s) a = mem s a)"
proof (intro conjI allI impI)
  show "read_block (mem (AES128_ECB_encrypt input key output s)) input = read_block (mem s) input"
    using assms(1) by (intro read_block_cong ECB_encrypt_frame) auto
  show "read_block (mem (AES128_ECB_encrypt input key output s)) key = read_block (mem s) key"
    using assms(2) by (intro read_block_cong ECB_encrypt_frame) auto
  show "read_block (mem (AES128_ECB_decrypt input key output s)) input = read_block (mem s) input"
    using assms(1) by (intro read_block_cong ECB_decrypt_frame) auto
  show "read_block (mem (AES128_ECB_decrypt input key output s)) key = read_block (mem s) key"
    using assms(2) by (intro read_block_cong ECB_decrypt_frame) auto
next
  fix a assume "a < output \<or> output + 16 \<le> a"
  then show "mem (AES128_ECB_encrypt input key output s) a = mem s a"
    by (rule ECB_encrypt_frame)
next
  fix a assume "a < output \<or> output + 16 \<le> a"
  then show "mem (AES128_ECB_decrypt input key output s) a = mem s a"
    by (rule ECB_decrypt_frame)
qed

theorem AES128_ECB_frame_witness:
  "((768::nat) + 16 \<le> 256 \<or> (256::nat) + 16 \<le> 768) \<and>
   ((768::nat) + 16 \<le> 512 \<or> (512::nat) + 16 \<le> 768) \<and>
   read_block (mem (AES128_ECB_encrypt 256 512 768 example_state)) 256 =
     read_block (mem example_state) 256 \<and>
   read_block (mem (AES128_ECB_encrypt 256 512 768 example_state)) 512 =
     read_block (mem example_state) 512 \<and>
   read_block (mem (AES128_ECB_decrypt 256 512 768 example_state)) 256 =
     read_block (mem example_state) 256 \<and>
   read_block (mem (AES128_ECB_decrypt 256 512 768 example_state)) 512 =
     read_block (mem example_state) 512 \<and>
   mem (AES128_ECB_encrypt 256 512 768 example_state) 767 = mem example_state 767 \<and>
   mem (AES128_ECB_decrypt 256 512 768 example_state) 784 = mem example_state 784"
proof -
  have h1: "(768::nat) + 16 \<le> 256 \<or> (256::nat) + 16 \<le> 768" by simp
  have h2: "(768::nat) + 16 \<le> 512 \<or> (512::nat) + 16 \<le> 768" by simp
  note t = AES128_ECB_frame [OF h1 h2, of example_state]
  from t have "mem (AES128_ECB_encrypt 256 512 768 example_state) 767 = mem example_state 767"
    by simp
  moreover from t
  have "mem (AES128_ECB_decrypt 256 512 768 example_state) 784 = mem example_state 784"
    by simp
  ultimately show ?thesis using h1 h2 t by (intro conjI) simp_all
qed

end
